theory Spec2Isabelle
  imports Complex_Main
begin

section \<open>Python values\<close>

text \<open>
  A Python float: a finite value or one of the three values that are not finite.
  The views only carry floats around and compare them; they never compute with them.
\<close>

datatype pyfloat = Finite real | PosInf | NegInf | NaN

text \<open>
  What \<^verbatim>\<open>json.loads\<close> returns. A number is carried as the float it converts to
  (an integer literal beyond the range of a float, on which \<^verbatim>\<open>float()\<close> raises
  OverflowError, is not a value of this type), so the literals \<^verbatim>\<open>1\<close> and \<^verbatim>\<open>1.0\<close> are one
  value here and the text \<^verbatim>\<open>str()\<close> gives for a number is known up to that only. An
  object is the list of its items; \<^verbatim>\<open>dict.get\<close> reads it with \<open>map_of\<close>.
\<close>

datatype json =
    JNull
  | JBool bool
  | JNum pyfloat
  | JStr string
  | JArr "json list"
  | JObj "(string \<times> json) list"

datatype exn =
    JSONDecodeError
  | AttributeError
  | TypeError
  | ValueError
  | UnboundLocalError
  | Http404
  | IntegrityError
  | ValidationError
  | RelatedObjectDoesNotExist

text \<open>
  Behaviour of the Python runtime and of the Django library that the views call and
  that is not code of this repository. Every view takes it as its first argument, and
  every theorem holds whatever these functions are.
  \<^item> \<open>float_str s\<close>: \<^verbatim>\<open>float(s)\<close> for a string, \<open>None\<close> when it raises ValueError;
  \<^item> \<open>str_of v\<close>: \<^verbatim>\<open>str(v)\<close> for a value that is not a string;
  \<^item> \<open>to_pk v\<close>: the integer key the ORM looks up for \<^verbatim>\<open>pk=v\<close>, or the exception it
    raises for a value it cannot turn into a key;
  \<^item> \<open>to_date s\<close>: the model field's \<^verbatim>\<open>DateField.to_python(s)\<close>, \<open>None\<close> when it raises
    ValidationError;
  \<^item> \<open>form_float s\<close>, \<open>form_date s\<close>: what \<^verbatim>\<open>forms.FloatField\<close> and \<^verbatim>\<open>forms.DateField\<close> clean
    a submitted string to (a float field accepts finite numbers only), \<open>None\<close> when the
    string is empty or refused.
\<close>

record pylib =
  float_str :: "string \<Rightarrow> pyfloat option"
  str_of :: "json \<Rightarrow> string"
  to_pk :: "json \<Rightarrow> exn + int"
  to_date :: "string \<Rightarrow> (nat \<times> nat \<times> nat) option"
  form_float :: "string \<Rightarrow> real option"
  form_date :: "string \<Rightarrow> (nat \<times> nat \<times> nat) option"

text \<open>\<^verbatim>\<open>bool(v)\<close>, the test of \<^verbatim>\<open>if v\<close> and \<^verbatim>\<open>if not v\<close>.\<close>

fun py_truthy :: "json \<Rightarrow> bool" where
  "py_truthy JNull = False"
| "py_truthy (JBool b) = b"
| "py_truthy (JNum f) = (f \<noteq> Finite 0)"
| "py_truthy (JStr s) = (s \<noteq> [])"
| "py_truthy (JArr xs) = (xs \<noteq> [])"
| "py_truthy (JObj kv) = (kv \<noteq> [])"

text \<open>\<^verbatim>\<open>float(v)\<close>: a bool is an int in Python, \<^verbatim>\<open>None\<close> and containers raise TypeError.\<close>

fun py_float :: "pylib \<Rightarrow> json \<Rightarrow> exn + pyfloat" where
  "py_float L (JNum f) = Inr f"
| "py_float L (JBool b) = Inr (Finite (if b then 1 else 0))"
| "py_float L (JStr s) = (case float_str L s of None \<Rightarrow> Inl ValueError | Some f \<Rightarrow> Inr f)"
| "py_float L JNull = Inl TypeError"
| "py_float L (JArr xs) = Inl TypeError"
| "py_float L (JObj kv) = Inl TypeError"

text \<open>\<^verbatim>\<open>str(v)\<close>, as an f-string and a CharField apply it.\<close>

fun py_str :: "pylib \<Rightarrow> json \<Rightarrow> string" where
  "py_str L (JStr s) = s"
| "py_str L v = str_of L v"

text \<open>
  \<^verbatim>\<open>data.get(key, default)\<close>: only a dict has \<^verbatim>\<open>get\<close>; on any other value the
  attribute lookup raises AttributeError. \<^verbatim>\<open>data.get(key)\<close> has the default \<^verbatim>\<open>None\<close>.
\<close>

fun dict_get_default :: "json \<Rightarrow> string \<Rightarrow> json \<Rightarrow> exn + json" where
  "dict_get_default (JObj kv) k d = Inr (case map_of kv k of None \<Rightarrow> d | Some v \<Rightarrow> v)"
| "dict_get_default v k d = Inl AttributeError"

definition dict_get :: "json \<Rightarrow> string \<Rightarrow> exn + json" where
  "dict_get data k = dict_get_default data k JNull"

text \<open>\<^verbatim>\<open>for x in v\<close>: a list gives its elements, a dict its keys, a string its
  characters; nothing else is iterable.\<close>

fun py_iter :: "json \<Rightarrow> exn + json list" where
  "py_iter (JArr xs) = Inr xs"
| "py_iter (JObj kv) = Inr (map (\<lambda>p. JStr (fst p)) kv)"
| "py_iter (JStr s) = Inr (map (\<lambda>c. JStr [c]) s)"
| "py_iter v = Inl TypeError"

section \<open>The entity store (models.py)\<close>

record Visit =
  v_id :: nat
  v_profile :: nat
  v_cafe :: nat
  date_visited :: "nat \<times> nat \<times> nat"
  user_rating :: pyfloat
  amount_spent :: pyfloat
  v_notes :: string

record VisitPhoto =
  vp_id :: nat
  vp_visit :: nat
  vp_image :: string
  vp_caption :: string

record FavoriteItem =
  fi_id :: nat
  fi_visit :: nat
  fi_name :: string
  fi_price :: pyfloat
  fi_rating :: pyfloat
  fi_description :: string

record ItemPhoto =
  ip_id :: nat
  ip_favorite_item :: nat
  ip_image :: string
  ip_caption :: string

record Sticker =
  st_id :: nat
  st_visit :: nat
  st_type :: nat
  x_position :: pyfloat
  y_position :: pyfloat
  rotation :: pyfloat
  scale :: pyfloat
  st_image :: string

record StickerType =
  stype_id :: nat
  stype_name :: string
  stype_image :: string

record CafeWish =
  w_id :: nat
  w_profile :: nat
  w_cafe :: nat
  visited :: bool

record Cafe =
  c_id :: nat
  c_name :: string

record store =
  cafes :: "Cafe list"
  wishes :: "CafeWish list"
  visits :: "Visit list"
  visit_photos :: "VisitPhoto list"
  favorite_items :: "FavoriteItem list"
  item_photos :: "ItemPhoto list"
  stickers :: "Sticker list"
  sticker_types :: "StickerType list"

text \<open>
  The key an AutoField gives a new row: one the table does not hold. The model takes
  one more than the largest key of the table, so that keys start at 1.
\<close>

definition next_id :: "nat list \<Rightarrow> nat" where
  "next_id ids = Suc (fold max ids 0)"

section \<open>Submitted forms\<close>

text \<open>An uploaded file: its name, and whether it is an image (whether the ImageField
  of a form accepts it).\<close>

record upload =
  up_name :: string
  up_is_image :: bool

text \<open>
  The data of one bound form of a photo formset (VisitPhotoForm, ItemPhotoForm: fields
  \<^verbatim>\<open>image\<close> and \<^verbatim>\<open>caption\<close>, and the formset's \<^verbatim>\<open>DELETE\<close> box), and of one bound
  FavoriteItemForm (fields \<^verbatim>\<open>name\<close>, \<^verbatim>\<open>price\<close>, \<^verbatim>\<open>rating\<close>, \<^verbatim>\<open>description\<close>). Text fields are
  as submitted, stripped. The management form of every formset is present and well
  formed, and no form carries a value for the hidden field of its parent.
\<close>

record photo_form =
  pf_image :: "upload option"
  pf_caption :: string
  pf_DELETE :: bool

record item_fields =
  if_name :: string
  if_price :: string
  if_rating :: string
  if_description :: string
  if_DELETE :: bool

text \<open>
  A bound FavoriteItemForm of the create page. The model of that page covers
  submissions with \<^verbatim>\<open>INITIAL_FORMS = 0\<close> whose forms carry no value for their hidden \<^verbatim>\<open>id\<close>,
  so that every form is an extra form and a formset's data is the list of its
  \<^verbatim>\<open>TOTAL_FORMS\<close> forms. \<^verbatim>\<open>get_context_data\<close> hangs the formset \<^verbatim>\<open>item_photos-i\<close> on the
  form as \<^verbatim>\<open>nested_photo_formset\<close>; \<open>None\<close> stands for a form without the attribute.
\<close>

record item_form = item_fields +
  nested_photo_formset :: "photo_form list option"

text \<open>
  The update page binds its formsets with \<^verbatim>\<open>instance=visit\<close>, so a form may stand for a
  row that exists. What a form submits in its hidden \<^verbatim>\<open>id\<close> field: nothing, a text that is
  not a key, or a key.
\<close>

datatype hidden_id = NoId | BadId | IdKey nat

text \<open>
  A bound form of a model formset (\<^verbatim>\<open>BaseModelFormSet._construct_form\<close>):
  \<^item> \<open>mf_pk_required\<close>: the form's index is below \<^verbatim>\<open>INITIAL_FORMS\<close> (an initial form);
  \<^item> \<open>mf_id\<close>: the submitted \<^verbatim>\<open>id\<close>;
  \<^item> \<open>mf_instance\<close>: for an initial form whose \<^verbatim>\<open>id\<close> is the key of a row of the
    formset's queryset, that row as read when the form was built; \<open>None\<close> stands for a
    fresh instance without a key;
  \<^item> \<open>mf_fields\<close>: the other fields.
\<close>

record ('f, 'r) model_form =
  mf_pk_required :: bool
  mf_id :: hidden_id
  mf_instance :: "'r option"
  mf_fields :: 'f

text \<open>The fields of a bound FavoriteItemForm of the update page, with the nested formset
  that \<^verbatim>\<open>VisitUpdateView.get_context_data\<close> hangs on it.\<close>

record update_item_fields = item_fields +
  update_nested_photo_formset :: "(photo_form, ItemPhoto) model_form list option"

section \<open>Responses\<close>

datatype response =
    JsonResponse "(string \<times> json) list" nat
  | HttpResponseBadRequest string
  | HttpResponseRedirect string nat
  | TemplateResponse string
  | CreateVisitPage string "photo_form list" "item_form list"
  | UpdateVisitPage string "(photo_form, VisitPhoto) model_form list"
      "(update_item_fields, FavoriteItem) model_form list"
  | HttpResponseNotFound
  | HttpResponseServerError exn

text \<open>
  \<open>HttpResponseNotFound\<close> is what Django answers when Http404 leaves a view,
  \<open>HttpResponseServerError e\<close> what it answers when any other exception does.
  \<open>CreateVisitPage\<close> and \<open>UpdateVisitPage\<close> are \<^verbatim>\<open>render_to_response(get_context_data(form=form))\<close>
  of the two visit views: the template's name and, of the context, the forms of
  \<^verbatim>\<open>visit_photo_formset\<close> and of \<^verbatim>\<open>favorite_item_formset\<close>, the latter with the nested
  formsets hung on them.
\<close>

fun status_code :: "response \<Rightarrow> nat" where
  "status_code (JsonResponse d n) = n"
| "status_code (HttpResponseBadRequest m) = 400"
| "status_code (HttpResponseRedirect name pk) = 302"
| "status_code (TemplateResponse t) = 200"
| "status_code (CreateVisitPage t photos items) = 200"
| "status_code (UpdateVisitPage t photos items) = 200"
| "status_code HttpResponseNotFound = 404"
| "status_code (HttpResponseServerError e) = 500"

text \<open>\<^verbatim>\<open>str(e)\<close>: the library's message text; the model keeps the name of the
  exception's class in its place.\<close>

fun exn_str :: "exn \<Rightarrow> string" where
  "exn_str JSONDecodeError = ''JSONDecodeError''"
| "exn_str AttributeError = ''AttributeError''"
| "exn_str TypeError = ''TypeError''"
| "exn_str ValueError = ''ValueError''"
| "exn_str UnboundLocalError = ''UnboundLocalError''"
| "exn_str Http404 = ''Http404''"
| "exn_str IntegrityError = ''IntegrityError''"
| "exn_str ValidationError = ''ValidationError''"
| "exn_str RelatedObjectDoesNotExist = ''RelatedObjectDoesNotExist''"

section \<open>Sticker controller (views.py)\<close>

text \<open>\<^verbatim>\<open>get_object_or_404(Model, pk=v)\<close> on a table with key selector \<open>key\<close>.\<close>

definition get_object_or_404 :: "pylib \<Rightarrow> ('r \<Rightarrow> nat) \<Rightarrow> 'r list \<Rightarrow> json \<Rightarrow> exn + 'r" where
  "get_object_or_404 L key rows v =
     (case to_pk L v of
        Inl e \<Rightarrow> Inl e
      | Inr k \<Rightarrow> (case find (\<lambda>r. int (key r) = k) rows of
                    None \<Rightarrow> Inl Http404
                  | Some r \<Rightarrow> Inr r))"

text \<open>\<^verbatim>\<open>get_object_or_404(StickerType, name=v)\<close>: \<^verbatim>\<open>name=None\<close> matches no row.\<close>

definition get_sticker_type_or_404 :: "pylib \<Rightarrow> StickerType list \<Rightarrow> json \<Rightarrow> exn + StickerType" where
  "get_sticker_type_or_404 L rows v =
     (if v = JNull then Inl Http404
      else case find (\<lambda>t. stype_name t = py_str L v) rows of
             None \<Rightarrow> Inl Http404
           | Some t \<Rightarrow> Inr t)"

text \<open>
  Sequencing of statements that may raise: the first exception ends the sequence.
\<close>

definition and_then :: "exn + 'a \<Rightarrow> ('a \<Rightarrow> exn + 'b) \<Rightarrow> exn + 'b" where
  "and_then m f = (case m of Inl e \<Rightarrow> Inl e | Inr a \<Rightarrow> f a)"

text \<open>\<^verbatim>\<open>float(data.get(key, default))\<close> and \<^verbatim>\<open>float(data.get(key))\<close>.\<close>

definition float_get_default :: "pylib \<Rightarrow> json \<Rightarrow> string \<Rightarrow> json \<Rightarrow> exn + pyfloat" where
  "float_get_default L data k d = and_then (dict_get_default data k d) (py_float L)"

definition float_get :: "pylib \<Rightarrow> json \<Rightarrow> string \<Rightarrow> exn + pyfloat" where
  "float_get L data k = and_then (dict_get data k) (py_float L)"

text \<open>
  The body of the \<^verbatim>\<open>try\<close> of \<^verbatim>\<open>PlaceStickerView.post\<close>, after \<^verbatim>\<open>json.loads\<close>, up
  to \<^verbatim>\<open>Sticker.objects.create\<close>: the exception raised, or the row to insert. The four
  conversions come before the two lookups, as in the source.
\<close>

definition place_sticker_row :: "pylib \<Rightarrow> json \<Rightarrow> store \<Rightarrow> exn + Sticker" where
  "place_sticker_row L data s =
    and_then (dict_get data ''visit_id'') (\<lambda>visit_id.
    and_then (dict_get data ''sticker_type'') (\<lambda>sticker_type_name.
    and_then (float_get_default L data ''x'' (JNum (Finite 0))) (\<lambda>x.
    and_then (float_get_default L data ''y'' (JNum (Finite 0))) (\<lambda>y.
    and_then (float_get_default L data ''rotation'' (JNum (Finite 0))) (\<lambda>r.
    and_then (float_get_default L data ''scale'' (JNum (Finite 1))) (\<lambda>sc.
    and_then (get_object_or_404 L v_id (visits s) visit_id) (\<lambda>visit.
    and_then (get_sticker_type_or_404 L (sticker_types s) sticker_type_name) (\<lambda>sticker_type_obj.
      Inr \<lparr>st_id = next_id (map st_id (stickers s)),
           st_visit = v_id visit,
           st_type = stype_id sticker_type_obj,
           x_position = x, y_position = y, rotation = r, scale = sc,
           st_image = stype_image sticker_type_obj\<rparr>))))))))"

text \<open>The whole \<^verbatim>\<open>try\<close> body: the exception raised, or the key of the new Sticker,
  with the store as the body leaves it.\<close>

definition place_sticker_try :: "pylib \<Rightarrow> json \<Rightarrow> store \<Rightarrow> (exn + nat) \<times> store" where
  "place_sticker_try L data s =
    (case place_sticker_row L data s of
       Inl e \<Rightarrow> (Inl e, s)
     | Inr new_sticker \<Rightarrow>
         (Inr (st_id new_sticker), s\<lparr>stickers := stickers s @ [new_sticker]\<rparr>))"

text \<open>
  \<^verbatim>\<open>PlaceStickerView.post\<close>, for a logged-in user. \<open>body\<close> is \<^verbatim>\<open>json.loads(request.body)\<close>,
  \<open>None\<close> when it raises JSONDecodeError: then \<^verbatim>\<open>data\<close> is never bound, the handler's
  own \<^verbatim>\<open>print\<close> of it raises, and that exception leaves the view.
\<close>

definition PlaceStickerView_post :: "pylib \<Rightarrow> json option \<Rightarrow> store \<Rightarrow> response \<times> store" where
  "PlaceStickerView_post L body s =
    (case body of
       None \<Rightarrow> (HttpResponseServerError UnboundLocalError, s)
     | Some data \<Rightarrow>
        (case place_sticker_try L data s of
           (Inr new_id, s') \<Rightarrow>
             (JsonResponse [(''status'', JStr ''success''),
                            (''id'', JNum (Finite (of_nat new_id)))] 200, s')
         | (Inl e, s') \<Rightarrow>
             (JsonResponse [(''status'', JStr ''error''),
                            (''message'', JStr (exn_str e))] 400, s')))"

text \<open>\<^verbatim>\<open>sticker.save()\<close>: the row with the sticker's key is overwritten.\<close>

definition save_sticker :: "Sticker \<Rightarrow> store \<Rightarrow> store" where
  "save_sticker sticker s =
     s\<lparr>stickers := map (\<lambda>r. if st_id r = st_id sticker then sticker else r) (stickers s)\<rparr>"

text \<open>
  The body of the \<^verbatim>\<open>try\<close> of \<^verbatim>\<open>UpdateStickerView.post\<close>, after \<^verbatim>\<open>json.loads\<close>, up
  to \<^verbatim>\<open>sticker.save()\<close>: the exception raised, or the sticker to save. The four
  assignments change the object in memory only.
\<close>

definition update_sticker_row :: "pylib \<Rightarrow> json \<Rightarrow> store \<Rightarrow> exn + Sticker" where
  "update_sticker_row L data s =
    and_then (dict_get data ''sticker_id'') (\<lambda>sticker_id.
    and_then (get_object_or_404 L st_id (stickers s) sticker_id) (\<lambda>sticker.
    and_then (float_get L data ''x'') (\<lambda>x.
    and_then (float_get L data ''y'') (\<lambda>y.
    and_then (float_get L data ''rotation'') (\<lambda>r.
    and_then (float_get L data ''scale'') (\<lambda>sc.
      Inr (sticker\<lparr>x_position := x, y_position := y, rotation := r, scale := sc\<rparr>)))))))"

definition update_sticker_try :: "pylib \<Rightarrow> json \<Rightarrow> store \<Rightarrow> (exn + unit) \<times> store" where
  "update_sticker_try L data s =
    (case update_sticker_row L data s of
       Inl e \<Rightarrow> (Inl e, s)
     | Inr sticker \<Rightarrow> (Inr (), save_sticker sticker s))"

definition UpdateStickerView_post :: "pylib \<Rightarrow> json option \<Rightarrow> store \<Rightarrow> response \<times> store" where
  "UpdateStickerView_post L body s =
    (case body of
       None \<Rightarrow> (HttpResponseServerError UnboundLocalError, s)
     | Some data \<Rightarrow>
        (case update_sticker_try L data s of
           (Inr u, s') \<Rightarrow> (JsonResponse [(''status'', JStr ''success'')] 200, s')
         | (Inl e, s') \<Rightarrow>
             (JsonResponse [(''status'', JStr ''error''),
                            (''message'', JStr (exn_str e))] 400, s')))"

text \<open>\<^verbatim>\<open>sticker.delete()\<close>: no model refers to a Sticker, so only its row goes.\<close>

definition delete_sticker :: "Sticker \<Rightarrow> store \<Rightarrow> store" where
  "delete_sticker sticker s =
     s\<lparr>stickers := filter (\<lambda>r. st_id r \<noteq> st_id sticker) (stickers s)\<rparr>"

text \<open>
  \<^verbatim>\<open>StickerDeleteView.post\<close>. The first \<^verbatim>\<open>try\<close> catches JSONDecodeError only, so the
  AttributeError of \<^verbatim>\<open>data.get\<close> on a body that is not an object leaves the view.
\<close>

definition StickerDeleteView_post :: "pylib \<Rightarrow> json option \<Rightarrow> store \<Rightarrow> response \<times> store" where
  "StickerDeleteView_post L body s =
    (case body of
       None \<Rightarrow> (HttpResponseBadRequest ''Invalid JSON format.'', s)
     | Some data \<Rightarrow>
        (case dict_get data ''sticker_id'' of
           Inl e \<Rightarrow> (HttpResponseServerError e, s)
         | Inr sticker_id \<Rightarrow>
            if \<not> py_truthy sticker_id
            then (HttpResponseBadRequest ''Missing sticker_id in request body.'', s)
            else (case get_object_or_404 L st_id (stickers s) sticker_id of
                    Inr sticker \<Rightarrow>
                      (JsonResponse [(''status'', JStr ''success''),
                                     (''message'', JStr (''Sticker '' @ py_str L sticker_id @ '' deleted.''))] 200,
                       delete_sticker sticker s)
                  | Inl e \<Rightarrow>
                      (JsonResponse [(''status'', JStr ''error''),
                                     (''message'', JStr (exn_str e))] 500, s))))"

section \<open>Wishlist (views.py)\<close>

text \<open>\<^verbatim>\<open>CafeWish.objects.filter(profile=profile, cafe=cafe).exists()\<close>.\<close>

definition wish_exists :: "nat \<Rightarrow> nat \<Rightarrow> store \<Rightarrow> bool" where
  "wish_exists profile cafe s =
     list_ex (\<lambda>w. w_profile w = profile \<and> w_cafe w = cafe) (wishes s)"

text \<open>
  \<^verbatim>\<open>CafeWish.objects.create(profile=profile, cafe=cafe)\<close>. The table is declared
  \<^verbatim>\<open>unique_together = ('profile', 'cafe')\<close>: the database refuses a second row for
  the pair with IntegrityError. \<^verbatim>\<open>visited\<close> has the default False.
\<close>

definition new_wish :: "nat \<Rightarrow> nat \<Rightarrow> store \<Rightarrow> CafeWish" where
  "new_wish profile cafe s =
     \<lparr>w_id = next_id (map w_id (wishes s)), w_profile = profile, w_cafe = cafe,
      visited = False\<rparr>"

definition create_wish :: "nat \<Rightarrow> nat \<Rightarrow> store \<Rightarrow> (exn + CafeWish) \<times> store" where
  "create_wish profile cafe s =
     (if wish_exists profile cafe s then (Inl IntegrityError, s)
      else (Inr (new_wish profile cafe s), s\<lparr>wishes := wishes s @ [new_wish profile cafe s]\<rparr>))"

text \<open>
  \<^verbatim>\<open>AddToWishlistView.post(request, cafe_pk)\<close> for a logged-in user. \<open>cafe_profile\<close> is
  \<^verbatim>\<open>request.user.cafe_profile\<close>, \<open>None\<close> when the user has no profile and the
  attribute raises. Nothing catches an exception here. The flash messages
  (\<^verbatim>\<open>messages.success\<close>, \<^verbatim>\<open>messages.info\<close>) live in the session and are left out.
\<close>

definition AddToWishlistView_post :: "nat option \<Rightarrow> nat \<Rightarrow> store \<Rightarrow> response \<times> store" where
  "AddToWishlistView_post cafe_profile cafe_pk s =
    (case find (\<lambda>c. c_id c = cafe_pk) (cafes s) of
       None \<Rightarrow> (HttpResponseNotFound, s)
     | Some cafe \<Rightarrow>
        (case cafe_profile of
           None \<Rightarrow> (HttpResponseServerError RelatedObjectDoesNotExist, s)
         | Some profile \<Rightarrow>
            if \<not> wish_exists profile (c_id cafe) s
            then (case create_wish profile (c_id cafe) s of
                    (Inl e, s') \<Rightarrow> (HttpResponseServerError e, s')
                  | (Inr w, s') \<Rightarrow> (HttpResponseRedirect ''show_cafe'' cafe_pk, s'))
            else (HttpResponseRedirect ''show_cafe'' cafe_pk, s)))"

text \<open>
  The \<^verbatim>\<open>try\<close> of \<^verbatim>\<open>AddWishlistView.post\<close>: the branch that adds the cafe chosen in
  \<^verbatim>\<open>cafe_choice\<close>, once the one-field form has validated it to the Cafe \<open>cafe_choice\<close>.
  Any exception is caught and the page rendered again.
\<close>

definition AddWishlistView_add_choice :: "nat option \<Rightarrow> Cafe \<Rightarrow> store \<Rightarrow> response \<times> store" where
  "AddWishlistView_add_choice cafe_profile cafe_choice s =
    (case cafe_profile of
       None \<Rightarrow> (TemplateResponse ''project/add_to_wishlist.html'', s)
     | Some profile \<Rightarrow>
        if \<not> wish_exists profile (c_id cafe_choice) s
        then (case create_wish profile (c_id cafe_choice) s of
                (Inl e, s') \<Rightarrow> (TemplateResponse ''project/add_to_wishlist.html'', s')
              | (Inr w, s') \<Rightarrow> (HttpResponseRedirect ''wishlist'' 0, s'))
        else (HttpResponseRedirect ''wishlist'' 0, s))"

text \<open>The constraint \<^verbatim>\<open>unique_together\<close> as a property of the table.\<close>

definition wish_unique :: "store \<Rightarrow> bool" where
  "wish_unique s = distinct (map (\<lambda>w. (w_profile w, w_cafe w)) (wishes s))"

section \<open>Requests\<close>

text \<open>
  What the visit views read of a request once LoginRequiredMixin has let it through:
  \<^item> \<open>cafe_profile\<close>: \<^verbatim>\<open>request.user.cafe_profile\<close>, \<open>None\<close> when the user has no profile
    and the attribute raises;
  \<^item> \<open>POST\<close>: \<^verbatim>\<open>request.POST.get\<close>;
  \<^item> \<open>FILES\<close>: the uploaded file under a key of \<^verbatim>\<open>request.FILES\<close>.
\<close>

record request =
  cafe_profile :: "nat option"
  POST :: "string \<Rightarrow> string option"
  FILES :: "string \<Rightarrow> upload option"

section \<open>Transactions\<close>

text \<open>
  A statement that writes returns the exception it raised or its value, together with
  the store as it left it: what was written before an exception stays written.
  \<^verbatim>\<open>with transaction.atomic():\<close> puts the store back as it was on entry when the
  block raises, and lets the exception through.
\<close>

definition atomic :: "(store \<Rightarrow> (exn + 'a) \<times> store) \<Rightarrow> store \<Rightarrow> (exn + 'a) \<times> store" where
  "atomic block s = (case block s of (Inl e, s') \<Rightarrow> (Inl e, s) | (Inr a, s') \<Rightarrow> (Inr a, s'))"

section \<open>Inserts of the visit models\<close>

text \<open>
  An insert converts the column values in the order of the model's fields
  (\<^verbatim>\<open>get_prep_value\<close>: \<^verbatim>\<open>float(v)\<close> for a FloatField, \<^verbatim>\<open>str(v)\<close> for a text field,
  \<^verbatim>\<open>to_python\<close> for a DateField), \<^verbatim>\<open>None\<close> staying \<^verbatim>\<open>None\<close>; then the database refuses
  a NULL in a column that is not nullable with IntegrityError. No column of these
  models is nullable.
\<close>

definition prep_float :: "pylib \<Rightarrow> json \<Rightarrow> exn + pyfloat option" where
  "prep_float L v = (if v = JNull then Inr None else and_then (py_float L v) (\<lambda>f. Inr (Some f)))"

definition prep_text :: "pylib \<Rightarrow> json \<Rightarrow> string option" where
  "prep_text L v = (if v = JNull then None else Some (py_str L v))"

definition prep_float_str :: "pylib \<Rightarrow> string option \<Rightarrow> exn + pyfloat option" where
  "prep_float_str L v =
     (case v of None \<Rightarrow> Inr None
      | Some str \<Rightarrow> (case float_str L str of None \<Rightarrow> Inl ValueError | Some f \<Rightarrow> Inr (Some f)))"

definition prep_date :: "pylib \<Rightarrow> string option \<Rightarrow> exn + (nat \<times> nat \<times> nat) option" where
  "prep_date L v =
     (case v of None \<Rightarrow> Inr None
      | Some str \<Rightarrow> (case to_date L str of None \<Rightarrow> Inl ValidationError | Some d \<Rightarrow> Inr (Some d)))"

definition not_null :: "'a option \<Rightarrow> exn + 'a" where
  "not_null v = (case v of None \<Rightarrow> Inl IntegrityError | Some a \<Rightarrow> Inr a)"

text \<open>\<^verbatim>\<open>Visit.objects.create(profile=..., cafe=..., date_visited=..., user_rating=...,
  amount_spent=..., notes=...)\<close> with values as \<^verbatim>\<open>request.POST.get\<close> returns them.\<close>

definition visit_row ::
  "pylib \<Rightarrow> nat \<Rightarrow> nat \<Rightarrow> string option \<Rightarrow> string option \<Rightarrow> string option \<Rightarrow> string option
     \<Rightarrow> store \<Rightarrow> exn + Visit" where
  "visit_row L profile cafe dv ur am nt s =
     and_then (prep_date L dv) (\<lambda>d.
     and_then (prep_float_str L ur) (\<lambda>r.
     and_then (prep_float_str L am) (\<lambda>a.
     and_then (not_null d) (\<lambda>d'.
     and_then (not_null r) (\<lambda>r'.
     and_then (not_null a) (\<lambda>a'.
     and_then (not_null nt) (\<lambda>n'.
       Inr \<lparr>v_id = next_id (map v_id (visits s)), v_profile = profile, v_cafe = cafe,
            date_visited = d', user_rating = r', amount_spent = a', v_notes = n'\<rparr>)))))))"

definition insert_visit :: "Visit \<Rightarrow> store \<Rightarrow> (exn + Visit) \<times> store" where
  "insert_visit v s = (Inr v, s\<lparr>visits := visits s @ [v]\<rparr>)"

definition create_visit ::
  "pylib \<Rightarrow> nat \<Rightarrow> nat \<Rightarrow> string option \<Rightarrow> string option \<Rightarrow> string option \<Rightarrow> string option
     \<Rightarrow> store \<Rightarrow> (exn + Visit) \<times> store" where
  "create_visit L profile cafe dv ur am nt s =
     (case visit_row L profile cafe dv ur am nt s of
        Inl e \<Rightarrow> (Inl e, s)
      | Inr v \<Rightarrow> insert_visit v s)"

text \<open>\<^verbatim>\<open>VisitPhoto.objects.create(visit=..., image=file, caption=caption)\<close>: the file is
  stored under \<^verbatim>\<open>visit_photos/\<close>; a model's \<^verbatim>\<open>create\<close> does not validate it.\<close>

definition create_visit_photo ::
  "pylib \<Rightarrow> nat \<Rightarrow> upload \<Rightarrow> json \<Rightarrow> store \<Rightarrow> (exn + VisitPhoto) \<times> store" where
  "create_visit_photo L visit file caption s =
     (case not_null (prep_text L caption) of
        Inl e \<Rightarrow> (Inl e, s)
      | Inr c \<Rightarrow>
          let p = \<lparr>vp_id = next_id (map vp_id (visit_photos s)), vp_visit = visit,
                   vp_image = ''visit_photos/'' @ up_name file, vp_caption = c\<rparr>
          in (Inr p, s\<lparr>visit_photos := visit_photos s @ [p]\<rparr>))"

text \<open>\<^verbatim>\<open>ItemPhoto.objects.create(favorite_item=..., image=file, caption=caption)\<close>.\<close>

definition create_item_photo ::
  "pylib \<Rightarrow> nat \<Rightarrow> upload \<Rightarrow> json \<Rightarrow> store \<Rightarrow> (exn + ItemPhoto) \<times> store" where
  "create_item_photo L favorite_item file caption s =
     (case not_null (prep_text L caption) of
        Inl e \<Rightarrow> (Inl e, s)
      | Inr c \<Rightarrow>
          let p = \<lparr>ip_id = next_id (map ip_id (item_photos s)), ip_favorite_item = favorite_item,
                   ip_image = ''item_photos/'' @ up_name file, ip_caption = c\<rparr>
          in (Inr p, s\<lparr>item_photos := item_photos s @ [p]\<rparr>))"

text \<open>\<^verbatim>\<open>FavoriteItem.objects.create(visit=..., name=..., price=..., rating=...,
  description=...)\<close> with values as \<^verbatim>\<open>item_data.get\<close> returns them.\<close>

definition favorite_item_row ::
  "pylib \<Rightarrow> nat \<Rightarrow> json \<Rightarrow> json \<Rightarrow> json \<Rightarrow> json \<Rightarrow> store \<Rightarrow> exn + FavoriteItem" where
  "favorite_item_row L visit name price rating description s =
     and_then (prep_float L price) (\<lambda>p.
     and_then (prep_float L rating) (\<lambda>r.
     and_then (not_null (prep_text L name)) (\<lambda>n'.
     and_then (not_null p) (\<lambda>p'.
     and_then (not_null r) (\<lambda>r'.
     and_then (not_null (prep_text L description)) (\<lambda>d'.
       Inr \<lparr>fi_id = next_id (map fi_id (favorite_items s)), fi_visit = visit, fi_name = n',
            fi_price = p', fi_rating = r', fi_description = d'\<rparr>))))))"

definition create_favorite_item ::
  "pylib \<Rightarrow> nat \<Rightarrow> json \<Rightarrow> json \<Rightarrow> json \<Rightarrow> json \<Rightarrow> store \<Rightarrow> (exn + FavoriteItem) \<times> store" where
  "create_favorite_item L visit name price rating description s =
     (case favorite_item_row L visit name price rating description s of
        Inl e \<Rightarrow> (Inl e, s)
      | Inr item \<Rightarrow> (Inr item, s\<lparr>favorite_items := favorite_items s @ [item]\<rparr>))"

section \<open>Protocol B: LogCafeVisitView (views.py)\<close>

text \<open>
  \<^verbatim>\<open>file_key and file_key in request.FILES\<close>, then \<^verbatim>\<open>request.FILES[file_key]\<close>: the file
  to store, \<open>None\<close> when the entry is skipped. A falsy key skips the entry before the
  lookup; a list or an object is not hashable and the lookup raises TypeError; a number
  or a bool is the key of no file.
\<close>

fun files_lookup :: "(string \<Rightarrow> upload option) \<Rightarrow> json \<Rightarrow> exn + upload option" where
  "files_lookup files (JStr k) = Inr (if k = [] then None else files k)"
| "files_lookup files (JArr xs) = (if xs = [] then Inr None else Inl TypeError)"
| "files_lookup files (JObj kv) = (if kv = [] then Inr None else Inl TypeError)"
| "files_lookup files v = Inr None"

text \<open>One entry of \<^verbatim>\<open>visitPhotos\<close> or of an item's \<^verbatim>\<open>photos\<close>, up to the \<^verbatim>\<open>create\<close>: the
  file to store and the caption, \<open>None\<close> when the entry is skipped.\<close>

definition photo_entry :: "(string \<Rightarrow> upload option) \<Rightarrow> json \<Rightarrow> exn + (upload \<times> json) option" where
  "photo_entry files photo_data =
     and_then (dict_get photo_data ''file_key'') (\<lambda>file_key.
     and_then (dict_get photo_data ''caption'') (\<lambda>caption.
     and_then (files_lookup files file_key) (\<lambda>f.
       Inr (map_option (\<lambda>file. (file, caption)) f))))"

text \<open>\<^verbatim>\<open>for photo_data in dynamic_data.get('visitPhotos', []):\<close>\<close>

fun visit_photos_loop ::
  "pylib \<Rightarrow> (string \<Rightarrow> upload option) \<Rightarrow> nat \<Rightarrow> json list \<Rightarrow> store \<Rightarrow> (exn + unit) \<times> store" where
  "visit_photos_loop L files new_visit [] s = (Inr (), s)"
| "visit_photos_loop L files new_visit (photo_data # rest) s =
     (case photo_entry files photo_data of
        Inl e \<Rightarrow> (Inl e, s)
      | Inr None \<Rightarrow> visit_photos_loop L files new_visit rest s
      | Inr (Some (file, caption)) \<Rightarrow>
          (case create_visit_photo L new_visit file caption s of
             (Inl e, s') \<Rightarrow> (Inl e, s')
           | (Inr p, s') \<Rightarrow> visit_photos_loop L files new_visit rest s'))"

text \<open>\<^verbatim>\<open>for item_photo_data in item_data.get('photos', []):\<close>\<close>

fun item_photos_loop ::
  "pylib \<Rightarrow> (string \<Rightarrow> upload option) \<Rightarrow> nat \<Rightarrow> json list \<Rightarrow> store \<Rightarrow> (exn + unit) \<times> store" where
  "item_photos_loop L files favorite_item [] s = (Inr (), s)"
| "item_photos_loop L files favorite_item (item_photo_data # rest) s =
     (case photo_entry files item_photo_data of
        Inl e \<Rightarrow> (Inl e, s)
      | Inr None \<Rightarrow> item_photos_loop L files favorite_item rest s
      | Inr (Some (file, caption)) \<Rightarrow>
          (case create_item_photo L favorite_item file caption s of
             (Inl e, s') \<Rightarrow> (Inl e, s')
           | (Inr p, s') \<Rightarrow> item_photos_loop L files favorite_item rest s'))"

text \<open>\<^verbatim>\<open>data.get(key, [])\<close> as the sequence a \<^verbatim>\<open>for\<close> runs over.\<close>

definition get_list :: "json \<Rightarrow> string \<Rightarrow> exn + json list" where
  "get_list data k = and_then (dict_get_default data k (JArr [])) py_iter"

text \<open>One named entry of \<^verbatim>\<open>favoriteItems\<close>: the FavoriteItem, then its photos.\<close>

definition favorite_item_entry ::
  "pylib \<Rightarrow> (string \<Rightarrow> upload option) \<Rightarrow> nat \<Rightarrow> json \<Rightarrow> json \<Rightarrow> store \<Rightarrow> (exn + unit) \<times> store" where
  "favorite_item_entry L files new_visit item_data name s =
     (case and_then (dict_get item_data ''price'') (\<lambda>price.
           and_then (dict_get item_data ''rating'') (\<lambda>rating.
           and_then (dict_get item_data ''description'') (\<lambda>description.
             Inr (price, rating, description)))) of
        Inl e \<Rightarrow> (Inl e, s)
      | Inr (price, rating, description) \<Rightarrow>
          (case create_favorite_item L new_visit name price rating description s of
             (Inl e, s') \<Rightarrow> (Inl e, s')
           | (Inr favorite_item, s') \<Rightarrow>
               (case get_list item_data ''photos'' of
                  Inl e \<Rightarrow> (Inl e, s')
                | Inr photos \<Rightarrow> item_photos_loop L files (fi_id favorite_item) photos s')))"

text \<open>\<^verbatim>\<open>for item_data in dynamic_data.get('favoriteItems', []):\<close> with its
  \<^verbatim>\<open>if not item_data.get('name'): continue\<close>.\<close>

fun favorite_items_loop ::
  "pylib \<Rightarrow> (string \<Rightarrow> upload option) \<Rightarrow> nat \<Rightarrow> json list \<Rightarrow> store \<Rightarrow> (exn + unit) \<times> store" where
  "favorite_items_loop L files new_visit [] s = (Inr (), s)"
| "favorite_items_loop L files new_visit (item_data # rest) s =
     (case dict_get item_data ''name'' of
        Inl e \<Rightarrow> (Inl e, s)
      | Inr name \<Rightarrow>
          if \<not> py_truthy name then favorite_items_loop L files new_visit rest s
          else (case favorite_item_entry L files new_visit item_data name s of
                  (Inl e, s') \<Rightarrow> (Inl e, s')
                | (Inr u, s') \<Rightarrow> favorite_items_loop L files new_visit rest s'))"

text \<open>The decoded \<^verbatim>\<open>dynamic_data\<close> field: absent or empty (\<open>Missing\<close>), not JSON
  (\<open>Malformed\<close>: \<^verbatim>\<open>json.loads\<close> raises JSONDecodeError), or the decoded value.\<close>

datatype payload = Missing | Malformed | Decoded json

record log_request = request +
  dynamic_data :: payload

text \<open>The block under \<^verbatim>\<open>with transaction.atomic():\<close> in \<^verbatim>\<open>LogCafeVisitView.post\<close>.\<close>

definition log_visit_block ::
  "pylib \<Rightarrow> log_request \<Rightarrow> Cafe \<Rightarrow> json \<Rightarrow> store \<Rightarrow> (exn + Visit) \<times> store" where
  "log_visit_block L req cafe data s =
     (case cafe_profile req of
        None \<Rightarrow> (Inl RelatedObjectDoesNotExist, s)
      | Some profile \<Rightarrow>
     (case create_visit L profile (c_id cafe) (POST req ''date_visited'') (POST req ''user_rating'')
             (POST req ''amount_spent'') (POST req ''notes'') s of
        (Inl e, s1) \<Rightarrow> (Inl e, s1)
      | (Inr new_visit, s1) \<Rightarrow>
     (case get_list data ''visitPhotos'' of
        Inl e \<Rightarrow> (Inl e, s1)
      | Inr photos \<Rightarrow>
     (case visit_photos_loop L (FILES req) (v_id new_visit) photos s1 of
        (Inl e, s2) \<Rightarrow> (Inl e, s2)
      | (Inr u, s2) \<Rightarrow>
     (case get_list data ''favoriteItems'' of
        Inl e \<Rightarrow> (Inl e, s2)
      | Inr items \<Rightarrow>
     (case favorite_items_loop L (FILES req) (v_id new_visit) items s2 of
        (Inl e, s3) \<Rightarrow> (Inl e, s3)
      | (Inr u', s3) \<Rightarrow> (Inr new_visit, s3)))))))"

text \<open>The three \<^verbatim>\<open>except\<close> clauses of \<^verbatim>\<open>LogCafeVisitView.post\<close>, in their order.\<close>

definition log_visit_except :: "exn \<Rightarrow> response" where
  "log_visit_except e =
     (if e = JSONDecodeError
      then JsonResponse [(''detail'', JStr ''Invalid JSON format in 'dynamic_data' field.'')] 400
      else if e = IntegrityError
      then JsonResponse [(''detail'', JStr ''A database error occurred (missing required data or constraint violation).'')] 500
      else JsonResponse [(''detail'', JStr (''An internal server error occurred: '' @ exn_str e))] 500)"

text \<open>
  \<^verbatim>\<open>LogCafeVisitView.post(request, cafe_pk)\<close>. The whole body is inside the \<^verbatim>\<open>try\<close>, the
  lookup of the cafe included. \<^verbatim>\<open>redirect_url\<close> is the URL of \<^verbatim>\<open>visit_detail\<close> for the
  new visit; the model keeps the visit's key in its place.
\<close>

definition LogCafeVisitView_post ::
  "pylib \<Rightarrow> log_request \<Rightarrow> nat \<Rightarrow> store \<Rightarrow> response \<times> store" where
  "LogCafeVisitView_post L req cafe_pk s =
     (case find (\<lambda>c. c_id c = cafe_pk) (cafes s) of
        None \<Rightarrow> (log_visit_except Http404, s)
      | Some cafe \<Rightarrow>
         (case dynamic_data req of
            Missing \<Rightarrow> (JsonResponse [(''detail'', JStr ''Missing 'dynamic_data' payload.'')] 400, s)
          | Malformed \<Rightarrow> (log_visit_except JSONDecodeError, s)
          | Decoded data \<Rightarrow>
             (case atomic (log_visit_block L req cafe data) s of
                (Inl e, s') \<Rightarrow> (log_visit_except e, s')
              | (Inr new_visit, s') \<Rightarrow>
                  (JsonResponse [(''success'', JBool True),
                                 (''detail'', JStr ''Visit logged successfully!''),
                                 (''redirect_url'', JNum (Finite (of_nat (v_id new_visit))))] 200,
                   s'))))"

section \<open>Forms and formsets (forms.py)\<close>

text \<open>
  A formset class as \<^verbatim>\<open>inlineformset_factory\<close> builds it. forms.py passes \<^verbatim>\<open>extra\<close> and
  \<^verbatim>\<open>max_num\<close> only; the other options keep the library's defaults: \<^verbatim>\<open>validate_max\<close> is
  off, \<^verbatim>\<open>absolute_max\<close> is \<^verbatim>\<open>max_num + 1000\<close>, \<^verbatim>\<open>can_delete\<close> is on.
\<close>

record formset_options =
  extra :: nat
  max_num :: nat
  validate_max :: bool
  absolute_max :: nat
  can_delete :: bool

definition inlineformset_factory :: "nat \<Rightarrow> nat \<Rightarrow> formset_options" where
  "inlineformset_factory n_extra n_max =
     \<lparr>extra = n_extra, max_num = n_max, validate_max = False,
      absolute_max = n_max + 1000, can_delete = True\<rparr>"

definition VisitPhotoFormSet :: formset_options where
  "VisitPhotoFormSet = inlineformset_factory 1 5"

definition ItemPhotoFormSetFactory :: formset_options where
  "ItemPhotoFormSetFactory = inlineformset_factory 1 2"

definition FavoriteItemFormSet :: formset_options where
  "FavoriteItemFormSet = inlineformset_factory 1 3"

text \<open>The forms a formset builds: \<^verbatim>\<open>total_form_count()\<close> is \<^verbatim>\<open>TOTAL_FORMS\<close> capped by
  \<^verbatim>\<open>absolute_max\<close>.\<close>

definition formset_forms :: "formset_options \<Rightarrow> 'f list \<Rightarrow> 'f list" where
  "formset_forms opts data = take (absolute_max opts) data"

text \<open>
  \<^verbatim>\<open>BaseFormSet.is_valid()\<close> of a bound formset. \<open>form_is_valid\<close> is the form's own
  \<^verbatim>\<open>is_valid()\<close>, \<open>DELETE\<close> its deletion box. A form marked for deletion is not asked.
  The count of forms is held against \<^verbatim>\<open>max_num\<close> only when \<^verbatim>\<open>validate_max\<close> is on, and
  against \<^verbatim>\<open>absolute_max\<close> always.
\<close>

definition formset_is_valid ::
  "formset_options \<Rightarrow> ('f \<Rightarrow> bool) \<Rightarrow> ('f \<Rightarrow> bool) \<Rightarrow> 'f list \<Rightarrow> bool" where
  "formset_is_valid opts form_is_valid DELETE data =
     (let forms = formset_forms opts data;
          deleted_forms = filter (\<lambda>f. can_delete opts \<and> DELETE f) forms
      in list_all (\<lambda>f. (can_delete opts \<and> DELETE f) \<or> form_is_valid f) forms
         \<and> \<not> ((validate_max opts \<and> length forms - length deleted_forms > max_num opts)
               \<or> length data > absolute_max opts))"

text \<open>
  A photo form. \<^verbatim>\<open>has_changed()\<close>: a file was uploaded, a caption typed or the box
  ticked. An extra form that has not changed is valid (\<^verbatim>\<open>empty_permitted\<close>) and has an
  empty \<^verbatim>\<open>cleaned_data\<close>; one that has changed needs its image.
\<close>

definition photo_has_changed :: "photo_form \<Rightarrow> bool" where
  "photo_has_changed f \<longleftrightarrow> pf_image f \<noteq> None \<or> pf_caption f \<noteq> [] \<or> pf_DELETE f"

definition photo_fields_valid :: "photo_form \<Rightarrow> bool" where
  "photo_fields_valid f = (case pf_image f of None \<Rightarrow> False | Some file \<Rightarrow> up_is_image file)"

definition photo_form_is_valid :: "photo_form \<Rightarrow> bool" where
  "photo_form_is_valid f \<longleftrightarrow> \<not> photo_has_changed f \<or> photo_fields_valid f"

text \<open>A FavoriteItemForm: \<^verbatim>\<open>name\<close> (at most 255 characters), \<^verbatim>\<open>price\<close> and \<^verbatim>\<open>rating\<close>
  are required, \<^verbatim>\<open>description\<close> is not.\<close>

definition item_has_changed :: "'a item_fields_scheme \<Rightarrow> bool" where
  "item_has_changed f \<longleftrightarrow>
     if_name f \<noteq> [] \<or> if_price f \<noteq> [] \<or> if_rating f \<noteq> [] \<or> if_description f \<noteq> []
     \<or> if_DELETE f"

definition item_fields_valid :: "pylib \<Rightarrow> 'a item_fields_scheme \<Rightarrow> bool" where
  "item_fields_valid L f \<longleftrightarrow>
     if_name f \<noteq> [] \<and> length (if_name f) \<le> 255
     \<and> form_float L (if_price f) \<noteq> None \<and> form_float L (if_rating f) \<noteq> None"

definition item_form_is_valid :: "pylib \<Rightarrow> 'a item_fields_scheme \<Rightarrow> bool" where
  "item_form_is_valid L f \<longleftrightarrow> \<not> item_has_changed f \<or> item_fields_valid L f"

text \<open>
  VisitForm over \<^verbatim>\<open>request.POST\<close>: \<^verbatim>\<open>date_visited\<close> and \<^verbatim>\<open>user_rating\<close> (0 to 5) are
  required, \<^verbatim>\<open>amount_spent\<close> (at least 0) and \<^verbatim>\<open>notes\<close> are not. The result is the
  form's \<^verbatim>\<open>cleaned_data\<close>, \<open>None\<close> when the form has errors.
\<close>

record visit_cleaned =
  cd_date_visited :: "nat \<times> nat \<times> nat"
  cd_user_rating :: real
  cd_amount_spent :: "real option"
  cd_notes :: string

definition field_value :: "(string \<Rightarrow> string option) \<Rightarrow> string \<Rightarrow> string" where
  "field_value post k = (case post k of None \<Rightarrow> [] | Some v \<Rightarrow> v)"

definition VisitForm_clean :: "pylib \<Rightarrow> (string \<Rightarrow> string option) \<Rightarrow> visit_cleaned option" where
  "VisitForm_clean L post =
     (case form_date L (field_value post ''date_visited'') of
        None \<Rightarrow> None
      | Some d \<Rightarrow>
     (case form_float L (field_value post ''user_rating'') of
        None \<Rightarrow> None
      | Some r \<Rightarrow>
         if \<not> (0 \<le> r \<and> r \<le> 5) then None
         else if field_value post ''amount_spent'' = []
         then Some \<lparr>cd_date_visited = d, cd_user_rating = r, cd_amount_spent = None,
                    cd_notes = field_value post ''notes''\<rparr>
         else (case form_float L (field_value post ''amount_spent'') of
                 None \<Rightarrow> None
               | Some a \<Rightarrow>
                   if \<not> 0 \<le> a then None
                   else Some \<lparr>cd_date_visited = d, cd_user_rating = r, cd_amount_spent = Some a,
                              cd_notes = field_value post ''notes''\<rparr>)))"

definition VisitForm_is_valid :: "pylib \<Rightarrow> (string \<Rightarrow> string option) \<Rightarrow> bool" where
  "VisitForm_is_valid L post \<longleftrightarrow> VisitForm_clean L post \<noteq> None"

section \<open>Protocol A: VisitCreateView (views.py)\<close>

text \<open>
  What the request carries for FavoriteItem form \<open>i\<close> of the create page: the form's own
  fields and the data of the formset \<^verbatim>\<open>item_photos-i\<close>.
\<close>

record item_data = item_fields +
  item_photos_data :: "photo_form list"

record form_request = request +
  photos_data :: "photo_form list"
  items_data :: "item_data list"

text \<open>The bound item forms of \<^verbatim>\<open>VisitCreateView.get_context_data\<close>: every form of the
  formset gets its nested formset, bound to the data of \<^verbatim>\<open>item_photos-i\<close>.\<close>

definition bind_item_form :: "item_data \<Rightarrow> item_form" where
  "bind_item_form d =
     \<lparr>if_name = if_name d, if_price = if_price d, if_rating = if_rating d,
      if_description = if_description d, if_DELETE = if_DELETE d,
      nested_photo_formset = Some (item_photos_data d)\<rparr>"

definition favorite_item_forms :: "form_request \<Rightarrow> item_form list" where
  "favorite_item_forms req = map bind_item_form (formset_forms FavoriteItemFormSet (items_data req))"

text \<open>\<^verbatim>\<open>item_form.nested_photo_formset.is_valid()\<close>.\<close>

definition nested_is_valid :: "photo_form list \<Rightarrow> bool" where
  "nested_is_valid data = formset_is_valid ItemPhotoFormSetFactory photo_form_is_valid pf_DELETE data"

text \<open>
  The loop of \<^verbatim>\<open>form_valid\<close> that checks the nested formsets, the same in
  VisitCreateView and VisitUpdateView: \<^verbatim>\<open>all_nested_valid\<close>, and the item forms whose
  nested formset it validated, in order. It stops at the first invalid one (\<^verbatim>\<open>break\<close>).
  \<^verbatim>\<open>cleaned_data.get('DELETE', False)\<close> is the form's deletion box.
\<close>

fun check_nested :: "item_form list \<Rightarrow> bool \<times> item_form list" where
  "check_nested [] = (True, [])"
| "check_nested (item_form # rest) =
     (case nested_photo_formset item_form of
        Some nested \<Rightarrow>
          if \<not> if_DELETE item_form
          then (if \<not> nested_is_valid nested then (False, [item_form])
                else (fst (check_nested rest), item_form # snd (check_nested rest)))
          else check_nested rest
      | None \<Rightarrow> check_nested rest)"

text \<open>\<^verbatim>\<open>self.object.save()\<close> for the Visit built by \<^verbatim>\<open>form.save(commit=False)\<close>, with
  \<^verbatim>\<open>profile\<close> and \<^verbatim>\<open>cafe\<close> assigned by the view. \<^verbatim>\<open>amount_spent\<close> is not nullable in
  the table: a form that left it blank saves NULL and the database refuses.\<close>

definition save_visit :: "nat \<Rightarrow> nat \<Rightarrow> visit_cleaned \<Rightarrow> store \<Rightarrow> (exn + Visit) \<times> store" where
  "save_visit profile cafe cd s =
     (case cd_amount_spent cd of
        None \<Rightarrow> (Inl IntegrityError, s)
      | Some a \<Rightarrow>
          insert_visit \<lparr>v_id = next_id (map v_id (visits s)), v_profile = profile, v_cafe = cafe,
                        date_visited = cd_date_visited cd, user_rating = Finite (cd_user_rating cd),
                        amount_spent = Finite a, v_notes = cd_notes cd\<rparr> s)"

text \<open>
  \<^verbatim>\<open>formset.save()\<close> of a photo formset with no initial forms (\<^verbatim>\<open>save_new_objects\<close>): a
  form that has not changed or is marked for deletion is passed over, every other form
  is saved; saving a form that has errors raises ValueError.
\<close>

fun save_visit_photos :: "nat \<Rightarrow> photo_form list \<Rightarrow> store \<Rightarrow> (exn + unit) \<times> store" where
  "save_visit_photos visit [] s = (Inr (), s)"
| "save_visit_photos visit (form # rest) s =
     (if \<not> photo_has_changed form then save_visit_photos visit rest s
      else if can_delete VisitPhotoFormSet \<and> pf_DELETE form then save_visit_photos visit rest s
      else (case pf_image form of
              None \<Rightarrow> (Inl ValueError, s)
            | Some file \<Rightarrow>
                if \<not> up_is_image file then (Inl ValueError, s)
                else save_visit_photos visit rest
                       (s\<lparr>visit_photos := visit_photos s @
                            [\<lparr>vp_id = next_id (map vp_id (visit_photos s)), vp_visit = visit,
                              vp_image = ''visit_photos/'' @ up_name file,
                              vp_caption = pf_caption form\<rparr>]\<rparr>)))"

fun save_item_photos :: "nat \<Rightarrow> photo_form list \<Rightarrow> store \<Rightarrow> (exn + unit) \<times> store" where
  "save_item_photos favorite_item [] s = (Inr (), s)"
| "save_item_photos favorite_item (form # rest) s =
     (if \<not> photo_has_changed form then save_item_photos favorite_item rest s
      else if can_delete ItemPhotoFormSetFactory \<and> pf_DELETE form
      then save_item_photos favorite_item rest s
      else (case pf_image form of
              None \<Rightarrow> (Inl ValueError, s)
            | Some file \<Rightarrow>
                if \<not> up_is_image file then (Inl ValueError, s)
                else save_item_photos favorite_item rest
                       (s\<lparr>item_photos := item_photos s @
                            [\<lparr>ip_id = next_id (map ip_id (item_photos s)),
                              ip_favorite_item = favorite_item,
                              ip_image = ''item_photos/'' @ up_name file,
                              ip_caption = pf_caption form\<rparr>]\<rparr>)))"

text \<open>\<^verbatim>\<open>item_form.save(commit=False)\<close>, \<^verbatim>\<open>favorite_item.visit = self.object\<close>,
  \<^verbatim>\<open>favorite_item.save()\<close>.\<close>

definition save_favorite_item ::
  "pylib \<Rightarrow> nat \<Rightarrow> item_form \<Rightarrow> store \<Rightarrow> (exn + FavoriteItem) \<times> store" where
  "save_favorite_item L visit item_form s =
     (case (form_float L (if_price item_form), form_float L (if_rating item_form)) of
        (Some p, Some r) \<Rightarrow>
          if if_name item_form = [] \<or> length (if_name item_form) > 255 then (Inl ValueError, s)
          else let favorite_item =
                     \<lparr>fi_id = next_id (map fi_id (favorite_items s)), fi_visit = visit,
                      fi_name = if_name item_form, fi_price = Finite p, fi_rating = Finite r,
                      fi_description = if_description item_form\<rparr>
               in (Inr favorite_item, s\<lparr>favorite_items := favorite_items s @ [favorite_item]\<rparr>)
      | _ \<Rightarrow> (Inl ValueError, s))"

text \<open>
  The loop over \<^verbatim>\<open>favorite_item_formset.forms\<close> inside the transaction of
  \<^verbatim>\<open>VisitCreateView.form_valid\<close>. \<^verbatim>\<open>item_form.cleaned_data\<close> is empty exactly for a form
  that has not changed. In the create view a form marked for deletion has an instance
  without a key, and \<^verbatim>\<open>item_form.instance.delete()\<close> raises (ValueError; an
  AssertionError in older versions of the library).
\<close>

fun save_item_forms :: "pylib \<Rightarrow> nat \<Rightarrow> item_form list \<Rightarrow> store \<Rightarrow> (exn + unit) \<times> store" where
  "save_item_forms L visit [] s = (Inr (), s)"
| "save_item_forms L visit (item_form # rest) s =
     (if item_has_changed item_form \<and> \<not> if_DELETE item_form
      then (case save_favorite_item L visit item_form s of
              (Inl e, s') \<Rightarrow> (Inl e, s')
            | (Inr favorite_item, s') \<Rightarrow>
                (case nested_photo_formset item_form of
                   None \<Rightarrow> save_item_forms L visit rest s'
                 | Some nested \<Rightarrow>
                     (case save_item_photos (fi_id favorite_item)
                             (formset_forms ItemPhotoFormSetFactory nested) s' of
                        (Inl e, s'') \<Rightarrow> (Inl e, s'')
                      | (Inr u, s'') \<Rightarrow> save_item_forms L visit rest s'')))
      else if item_has_changed item_form \<and> if_DELETE item_form
      then (Inl ValueError, s)
      else save_item_forms L visit rest s)"

text \<open>The block under \<^verbatim>\<open>with transaction.atomic():\<close> in \<^verbatim>\<open>VisitCreateView.form_valid\<close>.\<close>

definition visit_create_block ::
  "pylib \<Rightarrow> form_request \<Rightarrow> Cafe \<Rightarrow> visit_cleaned \<Rightarrow> store \<Rightarrow> (exn + Visit) \<times> store" where
  "visit_create_block L req cafe cd s =
     (case cafe_profile req of
        None \<Rightarrow> (Inl RelatedObjectDoesNotExist, s)
      | Some profile \<Rightarrow>
     (case save_visit profile (c_id cafe) cd s of
        (Inl e, s1) \<Rightarrow> (Inl e, s1)
      | (Inr object, s1) \<Rightarrow>
     (case save_visit_photos (v_id object) (formset_forms VisitPhotoFormSet (photos_data req)) s1 of
        (Inl e, s2) \<Rightarrow> (Inl e, s2)
      | (Inr u, s2) \<Rightarrow>
     (case save_item_forms L (v_id object) (favorite_item_forms req) s2 of
        (Inl e, s3) \<Rightarrow> (Inl e, s3)
      | (Inr u', s3) \<Rightarrow> (Inr object, s3)))))"

text \<open>
  \<^verbatim>\<open>self.render_to_response(self.get_context_data(form=form))\<close> of VisitCreateView:
  \<^verbatim>\<open>get_context_data\<close> binds both formsets to the request again and hangs a nested formset
  on every item form.
\<close>

definition VisitCreateView_render :: "form_request \<Rightarrow> response" where
  "VisitCreateView_render req =
     CreateVisitPage ''project/create_visit.html''
       (formset_forms VisitPhotoFormSet (photos_data req)) (favorite_item_forms req)"

text \<open>
  \<^verbatim>\<open>VisitCreateView.form_valid\<close>. Rendering the page again writes nothing; an exception
  raised inside the transaction leaves the view after the rollback.
\<close>

definition VisitCreateView_form_valid ::
  "pylib \<Rightarrow> form_request \<Rightarrow> Cafe \<Rightarrow> store \<Rightarrow> response \<times> store" where
  "VisitCreateView_form_valid L req cafe s =
     (case VisitForm_clean L (POST req) of
        None \<Rightarrow> (VisitCreateView_render req, s)
      | Some cd \<Rightarrow>
         if \<not> formset_is_valid VisitPhotoFormSet photo_form_is_valid pf_DELETE (photos_data req)
            \<or> \<not> formset_is_valid FavoriteItemFormSet (item_form_is_valid L) if_DELETE (items_data req)
         then (VisitCreateView_render req, s)
         else if \<not> fst (check_nested (favorite_item_forms req))
         then (VisitCreateView_render req, s)
         else (case atomic (visit_create_block L req cafe cd) s of
                 (Inl e, s') \<Rightarrow> (HttpResponseServerError e, s')
               | (Inr object, s') \<Rightarrow> (HttpResponseRedirect ''visit_detail'' (v_id object), s')))"

text \<open>
  \<^verbatim>\<open>VisitCreateView\<close> on a POST: \<^verbatim>\<open>dispatch\<close> loads the cafe of the route (Http404 leaves
  the view), \<^verbatim>\<open>post\<close> calls \<^verbatim>\<open>form_valid\<close> when the VisitForm is valid and renders the page
  again (\<^verbatim>\<open>form_invalid\<close>) when it is not.
\<close>

definition VisitCreateView_post :: "pylib \<Rightarrow> form_request \<Rightarrow> nat \<Rightarrow> store \<Rightarrow> response \<times> store" where
  "VisitCreateView_post L req cafe_pk s =
     (case find (\<lambda>c. c_id c = cafe_pk) (cafes s) of
        None \<Rightarrow> (HttpResponseNotFound, s)
      | Some cafe \<Rightarrow>
          if VisitForm_is_valid L (POST req) then VisitCreateView_form_valid L req cafe s
          else (VisitCreateView_render req, s))"

text \<open>What a Protocol A request is expected to write: the photo forms and item forms
  that have changed and are not marked for deletion.\<close>

definition photo_submitted :: "photo_form \<Rightarrow> bool" where
  "photo_submitted f \<longleftrightarrow> photo_has_changed f \<and> \<not> pf_DELETE f"

definition item_submitted :: "'a item_fields_scheme \<Rightarrow> bool" where
  "item_submitted f \<longleftrightarrow> item_has_changed f \<and> \<not> if_DELETE f"

text \<open>The photo forms of an item form's nested formset that are expected to be
  written.\<close>

definition nested_submitted :: "item_form \<Rightarrow> nat" where
  "nested_submitted f =
     (case nested_photo_formset f of
        None \<Rightarrow> 0
      | Some nested \<Rightarrow> length (filter photo_submitted (formset_forms ItemPhotoFormSetFactory nested)))"

text \<open>The item forms whose nested formset the check of \<^verbatim>\<open>form_valid\<close> is about (not
  marked for deletion, with a nested formset attached), and whether an item form's
  nested formset is valid.\<close>

definition nested_candidates :: "item_form list \<Rightarrow> item_form list" where
  "nested_candidates forms = filter (\<lambda>f. \<not> if_DELETE f \<and> nested_photo_formset f \<noteq> None) forms"

definition nested_ok :: "item_form \<Rightarrow> bool" where
  "nested_ok f = (case nested_photo_formset f of None \<Rightarrow> True | Some nested \<Rightarrow> nested_is_valid nested)"

section \<open>Protocol A: VisitUpdateView (views.py)\<close>

text \<open>
  What the update page submits for one model formset: \<^verbatim>\<open>INITIAL_FORMS\<close> and, for each
  of the \<^verbatim>\<open>TOTAL_FORMS\<close> forms, the hidden \<^verbatim>\<open>id\<close> and the other fields. For a
  FavoriteItem form \<open>i\<close> these carry the data of the formset \<^verbatim>\<open>item_photos-i\<close>.
\<close>

record 'f formset_post =
  INITIAL_FORMS :: nat
  forms_post :: "(hidden_id \<times> 'f) list"

record update_item_data = item_fields +
  item_photos_post :: "photo_form formset_post"

record update_request = request +
  photos_post :: "photo_form formset_post"
  items_post :: "update_item_data formset_post"

text \<open>
  \<^verbatim>\<open>BaseModelFormSet._existing_object\<close> and \<^verbatim>\<open>_construct_form\<close>: a form whose index is below
  \<^verbatim>\<open>initial_form_count()\<close>, which for a bound formset is the submitted \<^verbatim>\<open>INITIAL_FORMS\<close>,
  gets the row of the queryset that its \<^verbatim>\<open>id\<close> names; every other form, and a form whose
  \<^verbatim>\<open>id\<close> names no row of the queryset, gets a fresh instance.
\<close>

definition existing_object :: "('r \<Rightarrow> nat) \<Rightarrow> 'r list \<Rightarrow> hidden_id \<Rightarrow> 'r option" where
  "existing_object key queryset k =
     (case k of IdKey pk \<Rightarrow> find (\<lambda>r. key r = pk) queryset | _ \<Rightarrow> None)"

definition construct_form ::
  "('r \<Rightarrow> nat) \<Rightarrow> 'r list \<Rightarrow> nat \<Rightarrow> nat \<Rightarrow> hidden_id \<times> 'f \<Rightarrow> ('f, 'r) model_form" where
  "construct_form key queryset initial_form_count i d =
     \<lparr>mf_pk_required = (i < initial_form_count), mf_id = fst d,
      mf_instance = (if i < initial_form_count then existing_object key queryset (fst d) else None),
      mf_fields = snd d\<rparr>"

text \<open>The bound forms of a model formset over the rows \<open>queryset\<close> of its parent, one for
  each submitted form.\<close>

definition model_formset ::
  "('r \<Rightarrow> nat) \<Rightarrow> 'r list \<Rightarrow> 'f formset_post \<Rightarrow> ('f, 'r) model_form list" where
  "model_formset key queryset data =
     map (\<lambda>(i, d). construct_form key queryset (INITIAL_FORMS data) i d)
       (enumerate 0 (forms_post data))"

text \<open>
  \<^verbatim>\<open>VisitUpdateView.get_context_data\<close> on a POST that carries data: both formsets are bound with
  \<^verbatim>\<open>instance=visit\<close>, and a nested formset, bound with \<^verbatim>\<open>instance=form.instance\<close>, is hung on
  each item form whose instance has a key (\<^verbatim>\<open>if form.instance.pk\<close>).
\<close>

definition update_visit_photo_formset ::
  "update_request \<Rightarrow> Visit \<Rightarrow> store \<Rightarrow> (photo_form, VisitPhoto) model_form list" where
  "update_visit_photo_formset req visit s =
     model_formset vp_id (filter (\<lambda>p. vp_visit p = v_id visit) (visit_photos s)) (photos_post req)"

definition nested_formset_for ::
  "store \<Rightarrow> (update_item_data, FavoriteItem) model_form
     \<Rightarrow> (photo_form, ItemPhoto) model_form list option" where
  "nested_formset_for s form =
     (case mf_instance form of
        None \<Rightarrow> None
      | Some item \<Rightarrow>
          if fi_id item = 0 then None
          else Some (model_formset ip_id
                       (filter (\<lambda>p. ip_favorite_item p = fi_id item) (item_photos s))
                       (item_photos_post (mf_fields form))))"

definition bind_update_item_form ::
  "store \<Rightarrow> (update_item_data, FavoriteItem) model_form
     \<Rightarrow> (update_item_fields, FavoriteItem) model_form" where
  "bind_update_item_form s form =
     \<lparr>mf_pk_required = mf_pk_required form, mf_id = mf_id form, mf_instance = mf_instance form,
      mf_fields =
        \<lparr>if_name = if_name (mf_fields form), if_price = if_price (mf_fields form),
         if_rating = if_rating (mf_fields form), if_description = if_description (mf_fields form),
         if_DELETE = if_DELETE (mf_fields form),
         update_nested_photo_formset = nested_formset_for s form\<rparr>\<rparr>"

definition update_favorite_item_formset ::
  "update_request \<Rightarrow> Visit \<Rightarrow> store \<Rightarrow> (update_item_fields, FavoriteItem) model_form list" where
  "update_favorite_item_formset req visit s =
     map (bind_update_item_form s)
       (model_formset fi_id (filter (\<lambda>i. fi_visit i = v_id visit) (favorite_items s))
          (items_post req))"

text \<open>
  The hidden \<^verbatim>\<open>id\<close> field of a form of a model formset is a ModelChoiceField over all
  rows of the model, \<open>keys\<close> being their keys; it is required on an initial form.
  \<^verbatim>\<open>has_changed()\<close> holds its data against the key of the form's instance.
\<close>

definition id_field_valid :: "nat list \<Rightarrow> ('f, 'r) model_form \<Rightarrow> bool" where
  "id_field_valid keys f =
     (case mf_id f of NoId \<Rightarrow> \<not> mf_pk_required f | BadId \<Rightarrow> False | IdKey k \<Rightarrow> k \<in> set keys)"

definition id_has_changed :: "('r \<Rightarrow> nat) \<Rightarrow> ('f, 'r) model_form \<Rightarrow> bool" where
  "id_has_changed key f \<longleftrightarrow>
     mf_id f \<noteq> (case mf_instance f of None \<Rightarrow> NoId | Some r \<Rightarrow> IdKey (key r))"

text \<open>
  A photo form of the update page. \<^verbatim>\<open>has_changed()\<close> holds the submitted fields against
  the instance's. An extra form that has not changed is valid; any other form needs a
  valid \<^verbatim>\<open>id\<close> and an image: an uploaded one, or the one its instance has.
\<close>

definition model_photo_has_changed ::
  "('r \<Rightarrow> nat) \<Rightarrow> ('r \<Rightarrow> string) \<Rightarrow> (photo_form, 'r) model_form \<Rightarrow> bool" where
  "model_photo_has_changed key caption_of f \<longleftrightarrow>
     pf_image (mf_fields f) \<noteq> None
   \<or> pf_caption (mf_fields f) \<noteq> (case mf_instance f of None \<Rightarrow> [] | Some r \<Rightarrow> caption_of r)
   \<or> pf_DELETE (mf_fields f)
   \<or> id_has_changed key f"

definition model_photo_fields_valid ::
  "('r \<Rightarrow> string) \<Rightarrow> nat list \<Rightarrow> (photo_form, 'r) model_form \<Rightarrow> bool" where
  "model_photo_fields_valid image_of keys f \<longleftrightarrow>
     id_field_valid keys f
   \<and> (case pf_image (mf_fields f) of
        Some file \<Rightarrow> up_is_image file
      | None \<Rightarrow> (case mf_instance f of None \<Rightarrow> False | Some r \<Rightarrow> image_of r \<noteq> []))"

definition model_photo_form_is_valid ::
  "('r \<Rightarrow> nat) \<Rightarrow> ('r \<Rightarrow> string) \<Rightarrow> ('r \<Rightarrow> string) \<Rightarrow> nat list
     \<Rightarrow> (photo_form, 'r) model_form \<Rightarrow> bool" where
  "model_photo_form_is_valid key image_of caption_of keys f \<longleftrightarrow>
     (\<not> mf_pk_required f \<and> \<not> model_photo_has_changed key caption_of f)
   \<or> model_photo_fields_valid image_of keys f"

text \<open>The two photo forms, validated against the store \<open>s\<close>.\<close>

definition visit_photo_form_is_valid :: "store \<Rightarrow> (photo_form, VisitPhoto) model_form \<Rightarrow> bool" where
  "visit_photo_form_is_valid s =
     model_photo_form_is_valid vp_id vp_image vp_caption (map vp_id (visit_photos s))"

definition item_photo_form_is_valid :: "store \<Rightarrow> (photo_form, ItemPhoto) model_form \<Rightarrow> bool" where
  "item_photo_form_is_valid s =
     model_photo_form_is_valid ip_id ip_image ip_caption (map ip_id (item_photos s))"

text \<open>
  A FavoriteItemForm of the update page. An extra form has changed when a field or its
  \<^verbatim>\<open>id\<close> was filled in; one that has not is valid and has an empty \<^verbatim>\<open>cleaned_data\<close>. An
  initial form is always cleaned in full, and its \<^verbatim>\<open>cleaned_data\<close> is never empty.
\<close>

definition update_item_has_changed :: "('a item_fields_scheme, 'r) model_form \<Rightarrow> bool" where
  "update_item_has_changed f \<longleftrightarrow> item_has_changed (mf_fields f) \<or> mf_id f \<noteq> NoId"

definition update_item_form_is_valid ::
  "pylib \<Rightarrow> store \<Rightarrow> ('a item_fields_scheme, 'r) model_form \<Rightarrow> bool" where
  "update_item_form_is_valid L s f \<longleftrightarrow>
     (\<not> mf_pk_required f \<and> \<not> update_item_has_changed f)
   \<or> (id_field_valid (map fi_id (favorite_items s)) f \<and> item_fields_valid L (mf_fields f))"

definition has_cleaned_data :: "('a item_fields_scheme, 'r) model_form \<Rightarrow> bool" where
  "has_cleaned_data f \<longleftrightarrow> mf_pk_required f \<or> update_item_has_changed f"

text \<open>\<^verbatim>\<open>item_form.nested_photo_formset.is_valid()\<close> in the update view.\<close>

definition update_nested_is_valid :: "store \<Rightarrow> (photo_form, ItemPhoto) model_form list \<Rightarrow> bool" where
  "update_nested_is_valid s nested =
     formset_is_valid ItemPhotoFormSetFactory (item_photo_form_is_valid s)
       (\<lambda>f. pf_DELETE (mf_fields f)) nested"

text \<open>
  The loop of \<^verbatim>\<open>VisitUpdateView.form_valid\<close> that checks the nested formsets:
  \<^verbatim>\<open>all_nested_valid\<close>, and the item forms whose nested formset it validated, in order.
  It stops at the first invalid one (\<^verbatim>\<open>break\<close>).
\<close>

fun check_nested_update ::
  "store \<Rightarrow> (update_item_fields, FavoriteItem) model_form list
     \<Rightarrow> bool \<times> (update_item_fields, FavoriteItem) model_form list" where
  "check_nested_update s [] = (True, [])"
| "check_nested_update s (item_form # rest) =
     (case update_nested_photo_formset (mf_fields item_form) of
        Some nested \<Rightarrow>
          if \<not> if_DELETE (mf_fields item_form)
          then (if \<not> update_nested_is_valid s nested then (False, [item_form])
                else (fst (check_nested_update s rest),
                      item_form # snd (check_nested_update s rest)))
          else check_nested_update s rest
      | None \<Rightarrow> check_nested_update s rest)"

text \<open>\<^verbatim>\<open>Model.save()\<close> of an object that has a key: the row with that key is overwritten,
  and the object is inserted when no row has the key.\<close>

definition save_row :: "('r \<Rightarrow> nat) \<Rightarrow> 'r \<Rightarrow> 'r list \<Rightarrow> 'r list" where
  "save_row key row rows =
     (if key row \<in> set (map key rows) then map (\<lambda>r. if key r = key row then row else r) rows
      else rows @ [row])"

text \<open>\<^verbatim>\<open>self.object = form.save()\<close>: the Visit of the route with the four fields of the
  form. \<^verbatim>\<open>amount_spent\<close> is not nullable in the table.\<close>

definition update_visit :: "Visit \<Rightarrow> visit_cleaned \<Rightarrow> store \<Rightarrow> (exn + Visit) \<times> store" where
  "update_visit visit cd s =
     (case cd_amount_spent cd of
        None \<Rightarrow> (Inl IntegrityError, s)
      | Some a \<Rightarrow>
          (Inr (visit\<lparr>date_visited := cd_date_visited cd, user_rating := Finite (cd_user_rating cd),
                       amount_spent := Finite a, v_notes := cd_notes cd\<rparr>),
           s\<lparr>visits := save_row v_id
                (visit\<lparr>date_visited := cd_date_visited cd, user_rating := Finite (cd_user_rating cd),
                        amount_spent := Finite a, v_notes := cd_notes cd\<rparr>) (visits s)\<rparr>))"

text \<open>
  \<^verbatim>\<open>formset.save()\<close> of a photo formset is \<^verbatim>\<open>save_existing_objects\<close> over the initial forms,
  then \<^verbatim>\<open>save_new_objects\<close> over the extra forms. An initial form without an instance is
  passed over; one marked for deletion has its row deleted; one that has changed has its
  row saved with the new caption and, when a file was uploaded, the new image. An extra
  form that has not changed or is marked for deletion is passed over, every other one
  is inserted. Saving a form that has errors raises ValueError; \<open>s0\<close> is the store the
  forms were validated against.
\<close>

fun save_existing_visit_photos ::
  "store \<Rightarrow> (photo_form, VisitPhoto) model_form list \<Rightarrow> store \<Rightarrow> (exn + unit) \<times> store" where
  "save_existing_visit_photos s0 [] s = (Inr (), s)"
| "save_existing_visit_photos s0 (form # rest) s =
     (case mf_instance form of
        None \<Rightarrow> save_existing_visit_photos s0 rest s
      | Some obj \<Rightarrow>
          if can_delete VisitPhotoFormSet \<and> pf_DELETE (mf_fields form)
          then save_existing_visit_photos s0 rest
                 (s\<lparr>visit_photos := filter (\<lambda>r. vp_id r \<noteq> vp_id obj) (visit_photos s)\<rparr>)
          else if \<not> model_photo_has_changed vp_id vp_caption form
          then save_existing_visit_photos s0 rest s
          else if \<not> visit_photo_form_is_valid s0 form then (Inl ValueError, s)
          else save_existing_visit_photos s0 rest
                 (s\<lparr>visit_photos := save_row vp_id
                      (obj\<lparr>vp_image := (case pf_image (mf_fields form) of
                                           None \<Rightarrow> vp_image obj
                                         | Some file \<Rightarrow> ''visit_photos/'' @ up_name file),
                           vp_caption := pf_caption (mf_fields form)\<rparr>)
                      (visit_photos s)\<rparr>))"

fun save_new_visit_photos ::
  "store \<Rightarrow> nat \<Rightarrow> (photo_form, VisitPhoto) model_form list \<Rightarrow> store \<Rightarrow> (exn + unit) \<times> store" where
  "save_new_visit_photos s0 visit [] s = (Inr (), s)"
| "save_new_visit_photos s0 visit (form # rest) s =
     (if \<not> model_photo_has_changed vp_id vp_caption form
      then save_new_visit_photos s0 visit rest s
      else if can_delete VisitPhotoFormSet \<and> pf_DELETE (mf_fields form)
      then save_new_visit_photos s0 visit rest s
      else if \<not> visit_photo_form_is_valid s0 form then (Inl ValueError, s)
      else (case pf_image (mf_fields form) of
              None \<Rightarrow> (Inl ValueError, s)
            | Some file \<Rightarrow>
                save_new_visit_photos s0 visit rest
                  (s\<lparr>visit_photos := visit_photos s @
                       [\<lparr>vp_id = next_id (map vp_id (visit_photos s)), vp_visit = visit,
                         vp_image = ''visit_photos/'' @ up_name file,
                         vp_caption = pf_caption (mf_fields form)\<rparr>]\<rparr>)))"

definition save_visit_photo_formset ::
  "store \<Rightarrow> nat \<Rightarrow> (photo_form, VisitPhoto) model_form list \<Rightarrow> store \<Rightarrow> (exn + unit) \<times> store" where
  "save_visit_photo_formset s0 visit forms s =
     (case save_existing_visit_photos s0 (filter mf_pk_required forms) s of
        (Inl e, s') \<Rightarrow> (Inl e, s')
      | (Inr u, s') \<Rightarrow>
          save_new_visit_photos s0 visit (filter (\<lambda>f. \<not> mf_pk_required f) forms) s')"

fun save_existing_item_photos ::
  "store \<Rightarrow> (photo_form, ItemPhoto) model_form list \<Rightarrow> store \<Rightarrow> (exn + unit) \<times> store" where
  "save_existing_item_photos s0 [] s = (Inr (), s)"
| "save_existing_item_photos s0 (form # rest) s =
     (case mf_instance form of
        None \<Rightarrow> save_existing_item_photos s0 rest s
      | Some obj \<Rightarrow>
          if can_delete ItemPhotoFormSetFactory \<and> pf_DELETE (mf_fields form)
          then save_existing_item_photos s0 rest
                 (s\<lparr>item_photos := filter (\<lambda>r. ip_id r \<noteq> ip_id obj) (item_photos s)\<rparr>)
          else if \<not> model_photo_has_changed ip_id ip_caption form
          then save_existing_item_photos s0 rest s
          else if \<not> item_photo_form_is_valid s0 form then (Inl ValueError, s)
          else save_existing_item_photos s0 rest
                 (s\<lparr>item_photos := save_row ip_id
                      (obj\<lparr>ip_image := (case pf_image (mf_fields form) of
                                           None \<Rightarrow> ip_image obj
                                         | Some file \<Rightarrow> ''item_photos/'' @ up_name file),
                           ip_caption := pf_caption (mf_fields form)\<rparr>)
                      (item_photos s)\<rparr>))"

fun save_new_item_photos ::
  "store \<Rightarrow> nat \<Rightarrow> (photo_form, ItemPhoto) model_form list \<Rightarrow> store \<Rightarrow> (exn + unit) \<times> store" where
  "save_new_item_photos s0 favorite_item [] s = (Inr (), s)"
| "save_new_item_photos s0 favorite_item (form # rest) s =
     (if \<not> model_photo_has_changed ip_id ip_caption form
      then save_new_item_photos s0 favorite_item rest s
      else if can_delete ItemPhotoFormSetFactory \<and> pf_DELETE (mf_fields form)
      then save_new_item_photos s0 favorite_item rest s
      else if \<not> item_photo_form_is_valid s0 form then (Inl ValueError, s)
      else (case pf_image (mf_fields form) of
              None \<Rightarrow> (Inl ValueError, s)
            | Some file \<Rightarrow>
                save_new_item_photos s0 favorite_item rest
                  (s\<lparr>item_photos := item_photos s @
                       [\<lparr>ip_id = next_id (map ip_id (item_photos s)),
                         ip_favorite_item = favorite_item,
                         ip_image = ''item_photos/'' @ up_name file,
                         ip_caption = pf_caption (mf_fields form)\<rparr>]\<rparr>)))"

definition save_item_photo_formset ::
  "store \<Rightarrow> nat \<Rightarrow> (photo_form, ItemPhoto) model_form list \<Rightarrow> store \<Rightarrow> (exn + unit) \<times> store" where
  "save_item_photo_formset s0 favorite_item forms s =
     (case save_existing_item_photos s0 (filter mf_pk_required forms) s of
        (Inl e, s') \<Rightarrow> (Inl e, s')
      | (Inr u, s') \<Rightarrow>
          save_new_item_photos s0 favorite_item (filter (\<lambda>f. \<not> mf_pk_required f) forms) s')"

text \<open>
  \<^verbatim>\<open>item_form.save(commit=False)\<close>, \<^verbatim>\<open>favorite_item.visit = self.object\<close>,
  \<^verbatim>\<open>favorite_item.save()\<close>: the form's instance with the form's fields; an instance without
  a key is inserted under a new one.
\<close>

definition save_update_item ::
  "pylib \<Rightarrow> store \<Rightarrow> nat \<Rightarrow> (update_item_fields, FavoriteItem) model_form \<Rightarrow> store
     \<Rightarrow> (exn + FavoriteItem) \<times> store" where
  "save_update_item L s0 visit item_form s =
     (if \<not> update_item_form_is_valid L s0 item_form then (Inl ValueError, s)
      else case (form_float L (if_price (mf_fields item_form)),
                 form_float L (if_rating (mf_fields item_form))) of
        (Some p, Some r) \<Rightarrow>
          let favorite_item =
                (case mf_instance item_form of
                   None \<Rightarrow>
                     \<lparr>fi_id = next_id (map fi_id (favorite_items s)), fi_visit = visit,
                      fi_name = if_name (mf_fields item_form), fi_price = Finite p,
                      fi_rating = Finite r,
                      fi_description = if_description (mf_fields item_form)\<rparr>
                 | Some obj \<Rightarrow>
                     obj\<lparr>fi_visit := visit, fi_name := if_name (mf_fields item_form),
                         fi_price := Finite p, fi_rating := Finite r,
                         fi_description := if_description (mf_fields item_form)\<rparr>)
          in (Inr favorite_item,
              s\<lparr>favorite_items := save_row fi_id favorite_item (favorite_items s)\<rparr>)
      | _ \<Rightarrow> (Inl ValueError, s))"

text \<open>\<^verbatim>\<open>item_form.instance.delete()\<close>: the ItemPhotos of the item go with it
  (\<^verbatim>\<open>on_delete=CASCADE\<close>).\<close>

definition delete_favorite_item :: "FavoriteItem \<Rightarrow> store \<Rightarrow> store" where
  "delete_favorite_item obj s =
     s\<lparr>favorite_items := filter (\<lambda>i. fi_id i \<noteq> fi_id obj) (favorite_items s),
       item_photos := filter (\<lambda>p. ip_favorite_item p \<noteq> fi_id obj) (item_photos s)\<rparr>"

text \<open>The loop over \<^verbatim>\<open>favorite_item_formset.forms\<close> inside the transaction of
  \<^verbatim>\<open>VisitUpdateView.form_valid\<close>.\<close>

fun save_update_item_forms ::
  "pylib \<Rightarrow> store \<Rightarrow> nat \<Rightarrow> (update_item_fields, FavoriteItem) model_form list \<Rightarrow> store
     \<Rightarrow> (exn + unit) \<times> store" where
  "save_update_item_forms L s0 visit [] s = (Inr (), s)"
| "save_update_item_forms L s0 visit (item_form # rest) s =
     (if has_cleaned_data item_form \<and> \<not> if_DELETE (mf_fields item_form)
      then (case save_update_item L s0 visit item_form s of
              (Inl e, s') \<Rightarrow> (Inl e, s')
            | (Inr favorite_item, s') \<Rightarrow>
                (case update_nested_photo_formset (mf_fields item_form) of
                   None \<Rightarrow> save_update_item_forms L s0 visit rest s'
                 | Some nested \<Rightarrow>
                     (case save_item_photo_formset s0 (fi_id favorite_item)
                             (formset_forms ItemPhotoFormSetFactory nested) s' of
                        (Inl e, s'') \<Rightarrow> (Inl e, s'')
                      | (Inr u, s'') \<Rightarrow> save_update_item_forms L s0 visit rest s'')))
      else if has_cleaned_data item_form \<and> if_DELETE (mf_fields item_form)
      then (case mf_instance item_form of
              None \<Rightarrow> save_update_item_forms L s0 visit rest s
            | Some obj \<Rightarrow>
                if fi_id obj = 0 then save_update_item_forms L s0 visit rest s
                else save_update_item_forms L s0 visit rest (delete_favorite_item obj s))
      else save_update_item_forms L s0 visit rest s)"

text \<open>The block under \<^verbatim>\<open>with transaction.atomic():\<close> in \<^verbatim>\<open>VisitUpdateView.form_valid\<close>. The
  formsets were bound to, and validated against, the store \<open>s0\<close> of before the block.\<close>

definition visit_update_block ::
  "pylib \<Rightarrow> update_request \<Rightarrow> Visit \<Rightarrow> visit_cleaned \<Rightarrow> store \<Rightarrow> store
     \<Rightarrow> (exn + Visit) \<times> store" where
  "visit_update_block L req visit cd s0 s =
     (case update_visit visit cd s of
        (Inl e, s1) \<Rightarrow> (Inl e, s1)
      | (Inr object, s1) \<Rightarrow>
     (case save_visit_photo_formset s0 (v_id object)
             (formset_forms VisitPhotoFormSet (update_visit_photo_formset req visit s0)) s1 of
        (Inl e, s2) \<Rightarrow> (Inl e, s2)
      | (Inr u, s2) \<Rightarrow>
     (case save_update_item_forms L s0 (v_id object)
             (formset_forms FavoriteItemFormSet (update_favorite_item_formset req visit s0)) s2 of
        (Inl e, s3) \<Rightarrow> (Inl e, s3)
      | (Inr u', s3) \<Rightarrow> (Inr object, s3))))"

text \<open>\<^verbatim>\<open>self.render_to_response(self.get_context_data(form=form))\<close> of VisitUpdateView.\<close>

definition VisitUpdateView_render :: "update_request \<Rightarrow> Visit \<Rightarrow> store \<Rightarrow> response" where
  "VisitUpdateView_render req visit s =
     UpdateVisitPage ''project/update_visit.html''
       (formset_forms VisitPhotoFormSet (update_visit_photo_formset req visit s))
       (formset_forms FavoriteItemFormSet (update_favorite_item_formset req visit s))"

text \<open>\<^verbatim>\<open>VisitUpdateView.form_valid\<close> for the Visit \<open>visit\<close> of the route.\<close>

definition VisitUpdateView_form_valid ::
  "pylib \<Rightarrow> update_request \<Rightarrow> Visit \<Rightarrow> store \<Rightarrow> response \<times> store" where
  "VisitUpdateView_form_valid L req visit s =
     (case VisitForm_clean L (POST req) of
        None \<Rightarrow> (VisitUpdateView_render req visit s, s)
      | Some cd \<Rightarrow>
         if \<not> formset_is_valid VisitPhotoFormSet (visit_photo_form_is_valid s)
                (\<lambda>f. pf_DELETE (mf_fields f)) (update_visit_photo_formset req visit s)
            \<or> \<not> formset_is_valid FavoriteItemFormSet (update_item_form_is_valid L s)
                (\<lambda>f. if_DELETE (mf_fields f)) (update_favorite_item_formset req visit s)
         then (VisitUpdateView_render req visit s, s)
         else if \<not> fst (check_nested_update s
                          (formset_forms FavoriteItemFormSet (update_favorite_item_formset req visit s)))
         then (VisitUpdateView_render req visit s, s)
         else (case atomic (visit_update_block L req visit cd s) s of
                 (Inl e, s') \<Rightarrow> (HttpResponseServerError e, s')
               | (Inr object, s') \<Rightarrow> (HttpResponseRedirect ''visit_detail'' (v_id object), s')))"

text \<open>
  \<^verbatim>\<open>VisitUpdateView\<close> on a POST, for a logged-in user: \<^verbatim>\<open>post\<close> loads the Visit of the route
  (Http404 leaves the view), calls \<^verbatim>\<open>form_valid\<close> when the VisitForm is valid and renders
  the page again when it is not. The class has no UserPassesTestMixin among its bases,
  so \<^verbatim>\<open>test_func\<close> is never called.
\<close>

definition VisitUpdateView_post ::
  "pylib \<Rightarrow> update_request \<Rightarrow> nat \<Rightarrow> store \<Rightarrow> response \<times> store" where
  "VisitUpdateView_post L req pk s =
     (case find (\<lambda>v. v_id v = pk) (visits s) of
        None \<Rightarrow> (HttpResponseNotFound, s)
      | Some visit \<Rightarrow>
          if VisitForm_is_valid L (POST req) then VisitUpdateView_form_valid L req visit s
          else (VisitUpdateView_render req visit s, s))"

text \<open>The item forms of the update page whose nested formset the check of
  \<^verbatim>\<open>form_valid\<close> is about, whether an item form's nested formset is valid, and the extra
  photo forms that are expected to be written.\<close>

definition update_nested_candidates ::
  "(update_item_fields, FavoriteItem) model_form list
     \<Rightarrow> (update_item_fields, FavoriteItem) model_form list" where
  "update_nested_candidates forms =
     filter (\<lambda>f. \<not> if_DELETE (mf_fields f) \<and> update_nested_photo_formset (mf_fields f) \<noteq> None) forms"

definition update_nested_ok :: "store \<Rightarrow> (update_item_fields, FavoriteItem) model_form \<Rightarrow> bool" where
  "update_nested_ok s f =
     (case update_nested_photo_formset (mf_fields f) of
        None \<Rightarrow> True
      | Some nested \<Rightarrow> update_nested_is_valid s nested)"


section \<open>What a visit request writes\<close>

text \<open>An entry of \<^verbatim>\<open>favoriteItems\<close> without a name: an object whose \<^verbatim>\<open>name\<close> is missing,
  null or the empty string.\<close>

fun nameless :: "json \<Rightarrow> bool" where
  "nameless (JObj kv) = (case map_of kv ''name'' of None \<Rightarrow> True | Some v \<Rightarrow> v = JNull \<or> v = JStr [])"
| "nameless v = False"

text \<open>A photo entry that is stored: its \<^verbatim>\<open>file_key\<close> names an uploaded file.\<close>

definition photo_resolves :: "(string \<Rightarrow> upload option) \<Rightarrow> json \<Rightarrow> bool" where
  "photo_resolves files photo_data =
     (case photo_entry files photo_data of Inr (Some p) \<Rightarrow> True | _ \<Rightarrow> False)"

text \<open>An entry of \<^verbatim>\<open>favoriteItems\<close> that passes \<^verbatim>\<open>if not item_data.get('name')\<close>, and the
  number of its photo entries that are stored.\<close>

definition item_named :: "json \<Rightarrow> bool" where
  "item_named item_data = (case dict_get item_data ''name'' of Inr n \<Rightarrow> py_truthy n | Inl e \<Rightarrow> False)"

definition item_photo_count :: "(string \<Rightarrow> upload option) \<Rightarrow> json \<Rightarrow> nat" where
  "item_photo_count files item_data =
     (case get_list item_data ''photos'' of
        Inr photos \<Rightarrow> length (filter (photo_resolves files) photos)
      | Inl e \<Rightarrow> 0)"





text \<open>The store after a Visit \<open>v\<close> was written with its photos, its items and its items'
  photos, and what it means for these rows to hang together.\<close>

definition visit_written ::
  "store \<Rightarrow> Visit \<Rightarrow> VisitPhoto list \<Rightarrow> FavoriteItem list \<Rightarrow> ItemPhoto list \<Rightarrow> store" where
  "visit_written s v vps its ips =
     s\<lparr>visits := visits s @ [v],
       visit_photos := visit_photos s @ vps,
       favorite_items := favorite_items s @ its,
       item_photos := item_photos s @ ips\<rparr>"

definition linked :: "Visit \<Rightarrow> VisitPhoto list \<Rightarrow> FavoriteItem list \<Rightarrow> ItemPhoto list \<Rightarrow> bool" where
  "linked v vps its ips \<longleftrightarrow>
     (\<forall>p \<in> set vps. vp_visit p = v_id v)
   \<and> (\<forall>i \<in> set its. fi_visit i = v_id v)
   \<and> (\<forall>p \<in> set ips. ip_favorite_item p \<in> fi_id ` set its)"

section \<open>Inputs of the worked examples\<close>

definition example_lib :: pylib where
  "example_lib =
     \<lparr>float_str = (\<lambda>s. if s = ''4.5'' then Some (Finite 4.5)
                        else if s = ''12'' then Some (Finite 12) else None),
      str_of = (\<lambda>v. if v = JNum (Finite 1) then ''1'' else ''?''),
      to_pk = (\<lambda>v. case v of JNum (Finite r) \<Rightarrow> Inr \<lfloor>r\<rfloor> | _ \<Rightarrow> Inl ValueError),
      to_date = (\<lambda>s. if s = ''2025-11-24'' then Some (2025, 11, 24) else None),
      form_float = (\<lambda>s. if s = ''4'' then Some 4 else if s = ''12'' then Some 12 else None),
      form_date = (\<lambda>s. if s = ''2025-11-24'' then Some (2025, 11, 24) else None)\<rparr>"

definition empty_store :: store where
  "empty_store = \<lparr>cafes = [], wishes = [], visits = [], visit_photos = [],
                   favorite_items = [], item_photos = [], stickers = [], sticker_types = []\<rparr>"

definition example_store :: store where
  "example_store =
     \<lparr>cafes = [\<lparr>c_id = 1, c_name = ''Cafe Luna''\<rparr>],
      wishes = [],
      visits = [\<lparr>v_id = 1, v_profile = 1, v_cafe = 1, date_visited = (2025, 11, 24),
                   user_rating = Finite 4, amount_spent = Finite 12, v_notes = ''good''\<rparr>],
      visit_photos = [], favorite_items = [], item_photos = [],
      stickers = [\<lparr>st_id = 1, st_visit = 1, st_type = 1, x_position = Finite 3,
                     y_position = Finite 4, rotation = Finite 0, scale = Finite 1,
                     st_image = ''sticker_options/heart.png''\<rparr>],
      sticker_types = [\<lparr>stype_id = 1, stype_name = ''heart'',
                          stype_image = ''sticker_options/heart.png''\<rparr>]\<rparr>"

definition example_items :: "json list" where
  "example_items =
     [JObj [(''price'', JNum (Finite 3)), (''photos'', JArr [JObj [(''file_key'', JStr ''f1''), (''caption'', JStr ''x'')]])],
      JObj [(''name'', JStr ''Latte''), (''price'', JNum (Finite 5.5)), (''rating'', JNum (Finite 4.5)),
            (''description'', JStr ''smooth''),
            (''photos'', JArr [JObj [(''file_key'', JStr ''f1''), (''caption'', JStr ''cup'')]])]]"

definition example_files :: "string \<Rightarrow> upload option" where
  "example_files = (\<lambda>k. if k = ''f1'' then Some \<lparr>up_name = ''cup.png'', up_is_image = True\<rparr> else None)"

definition example_log_request :: log_request where
  "example_log_request =
     \<lparr>cafe_profile = Some 7,
      POST = map_of [(''date_visited'', ''2025-11-24''), (''user_rating'', ''4.5''),
                     (''amount_spent'', ''12''), (''notes'', ''cosy''),
                     (''profile'', ''8''), (''cafe'', ''9'')],
      FILES = example_files,
      dynamic_data = Decoded (JObj [(''favoriteItems'', JArr example_items),
                                    (''visitPhotos'', JArr [JObj [(''file_key'', JStr ''f1''), (''caption'', JStr ''door'')],
                                                            JObj [(''file_key'', JStr ''f2''), (''caption'', JStr ''none'')]])])\<rparr>"

definition example_photo :: "string \<Rightarrow> string \<Rightarrow> photo_form" where
  "example_photo name caption =
     \<lparr>pf_image = Some \<lparr>up_name = name, up_is_image = True\<rparr>, pf_caption = caption,
      pf_DELETE = False\<rparr>"

definition caption_only :: photo_form where
  "caption_only = \<lparr>pf_image = None, pf_caption = ''no file'', pf_DELETE = False\<rparr>"

definition example_item :: "string \<Rightarrow> photo_form list \<Rightarrow> item_data" where
  "example_item name photos =
     \<lparr>if_name = name, if_price = ''12'', if_rating = ''4'', if_description = ''nice'',
      if_DELETE = False, item_photos_data = photos\<rparr>"

definition example_form_request :: form_request where
  "example_form_request =
     \<lparr>cafe_profile = Some 7,
      POST = map_of [(''date_visited'', ''2025-11-24''), (''user_rating'', ''4''),
                     (''amount_spent'', ''12''), (''notes'', ''cosy''),
                     (''profile'', ''8''), (''cafe'', ''9'')],
      FILES = (\<lambda>k. None),
      photos_data = [example_photo ''door.png'' ''door''],
      items_data = [example_item ''Latte'' [example_photo ''cup.png'' ''cup'']]\<rparr>"

definition six_photos_request :: form_request where
  "six_photos_request =
     example_form_request\<lparr>
       photos_data := map (\<lambda>n. example_photo n ''view'')
                        [''1.png'', ''2.png'', ''3.png'', ''4.png'', ''5.png'', ''6.png''],
       items_data := []\<rparr>"

definition bad_nested_request :: form_request where
  "bad_nested_request =
     example_form_request\<lparr>
       items_data := [example_item ''Latte'' [caption_only], example_item ''Mocha'' [caption_only]]\<rparr>"

definition failing_log_request :: log_request where
  "failing_log_request =
     example_log_request\<lparr>dynamic_data :=
        Decoded (JObj [(''visitPhotos'', JArr [JObj [(''file_key'', JStr ''f1''), (''caption'', JStr ''door'')]]),
                       (''favoriteItems'',
                        JArr [JObj [(''name'', JStr ''Latte''), (''price'', JNum (Finite 5.5)),
                                    (''rating'', JNum (Finite 4.5)), (''description'', JStr ''smooth'')],
                              JObj [(''name'', JStr ''Mocha''), (''rating'', JNum (Finite 3)),
                                    (''description'', JStr ''no price'')]])])\<rparr>"


text \<open>A store in which visit 1 has a photo and two items, each with a photo; a request
  that updates that visit: it changes a caption and adds a photo, deletes the first
  item, renames the second and adds a photo to it, and adds a third item; and the forms
  that the update view binds for it.\<close>

definition visited_store :: store where
  "visited_store =
     example_store\<lparr>
       visit_photos := [\<lparr>vp_id = 1, vp_visit = 1, vp_image = ''visit_photos/door.png'',
                         vp_caption = ''door''\<rparr>],
       favorite_items := [\<lparr>fi_id = 1, fi_visit = 1, fi_name = ''Mocha'', fi_price = Finite 12,
                            fi_rating = Finite 4, fi_description = ''sweet''\<rparr>,
                          \<lparr>fi_id = 2, fi_visit = 1, fi_name = ''Latte'', fi_price = Finite 12,
                            fi_rating = Finite 4, fi_description = ''nice''\<rparr>],
       item_photos := [\<lparr>ip_id = 1, ip_favorite_item = 1, ip_image = ''item_photos/mug.png'',
                        ip_caption = ''mug''\<rparr>,
                       \<lparr>ip_id = 2, ip_favorite_item = 2, ip_image = ''item_photos/cup.png'',
                        ip_caption = ''cup''\<rparr>]\<rparr>"

definition update_item :: "string \<Rightarrow> bool \<Rightarrow> photo_form formset_post \<Rightarrow> update_item_data" where
  "update_item name del photos =
     \<lparr>if_name = name, if_price = ''12'', if_rating = ''4'', if_description = ''nice'',
      if_DELETE = del, item_photos_post = photos\<rparr>"

definition example_update_request :: update_request where
  "example_update_request =
     \<lparr>cafe_profile = Some 7,
      POST = map_of [(''date_visited'', ''2025-11-24''), (''user_rating'', ''4''),
                     (''amount_spent'', ''12''), (''notes'', ''quiet'')],
      FILES = (\<lambda>k. None),
      photos_post =
        \<lparr>INITIAL_FORMS = 1,
         forms_post = [(IdKey 1, \<lparr>pf_image = None, pf_caption = ''front door'', pf_DELETE = False\<rparr>),
                       (NoId, example_photo ''window.png'' ''window'')]\<rparr>,
      items_post =
        \<lparr>INITIAL_FORMS = 2,
         forms_post =
           [(IdKey 1, update_item ''Mocha'' True \<lparr>INITIAL_FORMS = 0, forms_post = []\<rparr>),
            (IdKey 2, update_item ''Flat white'' False
               \<lparr>INITIAL_FORMS = 1,
                forms_post = [(IdKey 2, \<lparr>pf_image = None, pf_caption = ''big cup'', pf_DELETE = False\<rparr>),
                              (NoId, example_photo ''foam.png'' ''foam'')]\<rparr>),
            (NoId, update_item ''Tea'' False
               \<lparr>INITIAL_FORMS = 0, forms_post = [(NoId, example_photo ''leaf.png'' ''leaf'')]\<rparr>)]\<rparr>\<rparr>"

definition bad_nested_update_request :: update_request where
  "bad_nested_update_request =
     example_update_request\<lparr>items_post :=
        \<lparr>INITIAL_FORMS = 2,
         forms_post =
           [(IdKey 1, update_item ''Mocha'' False \<lparr>INITIAL_FORMS = 0, forms_post = [(NoId, caption_only)]\<rparr>),
            (IdKey 2, update_item ''Latte'' False \<lparr>INITIAL_FORMS = 0, forms_post = [(NoId, caption_only)]\<rparr>)]\<rparr>\<rparr>"

definition visit_one :: Visit where
  "visit_one = \<lparr>v_id = 1, v_profile = 1, v_cafe = 1, date_visited = (2025, 11, 24),
        user_rating = Finite 4, amount_spent = Finite 12, v_notes = ''good''\<rparr>"

definition example_photo_forms :: "(photo_form, VisitPhoto) model_form list" where
  "example_photo_forms =
     [\<lparr>mf_pk_required = True, mf_id = IdKey 1,
        mf_instance = Some \<lparr>vp_id = 1, vp_visit = 1, vp_image = ''visit_photos/door.png'',
                             vp_caption = ''door''\<rparr>,
        mf_fields = \<lparr>pf_image = None, pf_caption = ''front door'', pf_DELETE = False\<rparr>\<rparr>,
      \<lparr>mf_pk_required = False, mf_id = NoId, mf_instance = None,
        mf_fields = \<lparr>pf_image = Some \<lparr>up_name = ''window.png'', up_is_image = True\<rparr>,
                      pf_caption = ''window'', pf_DELETE = False\<rparr>\<rparr>]"



definition bad_nested_form :: "nat \<Rightarrow> string \<Rightarrow> string \<Rightarrow> (update_item_fields, FavoriteItem) model_form" where
  "bad_nested_form k name description =
     \<lparr>mf_pk_required = True, mf_id = IdKey k,
      mf_instance = Some \<lparr>fi_id = k, fi_visit = 1, fi_name = name, fi_price = Finite 12,
                           fi_rating = Finite 4, fi_description = description\<rparr>,
      mf_fields = \<lparr>if_name = name, if_price = ''12'', if_rating = ''4'',
                    if_description = ''nice'', if_DELETE = False,
                    update_nested_photo_formset =
                      Some [\<lparr>mf_pk_required = False, mf_id = NoId, mf_instance = None,
                              mf_fields = caption_only\<rparr>]\<rparr>\<rparr>"

section \<open>Properties of the sticker controller\<close>

lemma and_then_Inl [simp]: "and_then (Inl e) f = Inl e"
  by (simp add: and_then_def)

lemma and_then_Inr [simp]: "and_then (Inr a) f = f a"
  by (simp add: and_then_def)

lemma float_get_bad:
  assumes "map_of kv k = None \<or> map_of kv k = Some JNull
     \<or> (\<exists>str. map_of kv k = Some (JStr str) \<and> float_str L str = None)
     \<or> (\<exists>xs. map_of kv k = Some (JArr xs))
     \<or> (\<exists>m. map_of kv k = Some (JObj m))"
  shows "\<exists>e. float_get L (JObj kv) k = Inl e"
  using assms by (auto simp: float_get_def dict_get_def)

lemma update_sticker_row_bad:
  assumes k: "k \<in> {''x'', ''y'', ''rotation'', ''scale''}"
    and fg: "float_get L data k = Inl e0"
  shows "\<exists>e. update_sticker_row L data s = Inl e"
  using k fg unfolding update_sticker_row_def
  by (auto simp: and_then_def split: sum.splits)

lemma update_sticker_row_not_object:
  "\<forall>kv. data \<noteq> JObj kv \<Longrightarrow> update_sticker_row L data s = Inl AttributeError"
  by (cases data) (simp_all add: update_sticker_row_def dict_get_def)

text \<open>The values on which \<^verbatim>\<open>float()\<close> raises: \<^verbatim>\<open>None\<close>, a string that is not the text of a
  number, a list, an object. It converts every JSON number, \<^verbatim>\<open>true\<close> and \<^verbatim>\<open>false\<close>, and a
  string that is the text of a number.\<close>

lemma py_float_raises_iff:
  "(\<exists>e. py_float L v = Inl e) \<longleftrightarrow>
     v = JNull \<or> (\<exists>str. v = JStr str \<and> float_str L str = None)
     \<or> (\<exists>xs. v = JArr xs) \<or> (\<exists>m. v = JObj m)"
  by (cases v) (auto split: option.splits)

text \<open>
  Claim C5, as amended. A sticker update whose body is JSON but not an object, or is an
  object that lacks one of \<^verbatim>\<open>x\<close>, \<^verbatim>\<open>y\<close>, \<^verbatim>\<open>rotation\<close>, \<^verbatim>\<open>scale\<close> or carries there a value
  that \<^verbatim>\<open>float()\<close> refuses (null, a string that is not the text of a number, a list, an
  object), is answered with the JSON error of status 400, and the store, the targeted
  Sticker's row included, is what it was before.
\<close>

theorem update_sticker_rejects:
  assumes bad: "(\<forall>kv. data \<noteq> JObj kv)
     \<or> (\<exists>kv k. data = JObj kv \<and> k \<in> {''x'', ''y'', ''rotation'', ''scale''}
          \<and> (map_of kv k = None \<or> map_of kv k = Some JNull
             \<or> (\<exists>str. map_of kv k = Some (JStr str) \<and> float_str L str = None)
             \<or> (\<exists>xs. map_of kv k = Some (JArr xs))
             \<or> (\<exists>m. map_of kv k = Some (JObj m))))"
  shows "\<exists>e. UpdateStickerView_post L (Some data) s =
           (JsonResponse [(''status'', JStr ''error''), (''message'', JStr (exn_str e))] 400, s)"
proof -
  have "\<exists>e. update_sticker_row L data s = Inl e"
  proof (cases "\<forall>kv. data \<noteq> JObj kv")
    case True
    then show ?thesis by (simp add: update_sticker_row_not_object)
  next
    case False
    with bad obtain kv k where d: "data = JObj kv"
      and k: "k \<in> {''x'', ''y'', ''rotation'', ''scale''}"
      and f: "map_of kv k = None \<or> map_of kv k = Some JNull
             \<or> (\<exists>str. map_of kv k = Some (JStr str) \<and> float_str L str = None)
             \<or> (\<exists>xs. map_of kv k = Some (JArr xs))
             \<or> (\<exists>m. map_of kv k = Some (JObj m))"
      by blast
    from f obtain e0 where "float_get L (JObj kv) k = Inl e0"
      using float_get_bad by blast
    with k d show ?thesis
      using update_sticker_row_bad by blast
  qed
  then show ?thesis
    by (auto simp: UpdateStickerView_post_def update_sticker_try_def)
qed

text \<open>The spec's example, an update of sticker 1 that carries no \<^verbatim>\<open>rotation\<close>; and a body
  that is a JSON list.\<close>

theorem update_sticker_rejects_witness:
  "(\<exists>e. UpdateStickerView_post example_lib
      (Some (JObj [(''sticker_id'', JNum (Finite 1)), (''x'', JNum (Finite 10)),
                   (''y'', JNum (Finite 20)), (''scale'', JNum (Finite 2))])) example_store =
     (JsonResponse [(''status'', JStr ''error''), (''message'', JStr (exn_str e))] 400,
      example_store))
   \<and> (\<exists>e. UpdateStickerView_post example_lib (Some (JArr [])) example_store =
     (JsonResponse [(''status'', JStr ''error''), (''message'', JStr (exn_str e))] 400,
      example_store))"
proof
  have "\<exists>kv k. JObj [(''sticker_id'', JNum (Finite 1)), (''x'', JNum (Finite 10)),
                   (''y'', JNum (Finite 20)), (''scale'', JNum (Finite 2))] = JObj kv
      \<and> k \<in> {''x'', ''y'', ''rotation'', ''scale''} \<and> map_of kv k = None"
    by (intro exI [of _ "[(''sticker_id'', JNum (Finite 1)), (''x'', JNum (Finite 10)),
                   (''y'', JNum (Finite 20)), (''scale'', JNum (Finite 2))]"]
        exI [of _ "''rotation''"]) simp
  then show "\<exists>e. UpdateStickerView_post example_lib
      (Some (JObj [(''sticker_id'', JNum (Finite 1)), (''x'', JNum (Finite 10)),
                   (''y'', JNum (Finite 20)), (''scale'', JNum (Finite 2))])) example_store =
     (JsonResponse [(''status'', JStr ''error''), (''message'', JStr (exn_str e))] 400,
      example_store)"
    by (intro update_sticker_rejects) blast
  show "\<exists>e. UpdateStickerView_post example_lib (Some (JArr [])) example_store =
     (JsonResponse [(''status'', JStr ''error''), (''message'', JStr (exn_str e))] 400,
      example_store)"
    by (intro update_sticker_rejects) simp
qed

text \<open>
  Claim C5 as stated fails for a value that is not a number and that \<^verbatim>\<open>float()\<close>
  converts: with \<^verbatim>\<open>x\<close> the JSON value \<^verbatim>\<open>true\<close> the update is answered with the success
  response and the Sticker's row is overwritten, \<^verbatim>\<open>x_position\<close> becoming 1.0.
\<close>

theorem update_sticker_bool_counterexample:
  "UpdateStickerView_post example_lib
      (Some (JObj [(''sticker_id'', JNum (Finite 1)), (''x'', JBool True),
                   (''y'', JNum (Finite 20)), (''rotation'', JNum (Finite 5)),
                   (''scale'', JNum (Finite 2))])) example_store =
     (JsonResponse [(''status'', JStr ''success'')] 200,
      example_store\<lparr>stickers := [\<lparr>st_id = 1, st_visit = 1, st_type = 1, x_position = Finite 1,
                     y_position = Finite 20, rotation = Finite 5, scale = Finite 2,
                     st_image = ''sticker_options/heart.png''\<rparr>]\<rparr>)
   \<and> stickers example_store = [\<lparr>st_id = 1, st_visit = 1, st_type = 1, x_position = Finite 3,
                     y_position = Finite 4, rotation = Finite 0, scale = Finite 1,
                     st_image = ''sticker_options/heart.png''\<rparr>]"
  by (simp add: UpdateStickerView_post_def update_sticker_try_def update_sticker_row_def
      float_get_def dict_get_def get_object_or_404_def save_sticker_def
      example_lib_def example_store_def)


text \<open>A new key is positive and not a key of the table.\<close>

lemma fold_max_ge: "a \<le> fold max xs (a::nat)"
  by (induction xs arbitrary: a) (auto intro: order_trans [OF max.cobounded2])

lemma fold_max_mem: "x \<in> set xs \<Longrightarrow> x \<le> fold max xs (a::nat)"
proof (induction xs arbitrary: a)
  case Nil
  then show ?case by simp
next
  case (Cons y ys)
  show ?case
  proof (cases "x = y")
    case True
    have "max y a \<le> fold max ys (max y a)" by (rule fold_max_ge)
    then show ?thesis using True by simp
  next
    case False
    with Cons show ?thesis by simp
  qed
qed

lemma next_id_fresh: "next_id ids \<notin> set ids"
proof
  assume "next_id ids \<in> set ids"
  then have "next_id ids \<le> fold max ids 0" by (rule fold_max_mem)
  then show False by (simp add: next_id_def)
qed

lemma next_id_pos: "0 < next_id ids"
  by (simp add: next_id_def)

lemma float_get_default_field:
  "map_of kv k = map_option (\<lambda>r. JNum (Finite r)) ov \<Longrightarrow>
   float_get_default L (JObj kv) k (JNum (Finite d)) =
     Inr (Finite (case ov of None \<Rightarrow> d | Some r \<Rightarrow> r))"
  by (cases ov) (simp_all add: float_get_default_def)

text \<open>
  Claim C6. A Place request whose object names an existing Visit and an existing
  StickerType, and that gives each of \<^verbatim>\<open>x\<close>, \<^verbatim>\<open>y\<close>, \<^verbatim>\<open>rotation\<close>, \<^verbatim>\<open>scale\<close> as a finite
  number or not at all, appends one Sticker: a field left out gets its default (0.0 for
  \<^verbatim>\<open>x\<close>, \<^verbatim>\<open>y\<close> and \<^verbatim>\<open>rotation\<close>, 1.0 for \<^verbatim>\<open>scale\<close>), the image is the StickerType's, and
  the response carries the new Sticker's key, which no other Sticker has.
\<close>

theorem place_sticker_defaults:
  assumes visit: "map_of kv ''visit_id'' = Some vid" "to_pk L vid = Inr key"
      "find (\<lambda>r. int (v_id r) = key) (visits s) = Some visit"
    and stype: "map_of kv ''sticker_type'' = Some tn" "tn \<noteq> JNull"
      "find (\<lambda>t. stype_name t = py_str L tn) (sticker_types s) = Some ty"
    and x: "map_of kv ''x'' = map_option (\<lambda>r. JNum (Finite r)) ox"
    and y: "map_of kv ''y'' = map_option (\<lambda>r. JNum (Finite r)) oy"
    and r: "map_of kv ''rotation'' = map_option (\<lambda>r. JNum (Finite r)) orot"
    and sc: "map_of kv ''scale'' = map_option (\<lambda>r. JNum (Finite r)) osc"
  shows "PlaceStickerView_post L (Some (JObj kv)) s =
      (JsonResponse [(''status'', JStr ''success''),
                     (''id'', JNum (Finite (of_nat (next_id (map st_id (stickers s))))))] 200,
       s\<lparr>stickers := stickers s @
           [\<lparr>st_id = next_id (map st_id (stickers s)),
             st_visit = v_id visit,
             st_type = stype_id ty,
             x_position = Finite (case ox of None \<Rightarrow> 0 | Some v \<Rightarrow> v),
             y_position = Finite (case oy of None \<Rightarrow> 0 | Some v \<Rightarrow> v),
             rotation = Finite (case orot of None \<Rightarrow> 0 | Some v \<Rightarrow> v),
             scale = Finite (case osc of None \<Rightarrow> 1 | Some v \<Rightarrow> v),
             st_image = stype_image ty\<rparr>]\<rparr>)
    \<and> next_id (map st_id (stickers s)) \<notin> st_id ` set (stickers s)"
proof -
  have row: "place_sticker_row L (JObj kv) s =
      Inr \<lparr>st_id = next_id (map st_id (stickers s)),
             st_visit = v_id visit,
             st_type = stype_id ty,
             x_position = Finite (case ox of None \<Rightarrow> 0 | Some v \<Rightarrow> v),
             y_position = Finite (case oy of None \<Rightarrow> 0 | Some v \<Rightarrow> v),
             rotation = Finite (case orot of None \<Rightarrow> 0 | Some v \<Rightarrow> v),
             scale = Finite (case osc of None \<Rightarrow> 1 | Some v \<Rightarrow> v),
             st_image = stype_image ty\<rparr>"
    unfolding place_sticker_row_def
    by (simp add: dict_get_def visit stype get_object_or_404_def get_sticker_type_or_404_def
        float_get_default_field [OF x] float_get_default_field [OF y]
        float_get_default_field [OF r] float_get_default_field [OF sc])
  have fresh: "next_id (map st_id (stickers s)) \<notin> st_id ` set (stickers s)"
    using next_id_fresh [of "map st_id (stickers s)"] by simp
  show ?thesis
    using fresh by (simp add: PlaceStickerView_post_def place_sticker_try_def row)
qed

text \<open>The spec's example: \<^verbatim>\<open>x = 10\<close>, \<^verbatim>\<open>y = 20\<close>, no \<^verbatim>\<open>rotation\<close>, no \<^verbatim>\<open>scale\<close>.\<close>

theorem place_sticker_defaults_witness:
  "PlaceStickerView_post example_lib
     (Some (JObj [(''visit_id'', JNum (Finite 1)), (''sticker_type'', JStr ''heart''),
                  (''x'', JNum (Finite 10)), (''y'', JNum (Finite 20))])) example_store =
   (JsonResponse [(''status'', JStr ''success''), (''id'', JNum (Finite 2))] 200,
    example_store\<lparr>stickers := stickers example_store @
       [\<lparr>st_id = 2, st_visit = 1, st_type = 1, x_position = Finite 10, y_position = Finite 20,
         rotation = Finite 0, scale = Finite 1, st_image = ''sticker_options/heart.png''\<rparr>]\<rparr>)"
  using place_sticker_defaults [where L = example_lib and s = example_store
      and kv = "[(''visit_id'', JNum (Finite 1)), (''sticker_type'', JStr ''heart''),
        (''x'', JNum (Finite 10)), (''y'', JNum (Finite 20))]"
      and vid = "JNum (Finite 1)" and key = 1 and tn = "JStr ''heart''"
      and visit = "\<lparr>v_id = 1, v_profile = 1, v_cafe = 1, date_visited = (2025, 11, 24),
        user_rating = Finite 4, amount_spent = Finite 12, v_notes = ''good''\<rparr>"
      and ty = "\<lparr>stype_id = 1, stype_name = ''heart'', stype_image = ''sticker_options/heart.png''\<rparr>"
      and ox = "Some 10" and oy = "Some 20" and orot = None and osc = None]
  by (simp add: example_lib_def example_store_def next_id_def)




text \<open>
  Claim C10, as amended. A Delete request whose \<^verbatim>\<open>sticker_id\<close> passes the guard
  \<^verbatim>\<open>if not sticker_id\<close> and resolves to no Sticker (the ORM refuses the value, or no row
  has the key and \<^verbatim>\<open>get_object_or_404\<close> raises Http404) is answered with the JSON error
  of status 500, carrying the caught exception, and the store is unchanged.
\<close>

theorem sticker_delete_unresolved:
  assumes "map_of kv ''sticker_id'' = Some v" and "py_truthy v"
    and "(\<exists>e. to_pk L v = Inl e)
         \<or> (\<exists>key. to_pk L v = Inr key \<and> find (\<lambda>r. int (st_id r) = key) (stickers s) = None)"
  shows "\<exists>e. StickerDeleteView_post L (Some (JObj kv)) s =
            (JsonResponse [(''status'', JStr ''error''), (''message'', JStr (exn_str e))] 500, s)
          \<and> (to_pk L v = Inl e \<or> e = Http404)"
  using assms
  by (auto simp: StickerDeleteView_post_def dict_get_def get_object_or_404_def)

theorem sticker_delete_unresolved_witness:
  "\<exists>e. StickerDeleteView_post example_lib (Some (JObj [(''sticker_id'', JNum (Finite 7))])) example_store =
            (JsonResponse [(''status'', JStr ''error''), (''message'', JStr (exn_str e))] 500, example_store)
          \<and> (to_pk example_lib (JNum (Finite 7)) = Inl e \<or> e = Http404)"
  by (rule sticker_delete_unresolved) (simp_all add: example_lib_def example_store_def)

text \<open>
  Claim C10 as stated fails for a \<^verbatim>\<open>sticker_id\<close> that is present and falsy: \<^verbatim>\<open>0\<close> is in
  the body and is the key of no Sticker, and the guard answers 400 before any lookup.
\<close>

theorem sticker_delete_zero_id_counterexample:
  "map_of [(''sticker_id'', JNum (Finite 0))] ''sticker_id'' = Some (JNum (Finite 0))
   \<and> get_object_or_404 example_lib st_id (stickers example_store) (JNum (Finite 0)) = Inl Http404
   \<and> StickerDeleteView_post example_lib (Some (JObj [(''sticker_id'', JNum (Finite 0))])) example_store =
       (HttpResponseBadRequest ''Missing sticker_id in request body.'', example_store)
   \<and> status_code (fst (StickerDeleteView_post example_lib
         (Some (JObj [(''sticker_id'', JNum (Finite 0))])) example_store)) = 400"
  by (simp add: StickerDeleteView_post_def dict_get_def get_object_or_404_def
      example_lib_def example_store_def)

section \<open>Properties of the wishlist\<close>

lemma wish_exists_iff:
  "wish_exists p c s \<longleftrightarrow> (p, c) \<in> set (map (\<lambda>w. (w_profile w, w_cafe w)) (wishes s))"
  by (auto simp: wish_exists_def list_ex_iff)

lemma find_cafe_id: "find (\<lambda>c. c_id c = k) cs = Some cafe \<Longrightarrow> c_id cafe = k"
  by (auto simp: find_Some_iff)

lemma create_wish_existing: "wish_exists p c s \<Longrightarrow> create_wish p c s = (Inl IntegrityError, s)"
  by (simp add: create_wish_def)

lemma create_wish_new:
  "\<not> wish_exists p c s \<Longrightarrow>
   create_wish p c s = (Inr (new_wish p c s), s\<lparr>wishes := wishes s @ [new_wish p c s]\<rparr>)"
  by (simp add: create_wish_def)

lemma wish_exists_after: "wish_exists p c (s\<lparr>wishes := wishes s @ [new_wish p c s]\<rparr>)"
  by (simp add: wish_exists_def new_wish_def)

lemma wish_unique_after:
  "wish_unique s \<Longrightarrow> \<not> wish_exists p c s \<Longrightarrow>
   wish_unique (s\<lparr>wishes := wishes s @ [new_wish p c s]\<rparr>)"
  by (simp add: wish_unique_def wish_exists_iff new_wish_def)

lemma create_wish_unique: "wish_unique s \<Longrightarrow> wish_unique (snd (create_wish p c s))"
  by (cases "wish_exists p c s")
    (simp_all add: create_wish_existing create_wish_new wish_unique_after)

lemma add_to_wishlist_notfound:
  "find (\<lambda>c. c_id c = k) (cafes s) = None \<Longrightarrow>
   AddToWishlistView_post u k s = (HttpResponseNotFound, s)"
  by (simp add: AddToWishlistView_post_def)

lemma add_to_wishlist_noprofile:
  "find (\<lambda>c. c_id c = k) (cafes s) = Some cafe \<Longrightarrow>
   AddToWishlistView_post None k s = (HttpResponseServerError RelatedObjectDoesNotExist, s)"
  by (simp add: AddToWishlistView_post_def)

lemma add_to_wishlist_existing:
  assumes "find (\<lambda>c. c_id c = k) (cafes s) = Some cafe" and "wish_exists p k s"
  shows "AddToWishlistView_post (Some p) k s = (HttpResponseRedirect ''show_cafe'' k, s)"
  using assms find_cafe_id [OF assms(1)]
  by (simp add: AddToWishlistView_post_def)

lemma add_to_wishlist_new:
  assumes "find (\<lambda>c. c_id c = k) (cafes s) = Some cafe" and "\<not> wish_exists p k s"
  shows "AddToWishlistView_post (Some p) k s =
           (HttpResponseRedirect ''show_cafe'' k, s\<lparr>wishes := wishes s @ [new_wish p k s]\<rparr>)"
  using assms find_cafe_id [OF assms(1)]
  by (simp add: AddToWishlistView_post_def create_wish_new)

lemma add_to_wishlist_again:
  "AddToWishlistView_post u k (snd (AddToWishlistView_post u k s)) = AddToWishlistView_post u k s
   \<or> (\<exists>p. u = Some p \<and> \<not> wish_exists p k s
        \<and> AddToWishlistView_post u k s =
            (HttpResponseRedirect ''show_cafe'' k, s\<lparr>wishes := wishes s @ [new_wish p k s]\<rparr>)
        \<and> AddToWishlistView_post u k (s\<lparr>wishes := wishes s @ [new_wish p k s]\<rparr>) =
            (HttpResponseRedirect ''show_cafe'' k, s\<lparr>wishes := wishes s @ [new_wish p k s]\<rparr>))"
proof (cases "find (\<lambda>c. c_id c = k) (cafes s)")
  case None
  then show ?thesis by (simp add: add_to_wishlist_notfound)
next
  case (Some cafe)
  show ?thesis
  proof (cases u)
    case None
    with Some show ?thesis by (simp add: add_to_wishlist_noprofile)
  next
    case u: (Some p)
    show ?thesis
    proof (cases "wish_exists p k s")
      case True
      with Some u show ?thesis by (simp add: add_to_wishlist_existing)
    next
      case False
      let ?s1 = "s\<lparr>wishes := wishes s @ [new_wish p k s]\<rparr>"
      have first: "AddToWishlistView_post u k s = (HttpResponseRedirect ''show_cafe'' k, ?s1)"
        using Some False u by (simp add: add_to_wishlist_new)
      have "find (\<lambda>c. c_id c = k) (cafes ?s1) = Some cafe" using Some by simp
      then have "AddToWishlistView_post (Some p) k ?s1 = (HttpResponseRedirect ''show_cafe'' k, ?s1)"
        using wish_exists_after by (rule add_to_wishlist_existing)
      with first u False show ?thesis by blast
    qed
  qed
qed

lemma add_to_wishlist_twice:
  "AddToWishlistView_post u k (snd (AddToWishlistView_post u k s)) =
     (fst (AddToWishlistView_post u k s), snd (AddToWishlistView_post u k s))"
  using add_to_wishlist_again [of u k s] by auto

lemma add_to_wishlist_unique:
  "wish_unique s \<Longrightarrow> wish_unique (snd (AddToWishlistView_post u k s))"
proof (cases "find (\<lambda>c. c_id c = k) (cafes s)")
  case None
  assume "wish_unique s"
  with None show ?thesis by (simp add: add_to_wishlist_notfound)
next
  case (Some cafe)
  assume uq: "wish_unique s"
  show ?thesis
  proof (cases u)
    case None
    with Some uq show ?thesis by (simp add: add_to_wishlist_noprofile)
  next
    case u: (Some p)
    show ?thesis
      using Some u uq
      by (cases "wish_exists p k s")
        (simp_all add: add_to_wishlist_existing add_to_wishlist_new wish_unique_after)
  qed
qed

lemma add_to_wishlist_no_integrity_error:
  "fst (AddToWishlistView_post u k s) \<noteq> HttpResponseServerError IntegrityError"
proof (cases "find (\<lambda>c. c_id c = k) (cafes s)")
  case None
  then show ?thesis by (simp add: add_to_wishlist_notfound)
next
  case (Some cafe)
  show ?thesis
  proof (cases u)
    case None
    with Some show ?thesis by (simp add: add_to_wishlist_noprofile)
  next
    case u: (Some p)
    show ?thesis
      using Some u
      by (cases "wish_exists p k s")
        (simp_all add: add_to_wishlist_existing add_to_wishlist_new)
  qed
qed

lemma add_choice_existing:
  "wish_exists p (c_id cafe) s \<Longrightarrow>
   AddWishlistView_add_choice (Some p) cafe s = (HttpResponseRedirect ''wishlist'' 0, s)"
  by (simp add: AddWishlistView_add_choice_def)

lemma add_choice_new:
  "\<not> wish_exists p (c_id cafe) s \<Longrightarrow>
   AddWishlistView_add_choice (Some p) cafe s =
     (HttpResponseRedirect ''wishlist'' 0, s\<lparr>wishes := wishes s @ [new_wish p (c_id cafe) s]\<rparr>)"
  by (simp add: AddWishlistView_add_choice_def create_wish_new)

lemma add_choice_noprofile:
  "AddWishlistView_add_choice None cafe s = (TemplateResponse ''project/add_to_wishlist.html'', s)"
  by (simp add: AddWishlistView_add_choice_def)

lemma add_choice_twice:
  "AddWishlistView_add_choice u cafe (snd (AddWishlistView_add_choice u cafe s)) =
     (fst (AddWishlistView_add_choice u cafe s), snd (AddWishlistView_add_choice u cafe s))"
proof (cases u)
  case None
  then show ?thesis by (simp add: add_choice_noprofile)
next
  case u: (Some p)
  show ?thesis
  proof (cases "wish_exists p (c_id cafe) s")
    case True
    with u show ?thesis by (simp add: add_choice_existing)
  next
    case False
    with u show ?thesis
      by (simp add: add_choice_new add_choice_existing [OF wish_exists_after])
  qed
qed

lemma add_choice_unique:
  "wish_unique s \<Longrightarrow> wish_unique (snd (AddWishlistView_add_choice u cafe s))"
proof (cases u)
  case None
  assume "wish_unique s"
  with None show ?thesis by (simp add: add_choice_noprofile)
next
  case u: (Some p)
  assume "wish_unique s"
  with u show ?thesis
    by (cases "wish_exists p (c_id cafe) s")
      (simp_all add: add_choice_existing add_choice_new wish_unique_after)
qed

text \<open>
  Claim C8. Adding a cafe that is already on the profile's wishlist answers with the
  usual redirect and leaves the store as it is, in \<^verbatim>\<open>AddToWishlistView\<close> and in the
  cafe-choice branch of \<^verbatim>\<open>AddWishlistView\<close> alike. Hence a second add, run on the store the
  first one left, returns the first one's response and changes nothing. The existence
  check keeps the database's IntegrityError from ever reaching the caller, and every
  writer keeps the table free of two rows for one (profile, cafe) pair.
\<close>

theorem add_to_wishlist_idempotent:
  "(find (\<lambda>c. c_id c = k) (cafes s) = Some cafe \<and> wish_exists p k s \<longrightarrow>
      AddToWishlistView_post (Some p) k s = (HttpResponseRedirect ''show_cafe'' k, s))
   \<and> (wish_exists p (c_id cafe) s \<longrightarrow>
      AddWishlistView_add_choice (Some p) cafe s = (HttpResponseRedirect ''wishlist'' 0, s))
   \<and> AddToWishlistView_post u k (snd (AddToWishlistView_post u k s)) =
       (fst (AddToWishlistView_post u k s), snd (AddToWishlistView_post u k s))
   \<and> AddWishlistView_add_choice u cafe (snd (AddWishlistView_add_choice u cafe s)) =
       (fst (AddWishlistView_add_choice u cafe s), snd (AddWishlistView_add_choice u cafe s))
   \<and> fst (AddToWishlistView_post u k s) \<noteq> HttpResponseServerError IntegrityError
   \<and> (wish_unique s \<longrightarrow>
        wish_unique (snd (AddToWishlistView_post u k s))
        \<and> wish_unique (snd (AddWishlistView_add_choice u cafe s))
        \<and> wish_unique (snd (create_wish p k s)))"
  using add_to_wishlist_existing [of k s cafe p] add_choice_existing [of p cafe s]
    add_to_wishlist_twice [of u k s] add_choice_twice [of u cafe s]
    add_to_wishlist_no_integrity_error [of u k s]
    add_to_wishlist_unique [of s u k] add_choice_unique [of s u cafe]
    create_wish_unique [of s p k]
  by blast

theorem add_to_wishlist_idempotent_witness:
  "AddToWishlistView_post (Some 1) 1 example_store =
     (HttpResponseRedirect ''show_cafe'' 1,
      example_store\<lparr>wishes := [\<lparr>w_id = 1, w_profile = 1, w_cafe = 1, visited = False\<rparr>]\<rparr>)
   \<and> AddToWishlistView_post (Some 1) 1
        (example_store\<lparr>wishes := [\<lparr>w_id = 1, w_profile = 1, w_cafe = 1, visited = False\<rparr>]\<rparr>) =
     (HttpResponseRedirect ''show_cafe'' 1,
      example_store\<lparr>wishes := [\<lparr>w_id = 1, w_profile = 1, w_cafe = 1, visited = False\<rparr>]\<rparr>)
   \<and> wish_unique example_store
   \<and> wish_unique (snd (AddToWishlistView_post (Some 1) 1 example_store))"
proof -
  let ?s1 = "example_store\<lparr>wishes := [\<lparr>w_id = 1, w_profile = 1, w_cafe = 1, visited = False\<rparr>]\<rparr>"
  have first: "AddToWishlistView_post (Some 1) 1 example_store =
      (HttpResponseRedirect ''show_cafe'' 1, ?s1)"
    by (simp add: AddToWishlistView_post_def create_wish_def new_wish_def wish_exists_def
        example_store_def next_id_def)
  have uq: "wish_unique example_store"
    by (simp add: wish_unique_def example_store_def)
  have f: "find (\<lambda>c. c_id c = 1) (cafes ?s1) = Some \<lparr>c_id = 1, c_name = ''Cafe Luna''\<rparr>"
    by (simp add: example_store_def)
  have w: "wish_exists 1 1 ?s1"
    by (simp add: wish_exists_def)
  from add_to_wishlist_idempotent [where k = 1 and s = ?s1 and p = 1
      and cafe = "\<lparr>c_id = 1, c_name = ''Cafe Luna''\<rparr>"] f w
  have second: "AddToWishlistView_post (Some 1) 1 ?s1 = (HttpResponseRedirect ''show_cafe'' 1, ?s1)"
    by blast
  from add_to_wishlist_idempotent [where s = example_store and u = "Some 1" and k = 1] uq
  have "wish_unique (snd (AddToWishlistView_post (Some 1) 1 example_store))"
    by blast
  with first second uq show ?thesis by simp
qed

section \<open>Properties of Protocol B\<close>

lemma photo_resolves_Some: "photo_entry files p = Inr (Some fc) \<Longrightarrow> photo_resolves files p"
  by (simp add: photo_resolves_def)

lemma photo_resolves_None: "photo_entry files p = Inr None \<Longrightarrow> \<not> photo_resolves files p"
  by (simp add: photo_resolves_def)

lemma create_visit_photo_cases:
  "create_visit_photo L v f c s = (r, s') \<Longrightarrow>
     (\<exists>e. r = Inl e \<and> s' = s)
   \<or> (\<exists>p. r = Inr p \<and> vp_visit p = v \<and> s' = s\<lparr>visit_photos := visit_photos s @ [p]\<rparr>)"
  by (auto simp: create_visit_photo_def Let_def split: sum.splits)

lemma create_item_photo_cases:
  "create_item_photo L v f c s = (r, s') \<Longrightarrow>
     (\<exists>e. r = Inl e \<and> s' = s)
   \<or> (\<exists>p. r = Inr p \<and> ip_favorite_item p = v \<and> s' = s\<lparr>item_photos := item_photos s @ [p]\<rparr>)"
  by (auto simp: create_item_photo_def Let_def split: sum.splits)

lemma create_favorite_item_cases:
  "create_favorite_item L v n p r d s = (res, s') \<Longrightarrow>
     (\<exists>e. res = Inl e \<and> s' = s)
   \<or> (\<exists>i. res = Inr i \<and> fi_visit i = v \<and> fi_id i = next_id (map fi_id (favorite_items s))
         \<and> s' = s\<lparr>favorite_items := favorite_items s @ [i]\<rparr>)"
  by (auto simp: create_favorite_item_def favorite_item_row_def and_then_def split: sum.splits)

lemma visit_photos_loop_rows:
  "visit_photos_loop L files v photos s = (r, s') \<Longrightarrow>
   \<exists>rows. s' = s\<lparr>visit_photos := visit_photos s @ rows\<rparr>
     \<and> (\<forall>p \<in> set rows. vp_visit p = v)
     \<and> (r = Inr () \<longrightarrow> length rows = length (filter (photo_resolves files) photos))"
proof (induction photos arbitrary: s)
  case Nil
  then show ?case by (intro exI [of _ "[]"]) auto
next
  case (Cons photo_data rest)
  show ?case
  proof (cases "photo_entry files photo_data")
    case (Inl e)
    with Cons.prems show ?thesis by (intro exI [of _ "[]"]) auto
  next
    case (Inr entry)
    show ?thesis
    proof (cases entry)
      case None
      with Inr Cons.prems have "visit_photos_loop L files v rest s = (r, s')" by simp
      from Cons.IH [OF this] None Inr show ?thesis by (simp add: photo_resolves_None)
    next
      case (Some fc)
      obtain fl caption where fc: "fc = (fl, caption)" by (cases fc)
      obtain r1 s1 where c: "create_visit_photo L v fl caption s = (r1, s1)"
        by (cases "create_visit_photo L v fl caption s")
      from create_visit_photo_cases [OF c] show ?thesis
      proof (elim disjE exE conjE)
        fix e assume "r1 = Inl e" "s1 = s"
        with c Inr Some fc Cons.prems show ?thesis by (intro exI [of _ "[]"]) auto
      next
        fix p assume p: "r1 = Inr p" "vp_visit p = v"
          "s1 = s\<lparr>visit_photos := visit_photos s @ [p]\<rparr>"
        with c Inr Some fc Cons.prems have "visit_photos_loop L files v rest s1 = (r, s')"
          by simp
        from Cons.IH [OF this] obtain rows where rows:
          "s' = s1\<lparr>visit_photos := visit_photos s1 @ rows\<rparr>"
          "\<forall>p \<in> set rows. vp_visit p = v"
          "r = Inr () \<longrightarrow> length rows = length (filter (photo_resolves files) rest)"
          by blast
        show ?thesis
          using rows p Inr Some
          by (intro exI [of _ "p # rows"]) (simp add: photo_resolves_Some)
      qed
    qed
  qed
qed

lemma item_photos_loop_rows:
  "item_photos_loop L files v photos s = (r, s') \<Longrightarrow>
   \<exists>rows. s' = s\<lparr>item_photos := item_photos s @ rows\<rparr>
     \<and> (\<forall>p \<in> set rows. ip_favorite_item p = v)
     \<and> (r = Inr () \<longrightarrow> length rows = length (filter (photo_resolves files) photos))"
proof (induction photos arbitrary: s)
  case Nil
  then show ?case by (intro exI [of _ "[]"]) auto
next
  case (Cons photo_data rest)
  show ?case
  proof (cases "photo_entry files photo_data")
    case (Inl e)
    with Cons.prems show ?thesis by (intro exI [of _ "[]"]) auto
  next
    case (Inr entry)
    show ?thesis
    proof (cases entry)
      case None
      with Inr Cons.prems have "item_photos_loop L files v rest s = (r, s')" by simp
      from Cons.IH [OF this] None Inr show ?thesis by (simp add: photo_resolves_None)
    next
      case (Some fc)
      obtain fl caption where fc: "fc = (fl, caption)" by (cases fc)
      obtain r1 s1 where c: "create_item_photo L v fl caption s = (r1, s1)"
        by (cases "create_item_photo L v fl caption s")
      from create_item_photo_cases [OF c] show ?thesis
      proof (elim disjE exE conjE)
        fix e assume "r1 = Inl e" "s1 = s"
        with c Inr Some fc Cons.prems show ?thesis by (intro exI [of _ "[]"]) auto
      next
        fix p assume p: "r1 = Inr p" "ip_favorite_item p = v"
          "s1 = s\<lparr>item_photos := item_photos s @ [p]\<rparr>"
        with c Inr Some fc Cons.prems have "item_photos_loop L files v rest s1 = (r, s')"
          by simp
        from Cons.IH [OF this] obtain rows where rows:
          "s' = s1\<lparr>item_photos := item_photos s1 @ rows\<rparr>"
          "\<forall>p \<in> set rows. ip_favorite_item p = v"
          "r = Inr () \<longrightarrow> length rows = length (filter (photo_resolves files) rest)"
          by blast
        show ?thesis
          using rows p Inr Some
          by (intro exI [of _ "p # rows"]) (simp add: photo_resolves_Some)
      qed
    qed
  qed
qed

lemma favorite_item_entry_rows:
  assumes "favorite_item_entry L files v item_data name s = (r, s')"
  shows "\<exists>its ips. s' = s\<lparr>favorite_items := favorite_items s @ its,
                            item_photos := item_photos s @ ips\<rparr>
     \<and> (\<forall>i \<in> set its. fi_visit i = v)
     \<and> (\<forall>p \<in> set ips. ip_favorite_item p \<in> fi_id ` set its)
     \<and> (r = Inr () \<longrightarrow> length its = 1 \<and> length ips = item_photo_count files item_data)"
proof (cases "and_then (dict_get item_data ''price'') (\<lambda>price.
           and_then (dict_get item_data ''rating'') (\<lambda>rating.
           and_then (dict_get item_data ''description'') (\<lambda>description.
             Inr (price, rating, description))))")
  case (Inl e)
  with assms have "r = Inl e" "s' = s" by (simp_all add: favorite_item_entry_def)
  then show ?thesis by (intro exI [of _ "[]"]) simp
next
  case (Inr prd)
  obtain price rating description where prd: "prd = (price, rating, description)"
    by (cases prd)
  obtain r1 s1 where c: "create_favorite_item L v name price rating description s = (r1, s1)"
    by (cases "create_favorite_item L v name price rating description s")
  from create_favorite_item_cases [OF c] show ?thesis
  proof (elim disjE exE conjE)
    fix e assume "r1 = Inl e" "s1 = s"
    with assms Inr prd c have "r = Inl e" "s' = s" by (simp_all add: favorite_item_entry_def)
    then show ?thesis by (intro exI [of _ "[]"]) simp
  next
    fix i assume i: "r1 = Inr i" "fi_visit i = v"
      "fi_id i = next_id (map fi_id (favorite_items s))"
      "s1 = s\<lparr>favorite_items := favorite_items s @ [i]\<rparr>"
    show ?thesis
    proof (cases "get_list item_data ''photos''")
      case (Inl e)
      with assms Inr prd c i have "r = Inl e" "s' = s1" by (simp_all add: favorite_item_entry_def)
      with i show ?thesis
        by (intro exI [of _ "[i]"] exI [of _ "[]"]) simp
    next
      case photos: (Inr photos)
      with assms Inr prd c i have "item_photos_loop L files (fi_id i) photos s1 = (r, s')"
        by (simp add: favorite_item_entry_def)
      from item_photos_loop_rows [OF this] obtain rows where rows:
        "s' = s1\<lparr>item_photos := item_photos s1 @ rows\<rparr>"
        "\<forall>p \<in> set rows. ip_favorite_item p = fi_id i"
        "r = Inr () \<longrightarrow> length rows = length (filter (photo_resolves files) photos)"
        by blast
      show ?thesis
        using rows i photos
        by (intro exI [of _ "[i]"] exI [of _ rows]) (simp add: item_photo_count_def)
    qed
  qed
qed

lemma favorite_items_loop_rows:
  "favorite_items_loop L files v items s = (r, s') \<Longrightarrow>
   \<exists>its ips. s' = s\<lparr>favorite_items := favorite_items s @ its,
                      item_photos := item_photos s @ ips\<rparr>
     \<and> (\<forall>i \<in> set its. fi_visit i = v)
     \<and> (\<forall>p \<in> set ips. ip_favorite_item p \<in> fi_id ` set its)
     \<and> (r = Inr () \<longrightarrow> length its = length (filter item_named items)
           \<and> length ips = sum_list (map (item_photo_count files) (filter item_named items)))"
proof (induction items arbitrary: s)
  case Nil
  then show ?case by (intro exI [of _ "[]"]) auto
next
  case (Cons item_data rest)
  show ?case
  proof (cases "dict_get item_data ''name''")
    case (Inl e)
    with Cons.prems show ?thesis by (intro exI [of _ "[]"]) auto
  next
    case (Inr name)
    show ?thesis
    proof (cases "py_truthy name")
      case False
      with Inr Cons.prems have "favorite_items_loop L files v rest s = (r, s')" by simp
      from Cons.IH [OF this] False Inr show ?thesis by (simp add: item_named_def)
    next
      case True
      then have named: "item_named item_data" using Inr by (simp add: item_named_def)
      obtain r1 s1 where e: "favorite_item_entry L files v item_data name s = (r1, s1)"
        by (cases "favorite_item_entry L files v item_data name s")
      from favorite_item_entry_rows [OF e] obtain its1 ips1 where one:
        "s1 = s\<lparr>favorite_items := favorite_items s @ its1, item_photos := item_photos s @ ips1\<rparr>"
        "\<forall>i \<in> set its1. fi_visit i = v"
        "\<forall>p \<in> set ips1. ip_favorite_item p \<in> fi_id ` set its1"
        "r1 = Inr () \<longrightarrow> length its1 = 1 \<and> length ips1 = item_photo_count files item_data"
        by blast
      show ?thesis
      proof (cases r1)
        case (Inl err)
        with e Inr True Cons.prems have "r = Inl err" "s' = s1" by simp_all
        with one show ?thesis
          by (intro exI [of _ its1] exI [of _ ips1]) simp
      next
        case r1: (Inr u)
        with e Inr True Cons.prems have "favorite_items_loop L files v rest s1 = (r, s')"
          by simp
        from Cons.IH [OF this] obtain its2 ips2 where two:
          "s' = s1\<lparr>favorite_items := favorite_items s1 @ its2, item_photos := item_photos s1 @ ips2\<rparr>"
          "\<forall>i \<in> set its2. fi_visit i = v"
          "\<forall>p \<in> set ips2. ip_favorite_item p \<in> fi_id ` set its2"
          "r = Inr () \<longrightarrow> length its2 = length (filter item_named rest)
             \<and> length ips2 = sum_list (map (item_photo_count files) (filter item_named rest))"
          by blast
        have s': "s' = s\<lparr>favorite_items := favorite_items s @ (its1 @ its2),
                          item_photos := item_photos s @ (ips1 @ ips2)\<rparr>"
          using one(1) two(1) by simp
        have link: "\<forall>p \<in> set (ips1 @ ips2). ip_favorite_item p \<in> fi_id ` set (its1 @ its2)"
          using one(3) two(3) by auto
        have vis: "\<forall>i \<in> set (its1 @ its2). fi_visit i = v"
          using one(2) two(2) by auto
        have cnt: "r = Inr () \<longrightarrow> length (its1 @ its2) = length (filter item_named (item_data # rest))
           \<and> length (ips1 @ ips2) =
               sum_list (map (item_photo_count files) (filter item_named (item_data # rest)))"
          using one(4) two(4) r1 named by simp
        from s' vis link cnt show ?thesis by blast
      qed
    qed
  qed
qed

lemma nameless_not_truthy:
  "nameless item_data \<Longrightarrow> \<exists>name. dict_get item_data ''name'' = Inr name \<and> \<not> py_truthy name"
  by (cases item_data) (auto simp: dict_get_def split: option.splits)



lemma create_visit_cases:
  "create_visit L p c dv ur am nt s = (r, s1) \<Longrightarrow>
     (\<exists>e. r = Inl e \<and> s1 = s)
   \<or> (\<exists>v. r = Inr v \<and> v_profile v = p \<and> v_cafe v = c
         \<and> v_id v = next_id (map v_id (visits s))
         \<and> s1 = s\<lparr>visits := visits s @ [v]\<rparr>)"
  by (auto simp: create_visit_def visit_row_def insert_visit_def and_then_def split: sum.splits)

lemma log_visit_block_success:
  assumes "log_visit_block L req cafe data s = (Inr v, s')"
  shows "\<exists>profile photos items vps its ips.
       cafe_profile req = Some profile \<and> v_profile v = profile \<and> v_cafe v = c_id cafe
     \<and> v_id v \<notin> v_id ` set (visits s)
     \<and> get_list data ''visitPhotos'' = Inr photos
     \<and> get_list data ''favoriteItems'' = Inr items
     \<and> s' = visit_written s v vps its ips \<and> linked v vps its ips
     \<and> length vps = length (filter (photo_resolves (FILES req)) photos)
     \<and> length its = length (filter item_named items)
     \<and> length ips = sum_list (map (item_photo_count (FILES req)) (filter item_named items))"
proof -
  from assms obtain profile where profile: "cafe_profile req = Some profile"
    by (cases "cafe_profile req") (simp_all add: log_visit_block_def)
  obtain r1 s1 where c: "create_visit L profile (c_id cafe) (POST req ''date_visited'')
      (POST req ''user_rating'') (POST req ''amount_spent'') (POST req ''notes'') s = (r1, s1)"
    by (cases "create_visit L profile (c_id cafe) (POST req ''date_visited'')
      (POST req ''user_rating'') (POST req ''amount_spent'') (POST req ''notes'') s")
  from assms profile c obtain nv where nv: "r1 = Inr nv"
    by (cases r1) (simp_all add: log_visit_block_def)
  from create_visit_cases [OF c] nv have v1: "v_profile nv = profile" "v_cafe nv = c_id cafe"
    "v_id nv = next_id (map v_id (visits s))" "s1 = s\<lparr>visits := visits s @ [nv]\<rparr>"
    by auto
  from assms profile c nv obtain photos where photos: "get_list data ''visitPhotos'' = Inr photos"
    by (cases "get_list data ''visitPhotos''") (simp_all add: log_visit_block_def)
  obtain r2 s2 where l2: "visit_photos_loop L (FILES req) (v_id nv) photos s1 = (r2, s2)"
    by (cases "visit_photos_loop L (FILES req) (v_id nv) photos s1")
  from assms profile c nv photos l2 have r2: "r2 = Inr ()"
    by (cases r2) (simp_all add: log_visit_block_def)
  from assms profile c nv photos l2 r2 obtain items where
    items: "get_list data ''favoriteItems'' = Inr items"
    by (cases "get_list data ''favoriteItems''") (simp_all add: log_visit_block_def)
  obtain r3 s3 where l3: "favorite_items_loop L (FILES req) (v_id nv) items s2 = (r3, s3)"
    by (cases "favorite_items_loop L (FILES req) (v_id nv) items s2")
  from assms profile c nv photos l2 r2 items l3 have r3: "r3 = Inr ()" and fin: "v = nv" "s' = s3"
    by (cases r3; simp add: log_visit_block_def)+
  from visit_photos_loop_rows [OF l2] r2 obtain vps where vps:
    "s2 = s1\<lparr>visit_photos := visit_photos s1 @ vps\<rparr>"
    "\<forall>p \<in> set vps. vp_visit p = v_id nv"
    "length vps = length (filter (photo_resolves (FILES req)) photos)"
    by blast
  from favorite_items_loop_rows [OF l3] r3 obtain its ips where its:
    "s3 = s2\<lparr>favorite_items := favorite_items s2 @ its, item_photos := item_photos s2 @ ips\<rparr>"
    "\<forall>i \<in> set its. fi_visit i = v_id nv"
    "\<forall>p \<in> set ips. ip_favorite_item p \<in> fi_id ` set its"
    "length its = length (filter item_named items)"
    "length ips = sum_list (map (item_photo_count (FILES req)) (filter item_named items))"
    by blast
  have written: "s' = visit_written s v vps its ips"
    using fin v1(4) vps(1) its(1) by (simp add: visit_written_def)
  have lk: "linked v vps its ips"
    using fin vps(2) its(2,3) by (simp add: linked_def)
  have fresh: "v_id v \<notin> v_id ` set (visits s)"
    using next_id_fresh [of "map v_id (visits s)"] v1(3) fin by simp
  from profile v1(1,2) fin fresh photos items written lk vps(3) its(4,5) show ?thesis
    by blast
qed

lemma atomic_cases:
  "atomic block s = (r, s') \<Longrightarrow>
     (\<exists>e. r = Inl e \<and> s' = s) \<or> (\<exists>a. r = Inr a \<and> block s = (Inr a, s'))"
  by (auto simp: atomic_def split: prod.splits sum.splits)

lemma log_visit_except_status: "status_code (log_visit_except e) \<noteq> 200"
  by (simp add: log_visit_except_def)

lemma log_visit_post_cases:
  assumes "LogCafeVisitView_post L req cafe_pk s = (resp, s')"
  shows "(s' = s \<and> status_code resp \<noteq> 200)
   \<or> (\<exists>cafe data v. find (\<lambda>c. c_id c = cafe_pk) (cafes s) = Some cafe
         \<and> dynamic_data req = Decoded data
         \<and> log_visit_block L req cafe data s = (Inr v, s')
         \<and> resp = JsonResponse [(''success'', JBool True),
                                 (''detail'', JStr ''Visit logged successfully!''),
                                 (''redirect_url'', JNum (Finite (of_nat (v_id v))))] 200)"
proof (cases "find (\<lambda>c. c_id c = cafe_pk) (cafes s)")
  case None
  with assms show ?thesis
    by (auto simp: LogCafeVisitView_post_def log_visit_except_status)
next
  case (Some cafe)
  show ?thesis
  proof (cases "dynamic_data req")
    case Missing
    with Some assms show ?thesis by (auto simp: LogCafeVisitView_post_def)
  next
    case Malformed
    with Some assms show ?thesis
      by (auto simp: LogCafeVisitView_post_def log_visit_except_status)
  next
    case (Decoded data)
    obtain r1 s1 where a: "atomic (log_visit_block L req cafe data) s = (r1, s1)"
      by (cases "atomic (log_visit_block L req cafe data) s")
    from atomic_cases [OF a] show ?thesis
    proof (elim disjE exE conjE)
      fix e assume "r1 = Inl e" "s1 = s"
      with a Some Decoded assms show ?thesis
        by (auto simp: LogCafeVisitView_post_def log_visit_except_status)
    next
      fix v assume "r1 = Inr v" "log_visit_block L req cafe data s = (Inr v, s1)"
      with a Some Decoded assms show ?thesis
        by (auto simp: LogCafeVisitView_post_def)
    qed
  qed
qed

lemma get_list_other_key:
  "k \<noteq> key \<Longrightarrow> get_list (JObj ((k, x) # kv)) key = get_list (JObj kv) key"
  by (simp add: get_list_def)




lemma log_visit_block_POST:
  assumes "\<forall>k. k \<noteq> ''profile'' \<and> k \<noteq> ''cafe'' \<longrightarrow> P1 k = P2 k"
  shows "log_visit_block L (req\<lparr>POST := P1\<rparr>) cafe data s =
         log_visit_block L (req\<lparr>POST := P2\<rparr>) cafe data s"
proof -
  have "P1 ''date_visited'' = P2 ''date_visited''" "P1 ''user_rating'' = P2 ''user_rating''"
    "P1 ''amount_spent'' = P2 ''amount_spent''" "P1 ''notes'' = P2 ''notes''"
    using assms by simp_all
  then show ?thesis
    by (simp add: log_visit_block_def cong: option.case_cong prod.case_cong sum.case_cong)
qed

lemma log_visit_post_POST:
  assumes "\<forall>k. k \<noteq> ''profile'' \<and> k \<noteq> ''cafe'' \<longrightarrow> P1 k = P2 k"
  shows "LogCafeVisitView_post L (req\<lparr>POST := P1\<rparr>) cafe_pk s =
         LogCafeVisitView_post L (req\<lparr>POST := P2\<rparr>) cafe_pk s"
proof -
  have "\<And>cafe data. log_visit_block L (req\<lparr>POST := P1\<rparr>) cafe data =
      log_visit_block L (req\<lparr>POST := P2\<rparr>) cafe data"
    using log_visit_block_POST [OF assms] by (intro ext)
  then show ?thesis
    by (cases "find (\<lambda>c. c_id c = cafe_pk) (cafes s)"; cases "dynamic_data req")
      (simp_all add: LogCafeVisitView_post_def)
qed

text \<open>What the loop over \<^verbatim>\<open>favoriteItems\<close> writes when it ends without an exception:
  one FavoriteItem for each named entry, in order, under that entry's name.\<close>

lemma nameless_not_named: "nameless item_data \<Longrightarrow> \<not> item_named item_data"
  by (drule nameless_not_truthy) (auto simp: item_named_def)

lemma filter_named_nameless:
  "filter item_named (filter (\<lambda>i. \<not> nameless i) items) = filter item_named items"
  by (induction items) (auto dest: nameless_not_named)













text \<open>A whole Protocol B request: one of the two visit photos names an uploaded file,
  one of the two items has a name. The body's \<^verbatim>\<open>profile\<close> and \<^verbatim>\<open>cafe\<close> fields are not read.\<close>

lemma log_visit_example:
  "LogCafeVisitView_post example_lib example_log_request 1 example_store =
     (JsonResponse [(''success'', JBool True), (''detail'', JStr ''Visit logged successfully!''),
                    (''redirect_url'', JNum (Finite 2))] 200,
      example_store\<lparr>
        visits := visits example_store @
          [\<lparr>v_id = 2, v_profile = 7, v_cafe = 1, date_visited = (2025, 11, 24),
            user_rating = Finite 4.5, amount_spent = Finite 12, v_notes = ''cosy''\<rparr>],
        visit_photos := [\<lparr>vp_id = 1, vp_visit = 2, vp_image = ''visit_photos/cup.png'',
                          vp_caption = ''door''\<rparr>],
        favorite_items := [\<lparr>fi_id = 1, fi_visit = 2, fi_name = ''Latte'', fi_price = Finite 5.5,
                            fi_rating = Finite 4.5, fi_description = ''smooth''\<rparr>],
        item_photos := [\<lparr>ip_id = 1, ip_favorite_item = 1, ip_image = ''item_photos/cup.png'',
                         ip_caption = ''cup''\<rparr>]\<rparr>)"
  by (simp add: LogCafeVisitView_post_def atomic_def log_visit_block_def example_log_request_def
      example_items_def example_files_def example_store_def example_lib_def
      create_visit_def visit_row_def insert_visit_def prep_date_def prep_float_str_def
      create_visit_photo_def
      favorite_item_entry_def create_favorite_item_def favorite_item_row_def
      create_item_photo_def photo_entry_def get_list_def dict_get_def prep_float_def
      prep_text_def not_null_def next_id_def Let_def)

section \<open>Properties of Protocol A\<close>

lemma can_delete_factories [simp]:
  "can_delete VisitPhotoFormSet" "can_delete ItemPhotoFormSetFactory" "can_delete FavoriteItemFormSet"
  by (simp_all add: VisitPhotoFormSet_def ItemPhotoFormSetFactory_def FavoriteItemFormSet_def
      inlineformset_factory_def)

lemma VisitCreateView_render_status [simp]:
  "status_code (VisitCreateView_render req) = 200"
  by (simp add: VisitCreateView_render_def)

lemma save_visit_photos_rows:
  "save_visit_photos v forms s = (r, s') \<Longrightarrow>
   \<exists>rows. s' = s\<lparr>visit_photos := visit_photos s @ rows\<rparr>
     \<and> (\<forall>p \<in> set rows. vp_visit p = v)
     \<and> (r = Inr () \<longrightarrow> length rows = length (filter photo_submitted forms))"
proof (induction forms arbitrary: s)
  case Nil
  then show ?case by (intro exI [of _ "[]"]) auto
next
  case (Cons form rest)
  show ?case
  proof (cases "photo_submitted form")
    case False
    then have "save_visit_photos v (form # rest) s = save_visit_photos v rest s"
      by (auto simp: photo_submitted_def)
    with Cons.prems have "save_visit_photos v rest s = (r, s')" by simp
    from Cons.IH [OF this] False show ?thesis by simp
  next
    case True
    then have ch: "photo_has_changed form" "\<not> pf_DELETE form"
      by (simp_all add: photo_submitted_def)
    show ?thesis
    proof (cases "photo_fields_valid form")
      case False
      with ch Cons.prems have "s' = s" "r = Inl ValueError"
        by (auto simp: photo_fields_valid_def split: option.splits if_splits)
      then show ?thesis by (intro exI [of _ "[]"]) simp
    next
      case valid: True
      then obtain fl where fl: "pf_image form = Some fl" "up_is_image fl"
        by (auto simp: photo_fields_valid_def split: option.splits)
      let ?p = "\<lparr>vp_id = next_id (map vp_id (visit_photos s)), vp_visit = v,
                 vp_image = ''visit_photos/'' @ up_name fl, vp_caption = pf_caption form\<rparr>"
      let ?s1 = "s\<lparr>visit_photos := visit_photos s @ [?p]\<rparr>"
      from ch fl Cons.prems have "save_visit_photos v rest ?s1 = (r, s')" by simp
      from Cons.IH [OF this] obtain rows where rows:
        "s' = ?s1\<lparr>visit_photos := visit_photos ?s1 @ rows\<rparr>"
        "\<forall>p \<in> set rows. vp_visit p = v"
        "r = Inr () \<longrightarrow> length rows = length (filter photo_submitted rest)"
        by blast
      show ?thesis
        using rows True by (intro exI [of _ "?p # rows"]) simp
    qed
  qed
qed

lemma save_item_photos_rows:
  "save_item_photos v forms s = (r, s') \<Longrightarrow>
   \<exists>rows. s' = s\<lparr>item_photos := item_photos s @ rows\<rparr>
     \<and> (\<forall>p \<in> set rows. ip_favorite_item p = v)
     \<and> (r = Inr () \<longrightarrow> length rows = length (filter photo_submitted forms))"
proof (induction forms arbitrary: s)
  case Nil
  then show ?case by (intro exI [of _ "[]"]) auto
next
  case (Cons form rest)
  show ?case
  proof (cases "photo_submitted form")
    case False
    then have "save_item_photos v (form # rest) s = save_item_photos v rest s"
      by (auto simp: photo_submitted_def)
    with Cons.prems have "save_item_photos v rest s = (r, s')" by simp
    from Cons.IH [OF this] False show ?thesis by simp
  next
    case True
    then have ch: "photo_has_changed form" "\<not> pf_DELETE form"
      by (simp_all add: photo_submitted_def)
    show ?thesis
    proof (cases "photo_fields_valid form")
      case False
      with ch Cons.prems have "s' = s" "r = Inl ValueError"
        by (auto simp: photo_fields_valid_def split: option.splits if_splits)
      then show ?thesis by (intro exI [of _ "[]"]) simp
    next
      case valid: True
      then obtain fl where fl: "pf_image form = Some fl" "up_is_image fl"
        by (auto simp: photo_fields_valid_def split: option.splits)
      let ?p = "\<lparr>ip_id = next_id (map ip_id (item_photos s)), ip_favorite_item = v,
                 ip_image = ''item_photos/'' @ up_name fl, ip_caption = pf_caption form\<rparr>"
      let ?s1 = "s\<lparr>item_photos := item_photos s @ [?p]\<rparr>"
      from ch fl Cons.prems have "save_item_photos v rest ?s1 = (r, s')" by simp
      from Cons.IH [OF this] obtain rows where rows:
        "s' = ?s1\<lparr>item_photos := item_photos ?s1 @ rows\<rparr>"
        "\<forall>p \<in> set rows. ip_favorite_item p = v"
        "r = Inr () \<longrightarrow> length rows = length (filter photo_submitted rest)"
        by blast
      show ?thesis
        using rows True by (intro exI [of _ "?p # rows"]) simp
    qed
  qed
qed

lemma save_favorite_item_cases:
  "save_favorite_item L v f s = (res, s') \<Longrightarrow>
     (\<exists>e. res = Inl e \<and> s' = s)
   \<or> (\<exists>i. res = Inr i \<and> fi_visit i = v \<and> s' = s\<lparr>favorite_items := favorite_items s @ [i]\<rparr>)"
  by (auto simp: save_favorite_item_def Let_def split: option.splits if_splits)

lemma save_item_forms_rows:
  "save_item_forms L v forms s = (r, s') \<Longrightarrow>
   \<exists>its ips. s' = s\<lparr>favorite_items := favorite_items s @ its,
                      item_photos := item_photos s @ ips\<rparr>
     \<and> (\<forall>i \<in> set its. fi_visit i = v)
     \<and> (\<forall>p \<in> set ips. ip_favorite_item p \<in> fi_id ` set its)
     \<and> (r = Inr () \<longrightarrow> length its = length (filter item_submitted forms)
           \<and> length ips = sum_list (map nested_submitted (filter item_submitted forms)))"
proof (induction forms arbitrary: s)
  case Nil
  then show ?case by (intro exI [of _ "[]"]) auto
next
  case (Cons form rest)
  show ?case
  proof (cases "item_submitted form")
    case False
    show ?thesis
    proof (cases "item_has_changed form")
      case True
      with False have "if_DELETE form" by (simp add: item_submitted_def)
      with True Cons.prems have "r = Inl ValueError" "s' = s" by simp_all
      then show ?thesis by (intro exI [of _ "[]"]) simp
    next
      case unchanged: False
      with Cons.prems have "save_item_forms L v rest s = (r, s')" by simp
      from Cons.IH [OF this] False show ?thesis by simp
    qed
  next
    case True
    then have ch: "item_has_changed form" "\<not> if_DELETE form"
      by (simp_all add: item_submitted_def)
    obtain r1 s1 where c: "save_favorite_item L v form s = (r1, s1)"
      by (cases "save_favorite_item L v form s")
    from save_favorite_item_cases [OF c] show ?thesis
    proof (elim disjE exE conjE)
      fix e assume "r1 = Inl e" "s1 = s"
      with c ch Cons.prems have "r = Inl e" "s' = s" by simp_all
      then show ?thesis by (intro exI [of _ "[]"]) simp
    next
      fix i assume i: "r1 = Inr i" "fi_visit i = v"
        "s1 = s\<lparr>favorite_items := favorite_items s @ [i]\<rparr>"
      obtain r2 s2 where n: "(case nested_photo_formset form of
            None \<Rightarrow> (Inr (), s1)
          | Some nested \<Rightarrow> save_item_photos (fi_id i)
              (formset_forms ItemPhotoFormSetFactory nested) s1) = (r2, s2)"
        by (cases "case nested_photo_formset form of
            None \<Rightarrow> (Inr (), s1)
          | Some nested \<Rightarrow> save_item_photos (fi_id i)
              (formset_forms ItemPhotoFormSetFactory nested) s1")
      have "\<exists>ips1. s2 = s1\<lparr>item_photos := item_photos s1 @ ips1\<rparr>
          \<and> (\<forall>p \<in> set ips1. ip_favorite_item p = fi_id i)
          \<and> (r2 = Inr () \<longrightarrow> length ips1 = nested_submitted form)"
      proof (cases "nested_photo_formset form")
        case None
        with n show ?thesis
          by (intro exI [of _ "[]"]) (auto simp: nested_submitted_def)
      next
        case (Some nested)
        with n have "save_item_photos (fi_id i)
            (formset_forms ItemPhotoFormSetFactory nested) s1 = (r2, s2)" by simp
        from save_item_photos_rows [OF this] Some show ?thesis
          by (simp add: nested_submitted_def)
      qed
      then obtain ips1 where ips1: "s2 = s1\<lparr>item_photos := item_photos s1 @ ips1\<rparr>"
        "\<forall>p \<in> set ips1. ip_favorite_item p = fi_id i"
        "r2 = Inr () \<longrightarrow> length ips1 = nested_submitted form"
        by blast
      show ?thesis
      proof (cases r2)
        case (Inl e)
        with n c i ch Cons.prems have "r = Inl e" "s' = s2"
          by (auto split: option.splits)
        with ips1 i show ?thesis
          by (intro exI [of _ "[i]"] exI [of _ ips1]) simp
      next
        case r2: (Inr u)
        with n c i ch Cons.prems have "save_item_forms L v rest s2 = (r, s')"
          by (auto split: option.splits)
        from Cons.IH [OF this] obtain its2 ips2 where two:
          "s' = s2\<lparr>favorite_items := favorite_items s2 @ its2, item_photos := item_photos s2 @ ips2\<rparr>"
          "\<forall>i \<in> set its2. fi_visit i = v"
          "\<forall>p \<in> set ips2. ip_favorite_item p \<in> fi_id ` set its2"
          "r = Inr () \<longrightarrow> length its2 = length (filter item_submitted rest)
             \<and> length ips2 = sum_list (map nested_submitted (filter item_submitted rest))"
          by blast
        have s': "s' = s\<lparr>favorite_items := favorite_items s @ (i # its2),
                          item_photos := item_photos s @ (ips1 @ ips2)\<rparr>"
          using i(3) ips1(1) two(1) by simp
        have link: "\<forall>p \<in> set (ips1 @ ips2). ip_favorite_item p \<in> fi_id ` set (i # its2)"
          using ips1(2) two(3) by auto
        have vis: "\<forall>j \<in> set (i # its2). fi_visit j = v"
          using i(2) two(2) by auto
        have cnt: "r = Inr () \<longrightarrow> length (i # its2) = length (filter item_submitted (form # rest))
           \<and> length (ips1 @ ips2) =
               sum_list (map nested_submitted (filter item_submitted (form # rest)))"
          using ips1(3) two(4) r2 True by simp
        from s' vis link cnt show ?thesis by blast
      qed
    qed
  qed
qed

lemma save_visit_cases:
  "save_visit p c cd s = (r, s1) \<Longrightarrow>
     (\<exists>e. r = Inl e \<and> s1 = s)
   \<or> (\<exists>v. r = Inr v \<and> v_profile v = p \<and> v_cafe v = c
         \<and> v_id v = next_id (map v_id (visits s))
         \<and> s1 = s\<lparr>visits := visits s @ [v]\<rparr>)"
  by (auto simp: save_visit_def insert_visit_def split: option.splits)

lemma visit_create_block_success:
  assumes "visit_create_block L req cafe cd s = (Inr v, s')"
  shows "\<exists>profile vps its ips.
       cafe_profile req = Some profile \<and> v_profile v = profile \<and> v_cafe v = c_id cafe
     \<and> v_id v \<notin> v_id ` set (visits s)
     \<and> s' = visit_written s v vps its ips \<and> linked v vps its ips
     \<and> length vps = length (filter photo_submitted (formset_forms VisitPhotoFormSet (photos_data req)))
     \<and> length its = length (filter item_submitted (favorite_item_forms req))
     \<and> length ips = sum_list (map nested_submitted (filter item_submitted (favorite_item_forms req)))"
proof -
  from assms obtain profile where profile: "cafe_profile req = Some profile"
    by (cases "cafe_profile req") (simp_all add: visit_create_block_def)
  obtain r1 s1 where c: "save_visit profile (c_id cafe) cd s = (r1, s1)"
    by (cases "save_visit profile (c_id cafe) cd s")
  from assms profile c obtain nv where nv: "r1 = Inr nv"
    by (cases r1) (simp_all add: visit_create_block_def)
  from save_visit_cases [OF c] nv have v1: "v_profile nv = profile" "v_cafe nv = c_id cafe"
    "v_id nv = next_id (map v_id (visits s))" "s1 = s\<lparr>visits := visits s @ [nv]\<rparr>"
    by auto
  obtain r2 s2 where l2: "save_visit_photos (v_id nv)
      (formset_forms VisitPhotoFormSet (photos_data req)) s1 = (r2, s2)"
    by (cases "save_visit_photos (v_id nv) (formset_forms VisitPhotoFormSet (photos_data req)) s1")
  from assms profile c nv l2 have r2: "r2 = Inr ()"
    by (cases r2) (simp_all add: visit_create_block_def)
  obtain r3 s3 where l3: "save_item_forms L (v_id nv) (favorite_item_forms req) s2 = (r3, s3)"
    by (cases "save_item_forms L (v_id nv) (favorite_item_forms req) s2")
  from assms profile c nv l2 r2 l3 have r3: "r3 = Inr ()" and fin: "v = nv" "s' = s3"
    by (cases r3; simp add: visit_create_block_def)+
  from save_visit_photos_rows [OF l2] r2 obtain vps where vps:
    "s2 = s1\<lparr>visit_photos := visit_photos s1 @ vps\<rparr>"
    "\<forall>p \<in> set vps. vp_visit p = v_id nv"
    "length vps = length (filter photo_submitted (formset_forms VisitPhotoFormSet (photos_data req)))"
    by blast
  from save_item_forms_rows [OF l3] r3 obtain its ips where its:
    "s3 = s2\<lparr>favorite_items := favorite_items s2 @ its, item_photos := item_photos s2 @ ips\<rparr>"
    "\<forall>i \<in> set its. fi_visit i = v_id nv"
    "\<forall>p \<in> set ips. ip_favorite_item p \<in> fi_id ` set its"
    "length its = length (filter item_submitted (favorite_item_forms req))"
    "length ips = sum_list (map nested_submitted (filter item_submitted (favorite_item_forms req)))"
    by blast
  have written: "s' = visit_written s v vps its ips"
    using fin v1(4) vps(1) its(1) by (simp add: visit_written_def)
  have lk: "linked v vps its ips"
    using fin vps(2) its(2,3) by (simp add: linked_def)
  have fresh: "v_id v \<notin> v_id ` set (visits s)"
    using next_id_fresh [of "map v_id (visits s)"] v1(3) fin by simp
  from profile v1(1,2) fin fresh written lk vps(3) its(4,5) show ?thesis
    by blast
qed

lemma visit_create_form_valid_cases:
  assumes "VisitCreateView_form_valid L req cafe s = (resp, s')"
  shows "(s' = s \<and> status_code resp \<noteq> 302)
   \<or> (\<exists>cd v. VisitForm_clean L (POST req) = Some cd
         \<and> fst (check_nested (favorite_item_forms req))
         \<and> visit_create_block L req cafe cd s = (Inr v, s')
         \<and> resp = HttpResponseRedirect ''visit_detail'' (v_id v))"
proof (cases "VisitForm_clean L (POST req)")
  case None
  with assms show ?thesis by (auto simp: VisitCreateView_form_valid_def)
next
  case (Some cd)
  show ?thesis
  proof (cases "\<not> formset_is_valid VisitPhotoFormSet photo_form_is_valid pf_DELETE (photos_data req)
            \<or> \<not> formset_is_valid FavoriteItemFormSet (item_form_is_valid L) if_DELETE (items_data req)
            \<or> \<not> fst (check_nested (favorite_item_forms req))")
    case True
    with Some assms show ?thesis
      by (auto simp: VisitCreateView_form_valid_def split: if_splits)
  next
    case False
    obtain r1 s1 where a: "atomic (visit_create_block L req cafe cd) s = (r1, s1)"
      by (cases "atomic (visit_create_block L req cafe cd) s")
    from atomic_cases [OF a] show ?thesis
    proof (elim disjE exE conjE)
      fix e assume "r1 = Inl e" "s1 = s"
      with a Some False assms show ?thesis
        by (auto simp: VisitCreateView_form_valid_def)
    next
      fix v assume "r1 = Inr v" "visit_create_block L req cafe cd s = (Inr v, s1)"
      with a Some False assms show ?thesis
        by (auto simp: VisitCreateView_form_valid_def)
    qed
  qed
qed

lemma visit_create_post_cases:
  assumes "VisitCreateView_post L req cafe_pk s = (resp, s')"
  shows "(s' = s \<and> status_code resp \<noteq> 302)
   \<or> (\<exists>cafe cd v. find (\<lambda>c. c_id c = cafe_pk) (cafes s) = Some cafe
         \<and> VisitForm_clean L (POST req) = Some cd
         \<and> fst (check_nested (favorite_item_forms req))
         \<and> visit_create_block L req cafe cd s = (Inr v, s')
         \<and> resp = HttpResponseRedirect ''visit_detail'' (v_id v))"
proof (cases "find (\<lambda>c. c_id c = cafe_pk) (cafes s)")
  case None
  with assms show ?thesis by (auto simp: VisitCreateView_post_def)
next
  case (Some cafe)
  show ?thesis
  proof (cases "VisitForm_is_valid L (POST req)")
    case False
    with Some assms show ?thesis by (auto simp: VisitCreateView_post_def)
  next
    case True
    with Some assms have "VisitCreateView_form_valid L req cafe s = (resp, s')"
      by (simp add: VisitCreateView_post_def)
    from visit_create_form_valid_cases [OF this] Some show ?thesis by blast
  qed
qed

lemma check_nested_eq:
  "check_nested forms =
     (list_all nested_ok (nested_candidates forms),
      takeWhile nested_ok (nested_candidates forms)
        @ take 1 (dropWhile nested_ok (nested_candidates forms)))"
proof (induction forms)
  case Nil
  show ?case by (simp add: nested_candidates_def)
next
  case (Cons f rest)
  show ?case
  proof (cases "nested_photo_formset f")
    case None
    with Cons show ?thesis by (simp add: nested_candidates_def)
  next
    case (Some nested)
    with Cons show ?thesis
      by (simp add: nested_candidates_def nested_ok_def)
  qed
qed

lemma visit_create_post_nested_rejected:
  assumes "find (\<lambda>c. c_id c = cafe_pk) (cafes s) = Some cafe"
    and "\<not> list_all nested_ok (nested_candidates (favorite_item_forms req))"
  shows "VisitCreateView_post L req cafe_pk s = (VisitCreateView_render req, s)"
proof -
  from assms(2) have "\<not> fst (check_nested (favorite_item_forms req))"
    by (simp add: check_nested_eq)
  with assms(1) show ?thesis
    by (simp add: VisitCreateView_post_def VisitCreateView_form_valid_def split: option.splits)
qed

lemma favorite_item_forms_nested:
  "map nested_photo_formset (favorite_item_forms req) =
     map (\<lambda>d. Some (item_photos_data d)) (formset_forms FavoriteItemFormSet (items_data req))"
  by (simp add: favorite_item_forms_def bind_item_form_def)

lemma VisitForm_clean_POST:
  assumes "\<forall>k. k \<noteq> ''profile'' \<and> k \<noteq> ''cafe'' \<longrightarrow> P1 k = P2 k"
  shows "VisitForm_clean L P1 = VisitForm_clean L P2"
proof -
  have "P1 ''date_visited'' = P2 ''date_visited''" "P1 ''user_rating'' = P2 ''user_rating''"
    "P1 ''amount_spent'' = P2 ''amount_spent''" "P1 ''notes'' = P2 ''notes''"
    using assms by simp_all
  then have fv: "field_value P1 ''date_visited'' = field_value P2 ''date_visited''"
    "field_value P1 ''user_rating'' = field_value P2 ''user_rating''"
    "field_value P1 ''amount_spent'' = field_value P2 ''amount_spent''"
    "field_value P1 ''notes'' = field_value P2 ''notes''"
    by (simp_all add: field_value_def)
  show ?thesis
    unfolding VisitForm_clean_def by (simp only: fv)
qed

lemma visit_create_post_POST:
  assumes "\<forall>k. k \<noteq> ''profile'' \<and> k \<noteq> ''cafe'' \<longrightarrow> P1 k = P2 k"
  shows "VisitCreateView_post L (req\<lparr>POST := P1\<rparr>) cafe_pk s =
         VisitCreateView_post L (req\<lparr>POST := P2\<rparr>) cafe_pk s"
proof -
  have c: "VisitForm_clean L P1 = VisitForm_clean L P2"
    using assms by (rule VisitForm_clean_POST)
  have f: "favorite_item_forms (req\<lparr>POST := P1\<rparr>) = favorite_item_forms (req\<lparr>POST := P2\<rparr>)"
    by (simp add: favorite_item_forms_def)
  have r: "VisitCreateView_render (req\<lparr>POST := P1\<rparr>) = VisitCreateView_render (req\<lparr>POST := P2\<rparr>)"
    by (simp add: VisitCreateView_render_def favorite_item_forms_def)
  have b: "\<And>cafe cd. visit_create_block L (req\<lparr>POST := P1\<rparr>) cafe cd =
      visit_create_block L (req\<lparr>POST := P2\<rparr>) cafe cd"
    by (intro ext)
      (simp add: visit_create_block_def favorite_item_forms_def
        cong: option.case_cong prod.case_cong sum.case_cong)
  have fv: "\<And>cafe. VisitCreateView_form_valid L (req\<lparr>POST := P1\<rparr>) cafe s =
      VisitCreateView_form_valid L (req\<lparr>POST := P2\<rparr>) cafe s"
    by (simp add: VisitCreateView_form_valid_def c f b r cong: option.case_cong if_cong)
  show ?thesis
    by (cases "find (\<lambda>c. c_id c = cafe_pk) (cafes s)")
      (simp_all add: VisitCreateView_post_def VisitForm_is_valid_def c fv r)
qed

section \<open>Properties of the update view\<close>

lemma VisitUpdateView_render_status [simp]:
  "status_code (VisitUpdateView_render req visit s) = 200"
  by (simp add: VisitUpdateView_render_def)














lemma check_nested_update_eq:
  "check_nested_update s forms =
     (list_all (update_nested_ok s) (update_nested_candidates forms),
      takeWhile (update_nested_ok s) (update_nested_candidates forms)
        @ take 1 (dropWhile (update_nested_ok s) (update_nested_candidates forms)))"
proof (induction forms)
  case Nil
  show ?case by (simp add: update_nested_candidates_def)
next
  case (Cons f rest)
  show ?case
  proof (cases "update_nested_photo_formset (mf_fields f)")
    case None
    with Cons show ?thesis by (simp add: update_nested_candidates_def)
  next
    case (Some nested)
    with Cons show ?thesis
      by (simp add: update_nested_candidates_def update_nested_ok_def)
  qed
qed

lemma visit_update_post_nested_rejected:
  assumes "find (\<lambda>v. v_id v = pk) (visits s) = Some visit"
    and "\<not> list_all (update_nested_ok s) (update_nested_candidates
           (formset_forms FavoriteItemFormSet (update_favorite_item_formset req visit s)))"
  shows "VisitUpdateView_post L req pk s = (VisitUpdateView_render req visit s, s)"
proof -
  from assms(2) have "\<not> fst (check_nested_update s
      (formset_forms FavoriteItemFormSet (update_favorite_item_formset req visit s)))"
    by (simp add: check_nested_update_eq)
  with assms(1) show ?thesis
    by (simp add: VisitUpdateView_post_def VisitUpdateView_form_valid_def split: option.splits)
qed


lemma update_item_forms_nested:
  assumes "f \<in> set (formset_forms FavoriteItemFormSet (update_favorite_item_formset req visit s))"
  shows "update_nested_photo_formset (mf_fields f) \<noteq> None \<longleftrightarrow>
           (\<exists>item. mf_instance f = Some item \<and> fi_id item \<noteq> 0)"
proof -
  from assms have "f \<in> set (update_favorite_item_formset req visit s)"
    by (auto simp: formset_forms_def dest: in_set_takeD)
  then obtain g where "f = bind_update_item_form s g"
    by (auto simp: update_favorite_item_formset_def)
  then show ?thesis
    by (auto simp: bind_update_item_form_def nested_formset_for_def split: option.splits)
qed

section \<open>The claims about the visit protocols\<close>

lemmas example_defs =
  example_photo_def example_item_def example_form_request_def example_store_def example_lib_def

lemmas formset_defs =
  formset_is_valid_def formset_forms_def VisitPhotoFormSet_def ItemPhotoFormSetFactory_def
  FavoriteItemFormSet_def inlineformset_factory_def photo_form_is_valid_def
  photo_has_changed_def photo_fields_valid_def item_form_is_valid_def item_has_changed_def
  item_fields_valid_def nested_is_valid_def favorite_item_forms_def bind_item_form_def

lemmas view_defs =
  VisitCreateView_post_def VisitCreateView_form_valid_def VisitCreateView_render_def
  VisitForm_is_valid_def
  VisitForm_clean_def field_value_def atomic_def visit_create_block_def save_visit_def
  insert_visit_def save_favorite_item_def next_id_def

lemmas log_defs =
  LogCafeVisitView_post_def atomic_def log_visit_block_def log_visit_except_def
  example_log_request_def
  example_items_def example_files_def example_store_def example_lib_def
  create_visit_def visit_row_def insert_visit_def prep_date_def prep_float_str_def
  create_visit_photo_def favorite_item_entry_def create_favorite_item_def favorite_item_row_def
  create_item_photo_def photo_entry_def get_list_def dict_get_def prep_float_def
  prep_text_def not_null_def next_id_def Let_def

text \<open>A Protocol A request with one visit photo and one item with one photo.\<close>

lemma example_form_request_saved:
  "VisitCreateView_post example_lib example_form_request 1 example_store =
     (HttpResponseRedirect ''visit_detail'' 2,
      visit_written example_store
        \<lparr>v_id = 2, v_profile = 7, v_cafe = 1, date_visited = (2025, 11, 24),
          user_rating = Finite 4, amount_spent = Finite 12, v_notes = ''cosy''\<rparr>
        [\<lparr>vp_id = 1, vp_visit = 2, vp_image = ''visit_photos/door.png'', vp_caption = ''door''\<rparr>]
        [\<lparr>fi_id = 1, fi_visit = 2, fi_name = ''Latte'', fi_price = Finite 12,
          fi_rating = Finite 4, fi_description = ''nice''\<rparr>]
        [\<lparr>ip_id = 1, ip_favorite_item = 1, ip_image = ''item_photos/cup.png'',
          ip_caption = ''cup''\<rparr>])"
  by (simp add: view_defs formset_defs example_defs visit_written_def Let_def)

text \<open>The second item has no price: its insert fails after the Visit, a VisitPhoto and
  the first FavoriteItem were written. The block alone leaves them behind; the view,
  which runs the block under \<open>atomic\<close>, answers 500.\<close>

lemma failing_block_leaves_rows:
  "log_visit_block example_lib failing_log_request \<lparr>c_id = 1, c_name = ''Cafe Luna''\<rparr>
     (JObj [(''visitPhotos'', JArr [JObj [(''file_key'', JStr ''f1''), (''caption'', JStr ''door'')]]),
            (''favoriteItems'',
             JArr [JObj [(''name'', JStr ''Latte''), (''price'', JNum (Finite 5.5)),
                         (''rating'', JNum (Finite 4.5)), (''description'', JStr ''smooth'')],
                   JObj [(''name'', JStr ''Mocha''), (''rating'', JNum (Finite 3)),
                         (''description'', JStr ''no price'')]])])
     example_store =
   (Inl IntegrityError,
    example_store\<lparr>
      visits := visits example_store @
        [\<lparr>v_id = 2, v_profile = 7, v_cafe = 1, date_visited = (2025, 11, 24),
          user_rating = Finite 4.5, amount_spent = Finite 12, v_notes = ''cosy''\<rparr>],
      visit_photos := [\<lparr>vp_id = 1, vp_visit = 2, vp_image = ''visit_photos/cup.png'',
                        vp_caption = ''door''\<rparr>],
      favorite_items := [\<lparr>fi_id = 1, fi_visit = 2, fi_name = ''Latte'', fi_price = Finite 5.5,
                          fi_rating = Finite 4.5, fi_description = ''smooth''\<rparr>]\<rparr>)"
  by (simp add: log_defs failing_log_request_def)


text \<open>The update of visit 1 in the worked example, step by step, and the same update
  with \<^verbatim>\<open>amount_spent\<close> left blank.\<close>

lemma example_photo_forms_bound:
  "photos_post req = photos_post example_update_request \<Longrightarrow>
   update_visit_photo_formset req visit_one visited_store = example_photo_forms"
  by (simp add: update_visit_photo_formset_def model_formset_def construct_form_def existing_object_def
       visited_store_def example_update_request_def example_photo_def visit_one_def
       example_photo_forms_def)


lemma find_visit_one: "find (\<lambda>v. v_id v = 1) (visits visited_store) = Some visit_one"
  by (simp add: visited_store_def example_store_def visit_one_def)













text \<open>The update of visit 1 with two items whose nested formsets are both invalid.\<close>

lemma bad_nested_forms_bound:
  "update_favorite_item_formset bad_nested_update_request visit_one visited_store =
     [bad_nested_form 1 ''Mocha'' ''sweet'', bad_nested_form 2 ''Latte'' ''nice'']"
  by (simp add: update_favorite_item_formset_def model_formset_def construct_form_def existing_object_def
       bind_update_item_form_def nested_formset_for_def update_item_def
       visited_store_def example_update_request_def bad_nested_update_request_def visit_one_def
       bad_nested_form_def)

lemma bad_nested_forms_invalid:
  "update_nested_candidates (formset_forms FavoriteItemFormSet
       [bad_nested_form 1 ''Mocha'' ''sweet'', bad_nested_form 2 ''Latte'' ''nice'']) =
     [bad_nested_form 1 ''Mocha'' ''sweet'', bad_nested_form 2 ''Latte'' ''nice'']"
  "\<not> update_nested_ok visited_store (bad_nested_form 1 ''Mocha'' ''sweet'')"
  "\<not> update_nested_ok visited_store (bad_nested_form 2 ''Latte'' ''nice'')"
  by (simp_all add: update_nested_candidates_def update_nested_ok_def bad_nested_form_def
      formset_defs update_nested_is_valid_def item_photo_form_is_valid_def
      model_photo_form_is_valid_def model_photo_fields_valid_def model_photo_has_changed_def
      id_field_valid_def id_has_changed_def caption_only_def)

lemma bad_nested_photo_forms_bound:
  "update_visit_photo_formset bad_nested_update_request visit_one visited_store = example_photo_forms"
  by (rule example_photo_forms_bound) (simp add: bad_nested_update_request_def)

text \<open>
  Claim C2, as amended. In both views of Protocol A the check of the nested formsets
  looks at the item forms that are not marked for deletion and have a nested formset, in
  order: it validates the nested formset of each one up to and including the first
  whose nested formset is invalid, and of none after it. It finds all nested formsets
  valid exactly when they all are; otherwise nothing is written and the answer is the
  page rendered from a context that is built again: in the create view every item form
  of that context carries its nested formset, bound to the submitted data, and in the
  update view every item form whose instance has a key does, the forms the check did
  not reach included.
\<close>

theorem nested_check_stops_at_first_invalid:
  "check_nested forms =
     (list_all nested_ok (nested_candidates forms),
      takeWhile nested_ok (nested_candidates forms)
        @ take 1 (dropWhile nested_ok (nested_candidates forms)))
   \<and> check_nested_update s uforms =
     (list_all (update_nested_ok s) (update_nested_candidates uforms),
      takeWhile (update_nested_ok s) (update_nested_candidates uforms)
        @ take 1 (dropWhile (update_nested_ok s) (update_nested_candidates uforms)))
   \<and> (find (\<lambda>c. c_id c = cafe_pk) (cafes s) = Some cafe
        \<and> \<not> list_all nested_ok (nested_candidates (favorite_item_forms req)) \<longrightarrow>
      VisitCreateView_post L req cafe_pk s =
        (CreateVisitPage ''project/create_visit.html''
           (formset_forms VisitPhotoFormSet (photos_data req)) (favorite_item_forms req), s)
      \<and> map nested_photo_formset (favorite_item_forms req) =
          map (\<lambda>d. Some (item_photos_data d)) (formset_forms FavoriteItemFormSet (items_data req)))
   \<and> (find (\<lambda>v. v_id v = pk) (visits s) = Some visit
        \<and> \<not> list_all (update_nested_ok s) (update_nested_candidates
               (formset_forms FavoriteItemFormSet (update_favorite_item_formset ureq visit s))) \<longrightarrow>
      VisitUpdateView_post L ureq pk s =
        (UpdateVisitPage ''project/update_visit.html''
           (formset_forms VisitPhotoFormSet (update_visit_photo_formset ureq visit s))
           (formset_forms FavoriteItemFormSet (update_favorite_item_formset ureq visit s)), s)
      \<and> (\<forall>f \<in> set (formset_forms FavoriteItemFormSet (update_favorite_item_formset ureq visit s)).
            update_nested_photo_formset (mf_fields f) \<noteq> None \<longleftrightarrow>
              (\<exists>item. mf_instance f = Some item \<and> fi_id item \<noteq> 0)))"
proof (intro conjI impI ballI)
  show "check_nested forms =
     (list_all nested_ok (nested_candidates forms),
      takeWhile nested_ok (nested_candidates forms)
        @ take 1 (dropWhile nested_ok (nested_candidates forms)))"
    by (rule check_nested_eq)
next
  show "check_nested_update s uforms =
     (list_all (update_nested_ok s) (update_nested_candidates uforms),
      takeWhile (update_nested_ok s) (update_nested_candidates uforms)
        @ take 1 (dropWhile (update_nested_ok s) (update_nested_candidates uforms)))"
    by (rule check_nested_update_eq)
next
  assume "find (\<lambda>c. c_id c = cafe_pk) (cafes s) = Some cafe
        \<and> \<not> list_all nested_ok (nested_candidates (favorite_item_forms req))"
  then have "VisitCreateView_post L req cafe_pk s = (VisitCreateView_render req, s)"
    using visit_create_post_nested_rejected by blast
  then show "VisitCreateView_post L req cafe_pk s =
        (CreateVisitPage ''project/create_visit.html''
           (formset_forms VisitPhotoFormSet (photos_data req)) (favorite_item_forms req), s)"
    by (simp add: VisitCreateView_render_def)
next
  show "map nested_photo_formset (favorite_item_forms req) =
          map (\<lambda>d. Some (item_photos_data d)) (formset_forms FavoriteItemFormSet (items_data req))"
    by (rule favorite_item_forms_nested)
next
  assume "find (\<lambda>v. v_id v = pk) (visits s) = Some visit
        \<and> \<not> list_all (update_nested_ok s) (update_nested_candidates
               (formset_forms FavoriteItemFormSet (update_favorite_item_formset ureq visit s)))"
  then have "VisitUpdateView_post L ureq pk s = (VisitUpdateView_render ureq visit s, s)"
    using visit_update_post_nested_rejected by blast
  then show "VisitUpdateView_post L ureq pk s =
        (UpdateVisitPage ''project/update_visit.html''
           (formset_forms VisitPhotoFormSet (update_visit_photo_formset ureq visit s))
           (formset_forms FavoriteItemFormSet (update_favorite_item_formset ureq visit s)), s)"
    by (simp add: VisitUpdateView_render_def)
next
  fix f
  assume "f \<in> set (formset_forms FavoriteItemFormSet (update_favorite_item_formset ureq visit s))"
  then show "update_nested_photo_formset (mf_fields f) \<noteq> None \<longleftrightarrow>
      (\<exists>item. mf_instance f = Some item \<and> fi_id item \<noteq> 0)"
    by (rule update_item_forms_nested)
qed

text \<open>Two items, each with a nested photo form that has a caption and no file, sent to
  the create view and to the update view: the check validates the first nested formset
  only, and the page that is rendered again carries both.\<close>

theorem nested_check_stops_at_first_invalid_witness:
  "check_nested (favorite_item_forms bad_nested_request) =
     (False, [bind_item_form (example_item ''Latte'' [caption_only])])
   \<and> VisitCreateView_post example_lib bad_nested_request 1 example_store =
       (CreateVisitPage ''project/create_visit.html'' [example_photo ''door.png'' ''door'']
          [bind_item_form (example_item ''Latte'' [caption_only]),
           bind_item_form (example_item ''Mocha'' [caption_only])], example_store)
   \<and> check_nested_update visited_store
        [bad_nested_form 1 ''Mocha'' ''sweet'', bad_nested_form 2 ''Latte'' ''nice''] =
     (False, [bad_nested_form 1 ''Mocha'' ''sweet''])
   \<and> VisitUpdateView_post example_lib bad_nested_update_request 1 visited_store =
       (UpdateVisitPage ''project/update_visit.html'' example_photo_forms
          [bad_nested_form 1 ''Mocha'' ''sweet'', bad_nested_form 2 ''Latte'' ''nice''],
        visited_store)"
proof -
  have forms: "favorite_item_forms bad_nested_request =
      [bind_item_form (example_item ''Latte'' [caption_only]),
       bind_item_form (example_item ''Mocha'' [caption_only])]"
    "formset_forms VisitPhotoFormSet (photos_data bad_nested_request) =
      [example_photo ''door.png'' ''door'']"
    by (simp_all add: formset_defs example_defs bad_nested_request_def)
  have cands: "nested_candidates (favorite_item_forms bad_nested_request) =
      [bind_item_form (example_item ''Latte'' [caption_only]),
       bind_item_form (example_item ''Mocha'' [caption_only])]"
    by (simp add: nested_candidates_def formset_defs example_defs caption_only_def
        bad_nested_request_def)
  have bad: "\<not> nested_ok (bind_item_form (example_item ''Latte'' [caption_only]))"
    by (simp add: nested_ok_def formset_defs example_defs caption_only_def)
  have cafe: "find (\<lambda>c. c_id c = 1) (cafes example_store) = Some \<lparr>c_id = 1, c_name = ''Cafe Luna''\<rparr>"
    by (simp add: example_store_def)
  note inst = nested_check_stops_at_first_invalid
    [where forms = "favorite_item_forms bad_nested_request" and req = bad_nested_request
      and cafe_pk = 1 and s = example_store and cafe = "\<lparr>c_id = 1, c_name = ''Cafe Luna''\<rparr>"
      and L = example_lib]
  from inst [THEN conjunct1] cands bad
  have first: "check_nested (favorite_item_forms bad_nested_request) =
     (False, [bind_item_form (example_item ''Latte'' [caption_only])])"
    by simp
  from cands bad have "\<not> list_all nested_ok (nested_candidates (favorite_item_forms bad_nested_request))"
    by simp
  with inst [THEN conjunct2, THEN conjunct2, THEN conjunct1] cafe
  have "VisitCreateView_post example_lib bad_nested_request 1 example_store =
       (CreateVisitPage ''project/create_visit.html''
          (formset_forms VisitPhotoFormSet (photos_data bad_nested_request))
          (favorite_item_forms bad_nested_request), example_store)"
    by blast
  then have create: "VisitCreateView_post example_lib bad_nested_request 1 example_store =
       (CreateVisitPage ''project/create_visit.html'' [example_photo ''door.png'' ''door'']
          [bind_item_form (example_item ''Latte'' [caption_only]),
           bind_item_form (example_item ''Mocha'' [caption_only])], example_store)"
    by (simp only: forms)
  let ?bad = "[bad_nested_form 1 ''Mocha'' ''sweet'', bad_nested_form 2 ''Latte'' ''nice'']"
  have caps: "formset_forms FavoriteItemFormSet ?bad = ?bad"
    "formset_forms VisitPhotoFormSet example_photo_forms = example_photo_forms"
    by (simp_all add: formset_defs example_photo_forms_def)
  note uinst = nested_check_stops_at_first_invalid
    [where uforms = "formset_forms FavoriteItemFormSet ?bad"
      and ureq = bad_nested_update_request and pk = 1 and s = visited_store
      and visit = visit_one and L = example_lib]
  have cand: "update_nested_candidates ?bad = ?bad"
    using bad_nested_forms_invalid(1) by (simp only: caps)
  have ufirst: "check_nested_update visited_store ?bad = (False, [bad_nested_form 1 ''Mocha'' ''sweet''])"
  proof -
    have "check_nested_update visited_store ?bad =
        (list_all (update_nested_ok visited_store) ?bad,
         takeWhile (update_nested_ok visited_store) ?bad
           @ take 1 (dropWhile (update_nested_ok visited_store) ?bad))"
      using uinst [THEN conjunct2, THEN conjunct1] by (simp only: caps cand)
    also have "\<dots> = (False, [bad_nested_form 1 ''Mocha'' ''sweet''])"
      using bad_nested_forms_invalid(2,3) by simp
    finally show ?thesis .
  qed
  from bad_nested_forms_invalid
  have "\<not> list_all (update_nested_ok visited_store) (update_nested_candidates
      (formset_forms FavoriteItemFormSet
         (update_favorite_item_formset bad_nested_update_request visit_one visited_store)))"
    by (simp add: bad_nested_forms_bound)
  with uinst [THEN conjunct2, THEN conjunct2, THEN conjunct2] find_visit_one
  have "VisitUpdateView_post example_lib bad_nested_update_request 1 visited_store =
        (UpdateVisitPage ''project/update_visit.html''
           (formset_forms VisitPhotoFormSet
              (update_visit_photo_formset bad_nested_update_request visit_one visited_store))
           (formset_forms FavoriteItemFormSet
              (update_favorite_item_formset bad_nested_update_request visit_one visited_store)),
         visited_store)"
    by blast
  then have update: "VisitUpdateView_post example_lib bad_nested_update_request 1 visited_store =
       (UpdateVisitPage ''project/update_visit.html'' example_photo_forms ?bad, visited_store)"
    by (simp only: bad_nested_forms_bound bad_nested_photo_forms_bound caps)
  from first create ufirst update show ?thesis by simp
qed

text \<open>
  Claim C2 as stated fails: two items, neither marked for deletion, each with a nested
  photo form that has a caption and no file. The check stops at the first
  (\<^verbatim>\<open>break\<close>); the nested formset of the second is not validated.
\<close>

theorem nested_check_second_item_counterexample:
  "items_data bad_nested_request =
      [example_item ''Latte'' [caption_only], example_item ''Mocha'' [caption_only]]
   \<and> \<not> if_DELETE (example_item ''Latte'' [caption_only])
   \<and> \<not> if_DELETE (example_item ''Mocha'' [caption_only])
   \<and> \<not> nested_is_valid (item_photos_data (example_item ''Latte'' [caption_only]))
   \<and> \<not> nested_is_valid (item_photos_data (example_item ''Mocha'' [caption_only]))
   \<and> check_nested (favorite_item_forms bad_nested_request) =
        (False, [bind_item_form (example_item ''Latte'' [caption_only])])
   \<and> bind_item_form (example_item ''Mocha'' [caption_only])
        \<notin> set (snd (check_nested (favorite_item_forms bad_nested_request)))"
  by (simp add: formset_defs example_defs caption_only_def bad_nested_request_def)

text \<open>The photo formset of a visit accepts any number of forms up to
  \<^verbatim>\<open>absolute_max\<close>: \<^verbatim>\<open>max_num\<close> plays no part in its validation.\<close>

lemma visit_photo_formset_ignores_max_num:
  "formset_is_valid VisitPhotoFormSet photo_form_is_valid pf_DELETE data \<longleftrightarrow>
     list_all (\<lambda>f. pf_DELETE f \<or> photo_form_is_valid f) data \<and> length data \<le> 1005"
  by (auto simp: formset_is_valid_def formset_forms_def VisitPhotoFormSet_def
      inlineformset_factory_def Let_def)

lemma six_photo_forms_valid:
  "formset_is_valid VisitPhotoFormSet photo_form_is_valid pf_DELETE (photos_data six_photos_request)"
  by (simp add: formset_defs example_defs six_photos_request_def)

text \<open>
  Claim C3 against the code: six VisitPhoto forms, each with an image. The formset is
  built with \<^verbatim>\<open>max_num=5\<close> and without \<^verbatim>\<open>validate_max\<close>, so its \<^verbatim>\<open>is_valid()\<close> does not
  count the forms; the request is answered with the redirect and six VisitPhoto rows are
  written.
\<close>

theorem six_visit_photos_saved:
  "length (photos_data six_photos_request) = 6
   \<and> list_all photo_submitted (photos_data six_photos_request)
   \<and> max_num VisitPhotoFormSet = 5
   \<and> fst (VisitCreateView_post example_lib six_photos_request 1 example_store) =
       HttpResponseRedirect ''visit_detail'' 2
   \<and> map vp_image (visit_photos (snd (VisitCreateView_post example_lib six_photos_request 1 example_store))) =
       [''visit_photos/1.png'', ''visit_photos/2.png'', ''visit_photos/3.png'',
        ''visit_photos/4.png'', ''visit_photos/5.png'', ''visit_photos/6.png'']"
  by (simp add: view_defs formset_defs example_defs six_photos_request_def photo_submitted_def
      Let_def)

lemma visit_written_visits: "visits (visit_written s v vps its ips) = visits s @ [v]"
  by (simp add: visit_written_def)

lemma log_visit_block_body_keys:
  "log_visit_block L req cafe (JObj ((''profile'', x) # (''cafe'', y) # kv)) s =
   log_visit_block L req cafe (JObj kv) s"
proof -
  have a: "get_list (JObj ((''profile'', x) # (''cafe'', y) # kv)) ''visitPhotos'' =
      get_list (JObj kv) ''visitPhotos''"
    by (simp add: get_list_def)
  have b: "get_list (JObj ((''profile'', x) # (''cafe'', y) # kv)) ''favoriteItems'' =
      get_list (JObj kv) ''favoriteItems''"
    by (simp add: get_list_def)
  show ?thesis
    unfolding log_visit_block_def by (simp only: a b)
qed

lemma log_visit_post_body_keys:
  "LogCafeVisitView_post L
     (req\<lparr>dynamic_data := Decoded (JObj ((''profile'', x) # (''cafe'', y) # kv))\<rparr>) cafe_pk s =
   LogCafeVisitView_post L (req\<lparr>dynamic_data := Decoded (JObj kv)\<rparr>) cafe_pk s"
proof -
  have blk: "\<And>cafe d. log_visit_block L (req\<lparr>dynamic_data := d\<rparr>) cafe = log_visit_block L req cafe"
    by (intro ext)
      (simp add: log_visit_block_def cong: option.case_cong prod.case_cong sum.case_cong)
  have eq: "\<And>cafe. atomic (log_visit_block L req cafe (JObj ((''profile'', x) # (''cafe'', y) # kv))) s =
      atomic (log_visit_block L req cafe (JObj kv)) s"
    by (simp only: atomic_def log_visit_block_body_keys)
  show ?thesis
  proof (cases "find (\<lambda>c. c_id c = cafe_pk) (cafes s)")
    case None
    then show ?thesis by (simp add: LogCafeVisitView_post_def)
  next
    case (Some cafe)
    then show ?thesis
      by (simp add: LogCafeVisitView_post_def blk eq)
  qed
qed

text \<open>
  Claim C4. A request that creates a Visit, under Protocol A or Protocol B, appends one
  Visit whose profile is the acting user's and whose cafe is the cafe of the route. Two
  requests that differ only in what \<^verbatim>\<open>request.POST\<close> holds under \<^verbatim>\<open>profile\<close> and \<^verbatim>\<open>cafe\<close> get
  the same response and leave the same store, and so do two Protocol B requests of which
  one carries \<^verbatim>\<open>profile\<close> and \<^verbatim>\<open>cafe\<close> entries in its JSON document.
\<close>

theorem visit_owner_is_acting_user:
  "(VisitCreateView_post L reqA cafe_pk s = (HttpResponseRedirect ''visit_detail'' pk, sA) \<longrightarrow>
      (\<exists>v. visits sA = visits s @ [v] \<and> v_id v = pk
          \<and> cafe_profile reqA = Some (v_profile v) \<and> v_cafe v = cafe_pk))
   \<and> (LogCafeVisitView_post L reqB cafe_pk s = (respB, sB) \<and> status_code respB = 200 \<longrightarrow>
      (\<exists>v. visits sB = visits s @ [v]
          \<and> cafe_profile reqB = Some (v_profile v) \<and> v_cafe v = cafe_pk))
   \<and> ((\<forall>k. k \<noteq> ''profile'' \<and> k \<noteq> ''cafe'' \<longrightarrow> P1 k = P2 k) \<longrightarrow>
        VisitCreateView_post L (reqA\<lparr>POST := P1\<rparr>) cafe_pk s =
          VisitCreateView_post L (reqA\<lparr>POST := P2\<rparr>) cafe_pk s
        \<and> LogCafeVisitView_post L (reqB\<lparr>POST := P1\<rparr>) cafe_pk s =
          LogCafeVisitView_post L (reqB\<lparr>POST := P2\<rparr>) cafe_pk s)
   \<and> LogCafeVisitView_post L
        (reqB\<lparr>dynamic_data := Decoded (JObj ((''profile'', x) # (''cafe'', y) # kv))\<rparr>) cafe_pk s =
      LogCafeVisitView_post L (reqB\<lparr>dynamic_data := Decoded (JObj kv)\<rparr>) cafe_pk s"
proof (intro conjI impI)
  assume a: "VisitCreateView_post L reqA cafe_pk s = (HttpResponseRedirect ''visit_detail'' pk, sA)"
  from visit_create_post_cases [OF a] obtain cafe cd v where
    cafe: "find (\<lambda>c. c_id c = cafe_pk) (cafes s) = Some cafe"
    and blk: "visit_create_block L reqA cafe cd s = (Inr v, sA)"
    and pk: "pk = v_id v"
    by auto
  from visit_create_block_success [OF blk] find_cafe_id [OF cafe] pk
  show "\<exists>v. visits sA = visits s @ [v] \<and> v_id v = pk
          \<and> cafe_profile reqA = Some (v_profile v) \<and> v_cafe v = cafe_pk"
    by (auto simp: visit_written_visits)
next
  assume b: "LogCafeVisitView_post L reqB cafe_pk s = (respB, sB) \<and> status_code respB = 200"
  then have post: "LogCafeVisitView_post L reqB cafe_pk s = (respB, sB)"
    and st: "status_code respB = 200" by simp_all
  from log_visit_post_cases [OF post] st obtain cafe data v where
    cafe: "find (\<lambda>c. c_id c = cafe_pk) (cafes s) = Some cafe"
    and blk: "log_visit_block L reqB cafe data s = (Inr v, sB)"
    by auto
  from log_visit_block_success [OF blk] find_cafe_id [OF cafe]
  show "\<exists>v. visits sB = visits s @ [v]
          \<and> cafe_profile reqB = Some (v_profile v) \<and> v_cafe v = cafe_pk"
    by (auto simp: visit_written_visits)
next
  assume p: "\<forall>k. k \<noteq> ''profile'' \<and> k \<noteq> ''cafe'' \<longrightarrow> P1 k = P2 k"
  then show "VisitCreateView_post L (reqA\<lparr>POST := P1\<rparr>) cafe_pk s =
          VisitCreateView_post L (reqA\<lparr>POST := P2\<rparr>) cafe_pk s"
    by (rule visit_create_post_POST)
  from p show "LogCafeVisitView_post L (reqB\<lparr>POST := P1\<rparr>) cafe_pk s =
          LogCafeVisitView_post L (reqB\<lparr>POST := P2\<rparr>) cafe_pk s"
    by (rule log_visit_post_POST)
next
  show "LogCafeVisitView_post L
        (reqB\<lparr>dynamic_data := Decoded (JObj ((''profile'', x) # (''cafe'', y) # kv))\<rparr>) cafe_pk s =
      LogCafeVisitView_post L (reqB\<lparr>dynamic_data := Decoded (JObj kv)\<rparr>) cafe_pk s"
    by (rule log_visit_post_body_keys)
qed

text \<open>The example requests carry \<^verbatim>\<open>profile = 8\<close> and \<^verbatim>\<open>cafe = 9\<close> in the body; the
  acting user's profile is 7 and the route's cafe is 1.\<close>

theorem visit_owner_is_acting_user_witness:
  "POST example_form_request ''profile'' = Some ''8''
   \<and> POST example_form_request ''cafe'' = Some ''9''
   \<and> (\<exists>v. visits (snd (VisitCreateView_post example_lib example_form_request 1 example_store)) =
            visits example_store @ [v] \<and> v_id v = 2 \<and> v_profile v = 7 \<and> v_cafe v = 1)
   \<and> (\<exists>v. visits (snd (LogCafeVisitView_post example_lib example_log_request 1 example_store)) =
            visits example_store @ [v] \<and> v_profile v = 7 \<and> v_cafe v = 1)
   \<and> VisitCreateView_post example_lib
        (example_form_request\<lparr>POST := (POST example_form_request)(''profile'' := None, ''cafe'' := None)\<rparr>)
        1 example_store =
      VisitCreateView_post example_lib example_form_request 1 example_store"
proof -
  let ?A = "VisitCreateView_post example_lib example_form_request 1 example_store"
  let ?B = "LogCafeVisitView_post example_lib example_log_request 1 example_store"
  have body: "POST example_form_request ''profile'' = Some ''8''"
    "POST example_form_request ''cafe'' = Some ''9''"
    by (simp_all add: example_form_request_def)
  have prof: "cafe_profile example_form_request = Some 7" "cafe_profile example_log_request = Some 7"
    by (simp_all add: example_form_request_def example_log_request_def)
  have eqA: "?A = (HttpResponseRedirect ''visit_detail'' 2, snd ?A)"
    by (simp only: example_form_request_saved snd_conv)
  from visit_owner_is_acting_user [THEN conjunct1, rule_format, OF eqA] prof
  have a: "\<exists>v. visits (snd ?A) = visits example_store @ [v] \<and> v_id v = 2 \<and> v_profile v = 7
      \<and> v_cafe v = 1"
    by auto
  have eqB: "?B = (fst ?B, snd ?B) \<and> status_code (fst ?B) = 200"
    by (simp only: log_visit_example fst_conv snd_conv status_code.simps)
  from visit_owner_is_acting_user [THEN conjunct2, THEN conjunct1, rule_format, OF eqB] prof
  have b: "\<exists>v. visits (snd ?B) = visits example_store @ [v] \<and> v_profile v = 7 \<and> v_cafe v = 1"
    by auto
  have "\<forall>k. k \<noteq> ''profile'' \<and> k \<noteq> ''cafe'' \<longrightarrow>
      ((POST example_form_request)(''profile'' := None, ''cafe'' := None)) k = POST example_form_request k"
    by simp
  from visit_owner_is_acting_user [where reqA = example_form_request and L = example_lib
      and cafe_pk = 1 and s = example_store
      and ?P1.0 = "(POST example_form_request)(''profile'' := None, ''cafe'' := None)"
      and ?P2.0 = "POST example_form_request",
      THEN conjunct2, THEN conjunct2, THEN conjunct1, THEN mp, OF this, THEN conjunct1]
  have c: "VisitCreateView_post example_lib
        (example_form_request\<lparr>POST := (POST example_form_request)(''profile'' := None, ''cafe'' := None)\<rparr>)
        1 example_store =
      VisitCreateView_post example_lib (example_form_request\<lparr>POST := POST example_form_request\<rparr>)
        1 example_store"
    .
  have "example_form_request\<lparr>POST := POST example_form_request\<rparr> = example_form_request"
    by simp
  with c body a b show ?thesis by simp
qed

section \<open>Further properties\<close>

text \<open>
  An Update request that names an existing Sticker and gives the four fields as numbers
  overwrites \<^verbatim>\<open>x_position\<close>, \<^verbatim>\<open>y_position\<close>, \<^verbatim>\<open>rotation\<close> and \<^verbatim>\<open>scale\<close> of that Sticker's row
  and nothing else: its image, type and visit stay, and so does every other row.
\<close>

theorem update_sticker_overwrites:
  assumes "map_of kv ''sticker_id'' = Some v" and "to_pk L v = Inr key"
    and "find (\<lambda>r. int (st_id r) = key) (stickers s) = Some sticker"
    and "map_of kv ''x'' = Some (JNum x)" and "map_of kv ''y'' = Some (JNum y)"
    and "map_of kv ''rotation'' = Some (JNum rot)" and "map_of kv ''scale'' = Some (JNum sc)"
  shows "UpdateStickerView_post L (Some (JObj kv)) s =
     (JsonResponse [(''status'', JStr ''success'')] 200,
      s\<lparr>stickers := map (\<lambda>r. if st_id r = st_id sticker
                                then sticker\<lparr>x_position := x, y_position := y,
                                             rotation := rot, scale := sc\<rparr>
                                else r) (stickers s)\<rparr>)"
  using assms
  by (simp add: UpdateStickerView_post_def update_sticker_try_def update_sticker_row_def
      float_get_def dict_get_def get_object_or_404_def save_sticker_def)

theorem update_sticker_overwrites_witness:
  "UpdateStickerView_post example_lib
      (Some (JObj [(''sticker_id'', JNum (Finite 1)), (''x'', JNum (Finite 10)),
                   (''y'', JNum (Finite 20)), (''rotation'', JNum (Finite 5)),
                   (''scale'', JNum (Finite 2))])) example_store =
     (JsonResponse [(''status'', JStr ''success'')] 200,
      example_store\<lparr>stickers := [\<lparr>st_id = 1, st_visit = 1, st_type = 1, x_position = Finite 10,
                     y_position = Finite 20, rotation = Finite 5, scale = Finite 2,
                     st_image = ''sticker_options/heart.png''\<rparr>]\<rparr>)"
  using update_sticker_overwrites [where L = example_lib and s = example_store
      and kv = "[(''sticker_id'', JNum (Finite 1)), (''x'', JNum (Finite 10)),
                   (''y'', JNum (Finite 20)), (''rotation'', JNum (Finite 5)),
                   (''scale'', JNum (Finite 2))]"
      and v = "JNum (Finite 1)" and key = 1
      and sticker = "\<lparr>st_id = 1, st_visit = 1, st_type = 1, x_position = Finite 3,
                     y_position = Finite 4, rotation = Finite 0, scale = Finite 1,
                     st_image = ''sticker_options/heart.png''\<rparr>"
      and x = "Finite 10" and y = "Finite 20" and rot = "Finite 5" and sc = "Finite 2"]
  by (simp add: example_lib_def example_store_def)

text \<open>
  A Protocol A submission that leaves \<^verbatim>\<open>amount_spent\<close> blank passes validation (the form
  field is not required) and then fails inside the transaction: the column is not
  nullable, the insert of the Visit raises IntegrityError, which leaves the view, and
  nothing is written.
\<close>

lemma blank_amount_clean:
  "field_value post ''amount_spent'' = [] \<Longrightarrow> VisitForm_clean L post = Some cd \<Longrightarrow>
   cd_amount_spent cd = None"
  by (auto simp: VisitForm_clean_def split: option.splits if_splits)

theorem blank_amount_fails_in_transaction:
  assumes "find (\<lambda>c. c_id c = cafe_pk) (cafes s) = Some cafe"
    and "cafe_profile req = Some profile"
    and "VisitForm_clean L (POST req) = Some cd" and "cd_amount_spent cd = None"
    and "formset_is_valid VisitPhotoFormSet photo_form_is_valid pf_DELETE (photos_data req)"
    and "formset_is_valid FavoriteItemFormSet (item_form_is_valid L) if_DELETE (items_data req)"
    and "fst (check_nested (favorite_item_forms req))"
  shows "VisitCreateView_post L req cafe_pk s = (HttpResponseServerError IntegrityError, s)"
  using assms
  by (simp add: VisitCreateView_post_def VisitCreateView_form_valid_def VisitForm_is_valid_def
      atomic_def visit_create_block_def save_visit_def)

theorem blank_amount_fails_in_transaction_witness:
  "VisitForm_is_valid example_lib
     ((POST example_form_request)(''amount_spent'' := None))
   \<and> VisitCreateView_post example_lib
        (example_form_request\<lparr>POST := (POST example_form_request)(''amount_spent'' := None)\<rparr>)
        1 example_store =
      (HttpResponseServerError IntegrityError, example_store)"
proof -
  let ?req = "example_form_request\<lparr>POST := (POST example_form_request)(''amount_spent'' := None)\<rparr>"
  have cd: "VisitForm_clean example_lib (POST ?req) =
      Some \<lparr>cd_date_visited = (2025, 11, 24), cd_user_rating = 4, cd_amount_spent = None,
            cd_notes = ''cosy''\<rparr>"
    by (simp add: VisitForm_clean_def field_value_def example_defs)
  have "VisitCreateView_post example_lib ?req 1 example_store =
      (HttpResponseServerError IntegrityError, example_store)"
    by (rule blank_amount_fails_in_transaction [OF _ _ cd])
      (simp_all add: formset_defs example_defs check_nested_eq nested_candidates_def nested_ok_def)
  moreover have "VisitForm_is_valid example_lib ((POST example_form_request)(''amount_spent'' := None))"
    using cd by (simp add: VisitForm_is_valid_def)
  ultimately show ?thesis by simp
qed

end
